theory Spec2Isabelle
  imports Complex_Main "HOL-Library.Word" "HOL-Library.Sublist"
begin

section \<open>TinyG configuration engine (config.c, build 331.02)\<close>

text \<open>
  A shallow embedding of \<^verbatim>\<open>firmware/tinyg_331.02/config.c\<close>: the descriptor table
  \<^verbatim>\<open>cfgArray\<close>, the name and token resolvers, the typed get/set bindings, group
  expansion, the EEPROM (NVM) value store, \<^verbatim>\<open>cfg_init\<close> and the text command parser.

  Conventions of the embedding.
  \<^item> A C \<^verbatim>\<open>double\<close> is a \<^typ>\<open>real\<close>: arithmetic is exact, rounding, infinities and
    NaN are not represented.
  \<^item> A C string is a \<^typ>\<open>string\<close> without its terminating NUL; \<^verbatim>\<open>s[k]\<close> at the
    terminator reads NUL.
  \<^item> \<^verbatim>\<open>INDEX_T\<close> is signed (the code tests \<^verbatim>\<open>i < 0\<close>) and is an \<^typ>\<open>int\<close>; the
    result \<^verbatim>\<open>-1\<close> of the resolvers is kept as \<open>-1\<close>.
  \<^item> Function pointers of the table are tags (\<open>Get_ui8\<close> for \<^verbatim>\<open>_get_ui8\<close>, ...),
    dispatched by \<open>cmd_get\<close>, \<open>cmd_set\<close> and \<open>cmd_print\<close>. A leading underscore of a
    C name is dropped.
  \<^item> Text written to \<^verbatim>\<open>stderr\<close> is not part of the state.
\<close>

subsection \<open>Descriptor table\<close>

datatype fptrPrint =
  Print_nul | Print_ui8 | Print_int | Print_dbl | Print_lin | Print_rot | Print_am | Print_grp

datatype fptrGet =
  Get_ui8 | Get_int | Get_dbl | Get_dbu | Get_unit | Get_sr | Get_si | Get_gc | Get_stat
  | Get_vel | Get_abs | Get_pos | Get_am | Get_grp | Get_sys | Get_qm

datatype fptrSet =
  Set_nul | Set_ui8 | Set_int | Set_dbl | Set_dbu | Set_sr | Set_si | Run_gc
  | Set_ic | Set_il | Set_ec | Set_ee | Set_ex | Set_sa | Set_mi | Set_po | Set_grp

datatype motor_field =
  Motor_map | Step_angle | Travel_rev | Microsteps | Polarity | Power_mode | Steps_per_unit

datatype axis_field =
  Axis_mode | Feedrate_max | Velocity_max | Travel_max | Jerk_max | Junction_dev | Radius
  | Switch_mode | Search_velocity | Latch_velocity | Zero_offset

text \<open>The memory locations the table's \<^verbatim>\<open>target\<close> pointers name (fields of the
  structs \<^verbatim>\<open>cfg\<close>, \<^verbatim>\<open>tg\<close>, \<^verbatim>\<open>cm\<close> and \<^verbatim>\<open>gm\<close>).
  \<open>Cfg_m m Steps_per_unit\<close> is written by \<^verbatim>\<open>_set_motor_steps_per_unit\<close> only.\<close>

datatype target =
  Cfg_version | Tg_version | Tg_build | Tg_null | Cm_linenum | Cm_machine_state | Gm_units_mode
  | Cfg_status_report_interval | Cfg_select_plane | Cfg_units_mode | Cfg_coord_system
  | Cfg_path_control | Cfg_distance_mode | Cfg_enable_acceleration | Cfg_junction_acceleration
  | Cfg_min_segment_len | Cfg_arc_segment_len | Cfg_estd_segment_usec
  | Cfg_ignore_cr | Cfg_ignore_lf | Cfg_enable_cr | Cfg_enable_echo | Cfg_enable_xon
  | Cfg_m nat motor_field | Cfg_a nat axis_field | Cfg_offset nat nat
  | Cfg_status_report_spec nat

text \<open>Modelled from the spec: the enumerations of motors, axes and coordinate systems are
  declared in headers that are not under src/. \<^verbatim>\<open>_get_motor\<close> indexes \<^verbatim>\<open>cfg.m\<close> by
  the position of the token's first character in \<^verbatim>\<open>"1234"\<close>, so \<^verbatim>\<open>MOTOR_1\<close> is 0;
  axes are numbered in the order \<^verbatim>\<open>"xyzabc"\<close> of \<^verbatim>\<open>_get_axis\<close>.\<close>

abbreviation (input) MOTOR_1 :: nat where "MOTOR_1 \<equiv> 0"
abbreviation (input) MOTOR_2 :: nat where "MOTOR_2 \<equiv> 1"
abbreviation (input) MOTOR_3 :: nat where "MOTOR_3 \<equiv> 2"
abbreviation (input) MOTOR_4 :: nat where "MOTOR_4 \<equiv> 3"
abbreviation (input) AXIS_X :: nat where "AXIS_X \<equiv> 0"
abbreviation (input) AXIS_Y :: nat where "AXIS_Y \<equiv> 1"
abbreviation (input) AXIS_Z :: nat where "AXIS_Z \<equiv> 2"
abbreviation (input) AXIS_A :: nat where "AXIS_A \<equiv> 3"
abbreviation (input) AXIS_B :: nat where "AXIS_B \<equiv> 4"
abbreviation (input) AXIS_C :: nat where "AXIS_C \<equiv> 5"
abbreviation (input) G54 :: nat where "G54 \<equiv> 1"
abbreviation (input) G55 :: nat where "G55 \<equiv> 2"
abbreviation (input) G56 :: nat where "G56 \<equiv> 3"
abbreviation (input) G57 :: nat where "G57 \<equiv> 4"
abbreviation (input) G58 :: nat where "G58 \<equiv> 5"
abbreviation (input) G59 :: nat where "G59 \<equiv> 6"

text \<open>A default value of the table is either the literal \<^verbatim>\<open>0\<close> or a macro of
  \<^verbatim>\<open>settings.h\<close> / \<^verbatim>\<open>tinyg.h\<close>, which are not under src/: the macro is kept by
  name and its value is looked up in the parameter \<open>settings\<close> of the model.\<close>

datatype defval = Lit0 | Macro string

text \<open>\<^verbatim>\<open>struct cfgItem\<close>. \<open>item_string\<close> is the combined string up to and including its
  second comma (token, friendly name); the format text that follows is read by the print
  functions only.\<close>

datatype cfgItem =
  CfgItem (item_string: string) (item_print: fptrPrint) (item_get: fptrGet)
    (item_set: fptrSet) (item_target: target) (item_def_value: defval)

definition cfgArray :: "cfgItem list" where
  "cfgArray = [
  CfgItem ''fc,config_v,'' Print_dbl Get_dbl Set_nul Cfg_version (Macro ''TINYG_CONFIG_VERSION''),
  CfgItem ''fv,firmware_v,'' Print_dbl Get_dbl Set_nul Tg_version (Macro ''TINYG_VERSION_NUMBER''),
  CfgItem ''fb,firmware_b,'' Print_dbl Get_dbl Set_nul Tg_build (Macro ''TINYG_BUILD_NUMBER''),
  CfgItem ''line,line_number,'' Print_int Get_int Set_int Cm_linenum Lit0,
  CfgItem ''stat,machine_state,'' Print_ui8 Get_stat Set_nul Cm_machine_state Lit0,
  CfgItem ''vel,velocity,'' Print_lin Get_vel Set_nul Tg_null Lit0,
  CfgItem ''unit,unit,'' Print_nul Get_unit Set_nul Gm_units_mode Lit0,
  CfgItem ''sr,status_r,'' Print_nul Get_sr Set_sr Tg_null Lit0,
  CfgItem ''si,status_i,'' Print_dbl Get_si Set_si Cfg_status_report_interval (Macro ''STATUS_REPORT_INTERVAL_MS''),
  CfgItem ''gc,gcod,'' Print_nul Get_gc Run_gc Tg_null Lit0,
  CfgItem ''gpl,gcode_pl,'' Print_ui8 Get_ui8 Set_ui8 Cfg_select_plane (Macro ''GCODE_DEFAULT_PLANE''),
  CfgItem ''gun,gcode_u,'' Print_ui8 Get_ui8 Set_ui8 Cfg_units_mode (Macro ''GCODE_DEFAULT_UNITS''),
  CfgItem ''gco,gcode_c,'' Print_ui8 Get_ui8 Set_ui8 Cfg_coord_system (Macro ''GCODE_DEFAULT_COORD_SYSTEM''),
  CfgItem ''gpa,gcode_pa,'' Print_ui8 Get_ui8 Set_ui8 Cfg_path_control (Macro ''GCODE_DEFAULT_PATH_CONTROL''),
  CfgItem ''gdi,gcode_d,'' Print_ui8 Get_ui8 Set_ui8 Cfg_distance_mode (Macro ''GCODE_DEFAULT_DISTANCE_MODE''),
  CfgItem ''ea,enable_a,'' Print_ui8 Get_ui8 Set_ui8 Cfg_enable_acceleration (Macro ''ENABLE_ACCELERATION''),
  CfgItem ''ja,junc,'' Print_lin Get_dbu Set_dbu Cfg_junction_acceleration (Macro ''JUNCTION_ACCELERATION''),
  CfgItem ''ml,min_l,'' Print_lin Get_dbu Set_dbu Cfg_min_segment_len (Macro ''MIN_LINE_LENGTH''),
  CfgItem ''ma,min_a,'' Print_lin Get_dbu Set_dbu Cfg_arc_segment_len (Macro ''MM_PER_ARC_SEGMENT''),
  CfgItem ''mt,min_s,'' Print_lin Get_dbl Set_dbl Cfg_estd_segment_usec (Macro ''ESTD_SEGMENT_USEC''),
  CfgItem ''ic,ignore_c,'' Print_ui8 Get_ui8 Set_ic Cfg_ignore_cr (Macro ''COM_IGNORE_RX_CR''),
  CfgItem ''il,ignore_l,'' Print_ui8 Get_ui8 Set_il Cfg_ignore_lf (Macro ''COM_IGNORE_RX_LF''),
  CfgItem ''ec,enable_c,'' Print_ui8 Get_ui8 Set_ec Cfg_enable_cr (Macro ''COM_APPEND_TX_CR''),
  CfgItem ''ee,enable_e,'' Print_ui8 Get_ui8 Set_ee Cfg_enable_echo (Macro ''COM_ENABLE_ECHO''),
  CfgItem ''ex,enable_x,'' Print_ui8 Get_ui8 Set_ex Cfg_enable_xon (Macro ''COM_ENABLE_XON''),
  CfgItem ''1ma,m1_ma,'' Print_ui8 Get_ui8 Set_ui8 (Cfg_m MOTOR_1 Motor_map) (Macro ''M1_MOTOR_MAP''),
  CfgItem ''1sa,m1_s,'' Print_rot Get_dbl Set_sa (Cfg_m MOTOR_1 Step_angle) (Macro ''M1_STEP_ANGLE''),
  CfgItem ''1tr,m1_tr,'' Print_lin Get_dbl Set_sa (Cfg_m MOTOR_1 Travel_rev) (Macro ''M1_TRAVEL_PER_REV''),
  CfgItem ''1mi,m1_mi,'' Print_ui8 Get_ui8 Set_mi (Cfg_m MOTOR_1 Microsteps) (Macro ''M1_MICROSTEPS''),
  CfgItem ''1po,m1_pol,'' Print_ui8 Get_ui8 Set_po (Cfg_m MOTOR_1 Polarity) (Macro ''M1_POLARITY''),
  CfgItem ''1pm,m1_pow,'' Print_ui8 Get_ui8 Set_ui8 (Cfg_m MOTOR_1 Power_mode) (Macro ''M1_POWER_MODE''),
  CfgItem ''2ma,m2_ma,'' Print_ui8 Get_ui8 Set_ui8 (Cfg_m MOTOR_2 Motor_map) (Macro ''M2_MOTOR_MAP''),
  CfgItem ''2sa,m2_s,'' Print_rot Get_dbl Set_sa (Cfg_m MOTOR_2 Step_angle) (Macro ''M2_STEP_ANGLE''),
  CfgItem ''2tr,m2_tr,'' Print_lin Get_dbl Set_sa (Cfg_m MOTOR_2 Travel_rev) (Macro ''M2_TRAVEL_PER_REV''),
  CfgItem ''2mi,m2_mi,'' Print_ui8 Get_ui8 Set_mi (Cfg_m MOTOR_2 Microsteps) (Macro ''M2_MICROSTEPS''),
  CfgItem ''2po,m2_pol,'' Print_ui8 Get_ui8 Set_po (Cfg_m MOTOR_2 Polarity) (Macro ''M2_POLARITY''),
  CfgItem ''2pm,m2_pow,'' Print_ui8 Get_ui8 Set_ui8 (Cfg_m MOTOR_2 Power_mode) (Macro ''M2_POWER_MODE''),
  CfgItem ''3ma,m3_ma,'' Print_ui8 Get_ui8 Set_ui8 (Cfg_m MOTOR_3 Motor_map) (Macro ''M3_MOTOR_MAP''),
  CfgItem ''3sa,m3_s,'' Print_rot Get_dbl Set_sa (Cfg_m MOTOR_3 Step_angle) (Macro ''M3_STEP_ANGLE''),
  CfgItem ''3tr,m3_tr,'' Print_lin Get_dbl Set_sa (Cfg_m MOTOR_3 Travel_rev) (Macro ''M3_TRAVEL_PER_REV''),
  CfgItem ''3mi,m3_mi,'' Print_ui8 Get_ui8 Set_mi (Cfg_m MOTOR_3 Microsteps) (Macro ''M3_MICROSTEPS''),
  CfgItem ''3po,m3_pol,'' Print_ui8 Get_ui8 Set_po (Cfg_m MOTOR_3 Polarity) (Macro ''M3_POLARITY''),
  CfgItem ''3pm,m3_pow,'' Print_ui8 Get_ui8 Set_ui8 (Cfg_m MOTOR_3 Power_mode) (Macro ''M3_POWER_MODE''),
  CfgItem ''4ma,m4_ma,'' Print_ui8 Get_ui8 Set_ui8 (Cfg_m MOTOR_4 Motor_map) (Macro ''M4_MOTOR_MAP''),
  CfgItem ''4sa,m4_s,'' Print_rot Get_dbl Set_sa (Cfg_m MOTOR_4 Step_angle) (Macro ''M4_STEP_ANGLE''),
  CfgItem ''4tr,m4_tr,'' Print_lin Get_dbl Set_sa (Cfg_m MOTOR_4 Travel_rev) (Macro ''M4_TRAVEL_PER_REV''),
  CfgItem ''4mi,m4_mi,'' Print_ui8 Get_ui8 Set_mi (Cfg_m MOTOR_4 Microsteps) (Macro ''M4_MICROSTEPS''),
  CfgItem ''4po,m4_pol,'' Print_ui8 Get_ui8 Set_po (Cfg_m MOTOR_4 Polarity) (Macro ''M4_POLARITY''),
  CfgItem ''4pm,m4_pow,'' Print_ui8 Get_ui8 Set_ui8 (Cfg_m MOTOR_4 Power_mode) (Macro ''M4_POWER_MODE''),
  CfgItem ''xam,x_a,'' Print_am Get_am Set_ui8 (Cfg_a AXIS_X Axis_mode) (Macro ''X_AXIS_MODE''),
  CfgItem ''xfr,x_f,'' Print_lin Get_dbu Set_dbu (Cfg_a AXIS_X Feedrate_max) (Macro ''X_FEEDRATE_MAX''),
  CfgItem ''xvm,x_v,'' Print_lin Get_dbu Set_dbu (Cfg_a AXIS_X Velocity_max) (Macro ''X_VELOCITY_MAX''),
  CfgItem ''xtm,x_t,'' Print_lin Get_dbu Set_dbu (Cfg_a AXIS_X Travel_max) (Macro ''X_TRAVEL_MAX''),
  CfgItem ''xjm,x_je,'' Print_lin Get_dbu Set_dbu (Cfg_a AXIS_X Jerk_max) (Macro ''X_JERK_MAX''),
  CfgItem ''xjd,x_ju,'' Print_lin Get_dbu Set_dbu (Cfg_a AXIS_X Junction_dev) (Macro ''X_JUNCTION_DEVIATION''),
  CfgItem ''xsm,x_s,'' Print_ui8 Get_ui8 Set_ui8 (Cfg_a AXIS_X Switch_mode) (Macro ''X_SWITCH_MODE''),
  CfgItem ''xsv,x_s,'' Print_lin Get_dbu Set_dbu (Cfg_a AXIS_X Search_velocity) (Macro ''X_SEARCH_VELOCITY''),
  CfgItem ''xlv,x_l,'' Print_lin Get_dbu Set_dbu (Cfg_a AXIS_X Latch_velocity) (Macro ''X_LATCH_VELOCITY''),
  CfgItem ''xzo,x_z,'' Print_lin Get_dbu Set_dbu (Cfg_a AXIS_X Zero_offset) (Macro ''X_ZERO_OFFSET''),
  CfgItem ''xabs,x_ab,'' Print_lin Get_abs Set_nul Tg_null Lit0,
  CfgItem ''xpos,x_po,'' Print_lin Get_pos Set_nul Tg_null Lit0,
  CfgItem ''yam,y_a,'' Print_am Get_am Set_ui8 (Cfg_a AXIS_Y Axis_mode) (Macro ''Y_AXIS_MODE''),
  CfgItem ''yfr,y_f,'' Print_lin Get_dbu Set_dbu (Cfg_a AXIS_Y Feedrate_max) (Macro ''Y_FEEDRATE_MAX''),
  CfgItem ''yvm,y_v,'' Print_lin Get_dbu Set_dbu (Cfg_a AXIS_Y Velocity_max) (Macro ''Y_VELOCITY_MAX''),
  CfgItem ''ytm,y_t,'' Print_lin Get_dbu Set_dbu (Cfg_a AXIS_Y Travel_max) (Macro ''Y_TRAVEL_MAX''),
  CfgItem ''yjm,y_je,'' Print_lin Get_dbu Set_dbu (Cfg_a AXIS_Y Jerk_max) (Macro ''Y_JERK_MAX''),
  CfgItem ''yjd,y_ju,'' Print_lin Get_dbu Set_dbu (Cfg_a AXIS_Y Junction_dev) (Macro ''Y_JUNCTION_DEVIATION''),
  CfgItem ''ysm,y_s,'' Print_ui8 Get_ui8 Set_ui8 (Cfg_a AXIS_Y Switch_mode) (Macro ''Y_SWITCH_MODE''),
  CfgItem ''ysv,y_s,'' Print_lin Get_dbu Set_dbu (Cfg_a AXIS_Y Search_velocity) (Macro ''Y_SEARCH_VELOCITY''),
  CfgItem ''ylv,y_l,'' Print_lin Get_dbu Set_dbu (Cfg_a AXIS_Y Latch_velocity) (Macro ''Y_LATCH_VELOCITY''),
  CfgItem ''yzo,y_z,'' Print_lin Get_dbu Set_dbu (Cfg_a AXIS_Y Zero_offset) (Macro ''Y_ZERO_OFFSET''),
  CfgItem ''yabs,y_ab,'' Print_lin Get_abs Set_nul Tg_null Lit0,
  CfgItem ''ypos,y_po,'' Print_lin Get_pos Set_nul Tg_null Lit0,
  CfgItem ''zam,z_a,'' Print_am Get_am Set_ui8 (Cfg_a AXIS_Z Axis_mode) (Macro ''Z_AXIS_MODE''),
  CfgItem ''zfr,z_f,'' Print_lin Get_dbu Set_dbu (Cfg_a AXIS_Z Feedrate_max) (Macro ''Z_FEEDRATE_MAX''),
  CfgItem ''zvm,z_v,'' Print_lin Get_dbu Set_dbu (Cfg_a AXIS_Z Velocity_max) (Macro ''Z_VELOCITY_MAX''),
  CfgItem ''ztm,z_t,'' Print_lin Get_dbu Set_dbu (Cfg_a AXIS_Z Travel_max) (Macro ''Z_TRAVEL_MAX''),
  CfgItem ''zjm,z_je,'' Print_lin Get_dbu Set_dbu (Cfg_a AXIS_Z Jerk_max) (Macro ''Z_JERK_MAX''),
  CfgItem ''zjd,z_ju,'' Print_lin Get_dbu Set_dbu (Cfg_a AXIS_Z Junction_dev) (Macro ''Z_JUNCTION_DEVIATION''),
  CfgItem ''zsm,z_s,'' Print_ui8 Get_ui8 Set_ui8 (Cfg_a AXIS_Z Switch_mode) (Macro ''Z_SWITCH_MODE''),
  CfgItem ''zsv,z_s,'' Print_lin Get_dbu Set_dbu (Cfg_a AXIS_Z Search_velocity) (Macro ''Z_SEARCH_VELOCITY''),
  CfgItem ''zlv,z_l,'' Print_lin Get_dbu Set_dbu (Cfg_a AXIS_Z Latch_velocity) (Macro ''Z_LATCH_VELOCITY''),
  CfgItem ''zzo,z_z,'' Print_lin Get_dbu Set_dbu (Cfg_a AXIS_Z Zero_offset) (Macro ''Z_ZERO_OFFSET''),
  CfgItem ''zabs,z_ab,'' Print_lin Get_abs Set_nul Tg_null Lit0,
  CfgItem ''zpos,z_po,'' Print_lin Get_pos Set_nul Tg_null Lit0,
  CfgItem ''aam,a_a,'' Print_am Get_am Set_ui8 (Cfg_a AXIS_A Axis_mode) (Macro ''A_AXIS_MODE''),
  CfgItem ''afr,a_f,'' Print_rot Get_dbl Set_dbl (Cfg_a AXIS_A Feedrate_max) (Macro ''A_FEEDRATE_MAX''),
  CfgItem ''avm,a_v,'' Print_rot Get_dbl Set_dbl (Cfg_a AXIS_A Velocity_max) (Macro ''A_VELOCITY_MAX''),
  CfgItem ''atm,a_t,'' Print_rot Get_dbl Set_dbl (Cfg_a AXIS_A Travel_max) (Macro ''A_TRAVEL_MAX''),
  CfgItem ''ajm,a_je,'' Print_rot Get_dbl Set_dbl (Cfg_a AXIS_A Jerk_max) (Macro ''A_JERK_MAX''),
  CfgItem ''ajd,a_ju,'' Print_rot Get_dbl Set_dbl (Cfg_a AXIS_A Junction_dev) (Macro ''A_JUNCTION_DEVIATION''),
  CfgItem ''ara,a_r,'' Print_rot Get_dbl Set_dbl (Cfg_a AXIS_A Radius) (Macro ''A_RADIUS''),
  CfgItem ''asm,a_s,'' Print_ui8 Get_ui8 Set_ui8 (Cfg_a AXIS_A Switch_mode) (Macro ''A_SWITCH_MODE''),
  CfgItem ''asv,a_s,'' Print_rot Get_dbl Set_dbl (Cfg_a AXIS_A Search_velocity) (Macro ''A_SEARCH_VELOCITY''),
  CfgItem ''alv,a_l,'' Print_rot Get_dbl Set_dbl (Cfg_a AXIS_A Latch_velocity) (Macro ''A_LATCH_VELOCITY''),
  CfgItem ''azo,a_z,'' Print_rot Get_dbl Set_dbl (Cfg_a AXIS_A Zero_offset) (Macro ''A_ZERO_OFFSET''),
  CfgItem ''aabs,a_ab,'' Print_rot Get_abs Set_nul Tg_null Lit0,
  CfgItem ''apos,a_po,'' Print_rot Get_pos Set_nul Tg_null Lit0,
  CfgItem ''bam,b_a,'' Print_am Get_am Set_ui8 (Cfg_a AXIS_B Axis_mode) (Macro ''B_AXIS_MODE''),
  CfgItem ''bfr,b_f,'' Print_rot Get_dbl Set_dbl (Cfg_a AXIS_B Feedrate_max) (Macro ''B_FEEDRATE_MAX''),
  CfgItem ''bvm,b_v,'' Print_rot Get_dbl Set_dbl (Cfg_a AXIS_B Velocity_max) (Macro ''B_VELOCITY_MAX''),
  CfgItem ''btm,b_t,'' Print_rot Get_dbl Set_dbl (Cfg_a AXIS_B Travel_max) (Macro ''B_TRAVEL_MAX''),
  CfgItem ''bjm,b_je,'' Print_rot Get_dbl Set_dbl (Cfg_a AXIS_B Jerk_max) (Macro ''B_JERK_MAX''),
  CfgItem ''bcd,b_ju,'' Print_rot Get_dbl Set_dbl (Cfg_a AXIS_B Junction_dev) (Macro ''B_JUNCTION_DEVIATION''),
  CfgItem ''bra,b_r,'' Print_rot Get_dbl Set_dbl (Cfg_a AXIS_B Radius) (Macro ''B_RADIUS''),
  CfgItem ''bsm,b_s,'' Print_ui8 Get_ui8 Set_ui8 (Cfg_a AXIS_B Switch_mode) (Macro ''B_SWITCH_MODE''),
  CfgItem ''bsv,b_s,'' Print_rot Get_dbl Set_dbl (Cfg_a AXIS_B Search_velocity) (Macro ''B_SEARCH_VELOCITY''),
  CfgItem ''blv,b_l,'' Print_rot Get_dbl Set_dbl (Cfg_a AXIS_B Latch_velocity) (Macro ''B_LATCH_VELOCITY''),
  CfgItem ''bzo,b_z,'' Print_rot Get_dbl Set_dbl (Cfg_a AXIS_B Zero_offset) (Macro ''B_ZERO_OFFSET''),
  CfgItem ''babs,b_ab,'' Print_rot Get_abs Set_nul Tg_null Lit0,
  CfgItem ''bpos,b_po,'' Print_rot Get_pos Set_nul Tg_null Lit0,
  CfgItem ''cam,c_a,'' Print_am Get_am Set_ui8 (Cfg_a AXIS_C Axis_mode) (Macro ''C_AXIS_MODE''),
  CfgItem ''cfr,c_f,'' Print_rot Get_dbl Set_dbl (Cfg_a AXIS_C Feedrate_max) (Macro ''C_FEEDRATE_MAX''),
  CfgItem ''cvm,c_v,'' Print_rot Get_dbl Set_dbl (Cfg_a AXIS_C Velocity_max) (Macro ''C_VELOCITY_MAX''),
  CfgItem ''ctm,c_t,'' Print_rot Get_dbl Set_dbl (Cfg_a AXIS_C Travel_max) (Macro ''C_TRAVEL_MAX''),
  CfgItem ''cjm,c_je,'' Print_rot Get_dbl Set_dbl (Cfg_a AXIS_C Jerk_max) (Macro ''C_JERK_MAX''),
  CfgItem ''cjd,c_ju,'' Print_rot Get_dbl Set_dbl (Cfg_a AXIS_C Junction_dev) (Macro ''C_JUNCTION_DEVIATION''),
  CfgItem ''cra,c_r,'' Print_rot Get_dbl Set_dbl (Cfg_a AXIS_C Radius) (Macro ''C_RADIUS''),
  CfgItem ''csm,c_s,'' Print_ui8 Get_ui8 Set_ui8 (Cfg_a AXIS_C Switch_mode) (Macro ''C_SWITCH_MODE''),
  CfgItem ''csv,c_s,'' Print_rot Get_dbl Set_dbl (Cfg_a AXIS_C Search_velocity) (Macro ''C_SEARCH_VELOCITY''),
  CfgItem ''cls,c_l,'' Print_rot Get_dbl Set_dbl (Cfg_a AXIS_C Latch_velocity) (Macro ''C_LATCH_VELOCITY''),
  CfgItem ''czo,c_z,'' Print_rot Get_dbl Set_dbl (Cfg_a AXIS_C Zero_offset) (Macro ''C_ZERO_OFFSET''),
  CfgItem ''cabs,c_ab,'' Print_rot Get_abs Set_nul Tg_null Lit0,
  CfgItem ''cpos,c_po,'' Print_rot Get_pos Set_nul Tg_null Lit0,
  CfgItem ''g54x,g54_x,'' Print_lin Get_dbu Set_dbu (Cfg_offset G54 AXIS_X) (Macro ''G54_X_OFFSET''),
  CfgItem ''g54y,g54_y,'' Print_lin Get_dbu Set_dbu (Cfg_offset G54 AXIS_Y) (Macro ''G54_Y_OFFSET''),
  CfgItem ''g54z,g54_z,'' Print_lin Get_dbu Set_dbu (Cfg_offset G54 AXIS_Z) (Macro ''G54_Z_OFFSET''),
  CfgItem ''g54a,g54_a,'' Print_lin Get_dbu Set_dbu (Cfg_offset G54 AXIS_A) (Macro ''G54_A_OFFSET''),
  CfgItem ''g54b,g54_b,'' Print_lin Get_dbu Set_dbu (Cfg_offset G54 AXIS_B) (Macro ''G54_B_OFFSET''),
  CfgItem ''g54c,g54_c,'' Print_lin Get_dbu Set_dbu (Cfg_offset G54 AXIS_C) (Macro ''G54_C_OFFSET''),
  CfgItem ''g55x,g55_x,'' Print_lin Get_dbu Set_dbu (Cfg_offset G55 AXIS_X) (Macro ''G55_X_OFFSET''),
  CfgItem ''g55y,g55_y,'' Print_lin Get_dbu Set_dbu (Cfg_offset G55 AXIS_Y) (Macro ''G55_Y_OFFSET''),
  CfgItem ''g55z,g55_z,'' Print_lin Get_dbu Set_dbu (Cfg_offset G55 AXIS_Z) (Macro ''G55_Z_OFFSET''),
  CfgItem ''g55a,g55_a,'' Print_lin Get_dbu Set_dbu (Cfg_offset G55 AXIS_A) (Macro ''G55_A_OFFSET''),
  CfgItem ''g55b,g55_b,'' Print_lin Get_dbu Set_dbu (Cfg_offset G55 AXIS_B) (Macro ''G55_B_OFFSET''),
  CfgItem ''g55c,g55_c,'' Print_lin Get_dbu Set_dbu (Cfg_offset G55 AXIS_C) (Macro ''G55_C_OFFSET''),
  CfgItem ''g56x,g56_x,'' Print_lin Get_dbu Set_dbu (Cfg_offset G56 AXIS_X) (Macro ''G56_X_OFFSET''),
  CfgItem ''g56y,g56_y,'' Print_lin Get_dbu Set_dbu (Cfg_offset G56 AXIS_Y) (Macro ''G56_Y_OFFSET''),
  CfgItem ''g56z,g56_z,'' Print_lin Get_dbu Set_dbu (Cfg_offset G56 AXIS_Z) (Macro ''G56_Z_OFFSET''),
  CfgItem ''g56a,g56_a,'' Print_lin Get_dbu Set_dbu (Cfg_offset G56 AXIS_A) (Macro ''G56_A_OFFSET''),
  CfgItem ''g56b,g56_b,'' Print_lin Get_dbu Set_dbu (Cfg_offset G56 AXIS_B) (Macro ''G56_B_OFFSET''),
  CfgItem ''g56c,g56_c,'' Print_lin Get_dbu Set_dbu (Cfg_offset G56 AXIS_C) (Macro ''G56_C_OFFSET''),
  CfgItem ''g57x,g57_x,'' Print_lin Get_dbu Set_dbu (Cfg_offset G57 AXIS_X) (Macro ''G57_X_OFFSET''),
  CfgItem ''g57y,g57_y,'' Print_lin Get_dbu Set_dbu (Cfg_offset G57 AXIS_Y) (Macro ''G57_Y_OFFSET''),
  CfgItem ''g57z,g57_z,'' Print_lin Get_dbu Set_dbu (Cfg_offset G57 AXIS_Z) (Macro ''G57_Z_OFFSET''),
  CfgItem ''g57a,g57_a,'' Print_lin Get_dbu Set_dbu (Cfg_offset G57 AXIS_A) (Macro ''G57_A_OFFSET''),
  CfgItem ''g57b,g57_b,'' Print_lin Get_dbu Set_dbu (Cfg_offset G57 AXIS_B) (Macro ''G57_B_OFFSET''),
  CfgItem ''g57c,g57_c,'' Print_lin Get_dbu Set_dbu (Cfg_offset G57 AXIS_C) (Macro ''G57_C_OFFSET''),
  CfgItem ''g58x,g58_x,'' Print_lin Get_dbu Set_dbu (Cfg_offset G58 AXIS_X) (Macro ''G58_X_OFFSET''),
  CfgItem ''g58y,g58_y,'' Print_lin Get_dbu Set_dbu (Cfg_offset G58 AXIS_Y) (Macro ''G58_Y_OFFSET''),
  CfgItem ''g58z,g58_z,'' Print_lin Get_dbu Set_dbu (Cfg_offset G58 AXIS_Z) (Macro ''G58_Z_OFFSET''),
  CfgItem ''g58a,g58_a,'' Print_lin Get_dbu Set_dbu (Cfg_offset G58 AXIS_A) (Macro ''G58_A_OFFSET''),
  CfgItem ''g58b,g58_b,'' Print_lin Get_dbu Set_dbu (Cfg_offset G58 AXIS_B) (Macro ''G58_B_OFFSET''),
  CfgItem ''g58c,g58_c,'' Print_lin Get_dbu Set_dbu (Cfg_offset G58 AXIS_C) (Macro ''G58_C_OFFSET''),
  CfgItem ''g59x,g59_x,'' Print_lin Get_dbu Set_dbu (Cfg_offset G59 AXIS_X) (Macro ''G59_X_OFFSET''),
  CfgItem ''g59y,g59_y,'' Print_lin Get_dbu Set_dbu (Cfg_offset G59 AXIS_Y) (Macro ''G59_Y_OFFSET''),
  CfgItem ''g59z,g59_z,'' Print_lin Get_dbu Set_dbu (Cfg_offset G59 AXIS_Z) (Macro ''G59_Z_OFFSET''),
  CfgItem ''g59a,g59_a,'' Print_lin Get_dbu Set_dbu (Cfg_offset G59 AXIS_A) (Macro ''G59_A_OFFSET''),
  CfgItem ''g59b,g59_b,'' Print_lin Get_dbu Set_dbu (Cfg_offset G59 AXIS_B) (Macro ''G59_B_OFFSET''),
  CfgItem ''g59c,g59_c,'' Print_lin Get_dbu Set_dbu (Cfg_offset G59 AXIS_C) (Macro ''G59_C_OFFSET''),
  CfgItem ''sr00,sr00,'' Print_nul Get_int Set_int (Cfg_status_report_spec 0) Lit0,
  CfgItem ''sr01,sr01,'' Print_nul Get_int Set_int (Cfg_status_report_spec 1) Lit0,
  CfgItem ''sr02,sr02,'' Print_nul Get_int Set_int (Cfg_status_report_spec 2) Lit0,
  CfgItem ''sr03,sr03,'' Print_nul Get_int Set_int (Cfg_status_report_spec 3) Lit0,
  CfgItem ''sr04,sr04,'' Print_nul Get_int Set_int (Cfg_status_report_spec 4) Lit0,
  CfgItem ''sr05,sr05,'' Print_nul Get_int Set_int (Cfg_status_report_spec 5) Lit0,
  CfgItem ''sr06,sr06,'' Print_nul Get_int Set_int (Cfg_status_report_spec 6) Lit0,
  CfgItem ''sr07,sr07,'' Print_nul Get_int Set_int (Cfg_status_report_spec 7) Lit0,
  CfgItem ''sr08,sr08,'' Print_nul Get_int Set_int (Cfg_status_report_spec 8) Lit0,
  CfgItem ''sr09,sr09,'' Print_nul Get_int Set_int (Cfg_status_report_spec 9) Lit0,
  CfgItem ''sr10,sr10,'' Print_nul Get_int Set_int (Cfg_status_report_spec 10) Lit0,
  CfgItem ''sr11,sr11,'' Print_nul Get_int Set_int (Cfg_status_report_spec 11) Lit0,
  CfgItem ''sr12,sr12,'' Print_nul Get_int Set_int (Cfg_status_report_spec 12) Lit0,
  CfgItem ''sr13,sr13,'' Print_nul Get_int Set_int (Cfg_status_report_spec 13) Lit0,
  CfgItem ''sr14,sr14,'' Print_nul Get_int Set_int (Cfg_status_report_spec 14) Lit0,
  CfgItem ''sr15,sr15,'' Print_nul Get_int Set_int (Cfg_status_report_spec 15) Lit0,
  CfgItem ''sr16,sr16,'' Print_nul Get_int Set_int (Cfg_status_report_spec 16) Lit0,
  CfgItem ''sr17,sr17,'' Print_nul Get_int Set_int (Cfg_status_report_spec 17) Lit0,
  CfgItem ''sr18,sr18,'' Print_nul Get_int Set_int (Cfg_status_report_spec 18) Lit0,
  CfgItem ''sr19,sr19,'' Print_nul Get_int Set_int (Cfg_status_report_spec 19) Lit0,
  CfgItem ''g54,g54,'' Print_grp Get_grp Set_grp Tg_null Lit0,
  CfgItem ''g55,g55,'' Print_grp Get_grp Set_grp Tg_null Lit0,
  CfgItem ''g56,g56,'' Print_grp Get_grp Set_grp Tg_null Lit0,
  CfgItem ''g57,g57,'' Print_grp Get_grp Set_grp Tg_null Lit0,
  CfgItem ''g58,g58,'' Print_grp Get_grp Set_grp Tg_null Lit0,
  CfgItem ''g59,g59,'' Print_grp Get_grp Set_grp Tg_null Lit0,
  CfgItem ''sys,sys,'' Print_grp Get_sys Set_grp Tg_null Lit0,
  CfgItem ''?,qm,'' Print_grp Get_qm Set_nul Tg_null Lit0,
  CfgItem ''x,x,'' Print_grp Get_grp Set_grp Tg_null Lit0,
  CfgItem ''y,y,'' Print_grp Get_grp Set_grp Tg_null Lit0,
  CfgItem ''z,z,'' Print_grp Get_grp Set_grp Tg_null Lit0,
  CfgItem ''a,a,'' Print_grp Get_grp Set_grp Tg_null Lit0,
  CfgItem ''b,b,'' Print_grp Get_grp Set_grp Tg_null Lit0,
  CfgItem ''c,c,'' Print_grp Get_grp Set_grp Tg_null Lit0,
  CfgItem ''1,1,'' Print_grp Get_grp Set_grp Tg_null Lit0,
  CfgItem ''2,2,'' Print_grp Get_grp Set_grp Tg_null Lit0,
  CfgItem ''3,3,'' Print_grp Get_grp Set_grp Tg_null Lit0,
  CfgItem ''4,4,'' Print_grp Get_grp Set_grp Tg_null Lit0]"

definition CMD_INDEX_MAX :: int where
  "CMD_INDEX_MAX = int (length cfgArray)"


definition CMD_COUNT_GROUPS :: int where
  "CMD_COUNT_GROUPS = 17"


definition CMD_INDEX_START_GROUPS :: int where
  "CMD_INDEX_START_GROUPS = CMD_INDEX_MAX - CMD_COUNT_GROUPS"

text \<open>Modelled from the spec: \<^verbatim>\<open>config.h\<close> is not under src/. The spec gives tokens of
  2 to 4 characters and friendly names of up to 24 characters; \<^verbatim>\<open>cmd_get_index_by_token\<close>
  compares four characters. \<^verbatim>\<open>CMD_NAMES_FIELD_LEN\<close> holds a token, a name and
  their two commas. \<^verbatim>\<open>CMD_STATUS_REPORT_LEN\<close> is the length of
  \<^verbatim>\<open>cfg.status_report_spec\<close>, which the table addresses at 0..19.\<close>

definition CMD_TOKEN_LEN :: nat where
  "CMD_TOKEN_LEN = 4"

definition CMD_NAME_LEN :: nat where
  "CMD_NAME_LEN = 24"

definition CMD_NAMES_FIELD_LEN :: nat where
  "CMD_NAMES_FIELD_LEN = CMD_TOKEN_LEN + CMD_NAME_LEN + 2"

definition CMD_STATUS_REPORT_LEN :: nat where
  "CMD_STATUS_REPORT_LEN = 20"

subsection \<open>C strings\<close>

abbreviation NUL :: char where "NUL \<equiv> CHR 0x00"

text \<open>\<^verbatim>\<open>s[k]\<close> for a NUL-terminated string (and for a buffer filled by
  \<^verbatim>\<open>strncpy\<close>, which pads with NUL).\<close>

definition cstr_nth :: "string \<Rightarrow> nat \<Rightarrow> char" where
  "cstr_nth s k = (if k < length s then s ! k else NUL)"

text \<open>\<^verbatim>\<open>strncpy(dst, src, n)\<close> followed by reading \<^verbatim>\<open>dst\<close> as a string.\<close>

definition strncpy :: "string \<Rightarrow> nat \<Rightarrow> string" where
  "strncpy src n = take n src"

text \<open>The part of a string before its first comma (\<^verbatim>\<open>strstr(s, ",")\<close> and a NUL
  written there), and the part after it.\<close>

definition before_comma :: "string \<Rightarrow> string" where
  "before_comma s = takeWhile (\<lambda>c. c \<noteq> CHR '','') s"

definition after_comma :: "string \<Rightarrow> string" where
  "after_comma s = drop 1 (dropWhile (\<lambda>c. c \<noteq> CHR '','') s)"

text \<open>\<^verbatim>\<open>strstr(str, pat) == str\<close> is \<^term>\<open>prefix pat str\<close>;
  \<^verbatim>\<open>strstr(str, pat) != NULL\<close> is \<^term>\<open>sublist pat str\<close>.\<close>

subsection \<open>Resolvers\<close>

text \<open>The for-loop \<^verbatim>\<open>for (i=0; i<CMD_INDEX_MAX; i++) { if (...) return (i); } return (-1);\<close>\<close>

definition first_index :: "(nat \<Rightarrow> bool) \<Rightarrow> int" where
  "first_index P =
     (case find P [0 ..< nat CMD_INDEX_MAX] of None \<Rightarrow> - 1 | Some i \<Rightarrow> int i)"

text \<open>One iteration of \<^verbatim>\<open>cmd_get_index_by_token\<close>: \<open>True\<close> is \<^verbatim>\<open>return (i)\<close>,
  \<open>False\<close> is \<^verbatim>\<open>continue\<close>. \<open>token\<close> is the buffer filled from the combined string.\<close>

definition token_matches :: "string \<Rightarrow> string \<Rightarrow> bool" where
  "token_matches token str =
     (if cstr_nth token 0 \<noteq> cstr_nth str 0 \<or> cstr_nth token 1 \<noteq> cstr_nth str 1 then False
      else if cstr_nth token 2 = CHR '','' \<and> cstr_nth str 2 = NUL then True
      else if cstr_nth token 2 \<noteq> cstr_nth str 2 then False
      else if cstr_nth token 3 = CHR '','' \<and> cstr_nth str 3 = NUL then True
      else if cstr_nth token 3 \<noteq> cstr_nth str 3 then False
      else True)"

definition cmd_get_index_by_token :: "string \<Rightarrow> int" where
  "cmd_get_index_by_token str =
     first_index (\<lambda>i. token_matches (strncpy (item_string (cfgArray ! i)) CMD_TOKEN_LEN) str)"

text \<open>One iteration of \<^verbatim>\<open>cmd_get_index\<close>: the names field is split at its two commas
  and the input matches when it begins with the token or with the friendly name.\<close>

definition name_matches :: "string \<Rightarrow> string \<Rightarrow> bool" where
  "name_matches field str =
     (let token = before_comma field;
          name = before_comma (after_comma field)
      in prefix token str \<or> prefix name str)"

definition cmd_get_index :: "string \<Rightarrow> int" where
  "cmd_get_index str =
     first_index (\<lambda>i. name_matches (strncpy (item_string (cfgArray ! i)) CMD_NAMES_FIELD_LEN) str)"

definition cmd_get_token :: "int \<Rightarrow> string" where
  "cmd_get_token i =
     (if i < 0 \<or> CMD_INDEX_MAX \<le> i then []
      else before_comma (strncpy (item_string (cfgArray ! nat i)) (CMD_TOKEN_LEN + 1)))"

text \<open>The friendly name of a descriptor, as \<^verbatim>\<open>cmd_get_index\<close> reads it.\<close>

definition cmd_get_name :: "int \<Rightarrow> string" where
  "cmd_get_name i =
     before_comma (after_comma (strncpy (item_string (cfgArray ! nat i)) CMD_NAMES_FIELD_LEN))"

definition cmd_get_group :: "int \<Rightarrow> char" where
  "cmd_get_group i =
     (if i < 0 \<or> CMD_INDEX_MAX \<le> i then NUL
      else let chr = cstr_nth (item_string (cfgArray ! nat i)) 0
           in if chr \<in> set ''xyzabc1234'' then chr else CHR ''g'')"

subsection \<open>Command objects and machine state\<close>

text \<open>Modelled from the spec: \<^verbatim>\<open>enum cmdValueType\<close> and the status codes are declared
  in headers that are not under src/. The spec names the kinds null, integer, float, string
  and parent; \<^verbatim>\<open>_set_sr\<close> compares the kind with \<^verbatim>\<open>true\<close>, which is
  \<open>VALUE_TYPE_TRUE\<close>.\<close>

datatype cmdValueType =
  VALUE_TYPE_NULL | VALUE_TYPE_FALSE | VALUE_TYPE_TRUE | VALUE_TYPE_INT32 | VALUE_TYPE_FLOAT
  | VALUE_TYPE_STRING | VALUE_TYPE_PARENT

datatype status = TG_OK | TG_UNRECOGNIZED_COMMAND | TG_CODE nat

text \<open>A pointer to a \<^verbatim>\<open>cmdObj\<close>: \<open>CA k\<close> is \<^verbatim>\<open>&cmd_array[k]\<close>; \<open>LOC 0\<close> is the
  local object of \<^verbatim>\<open>cfg_init\<close> and \<open>LOC (Suc k)\<close> the memory that follows it;
  \<open>TMP 0\<close> is the local object of the \<^verbatim>\<open>_get_..._value\<close> helpers of the print
  functions.
  \<^verbatim>\<open>CMD_MAX_OBJECTS\<close>, the length of \<^verbatim>\<open>cmd_array\<close>, is not checked by the code
  when it advances a pointer, and is not checked here.\<close>

datatype cptr = CA nat | LOC nat | TMP nat

fun ptr_succ :: "cptr \<Rightarrow> cptr" where
  "ptr_succ (CA k) = CA (Suc k)"
| "ptr_succ (LOC k) = LOC (Suc k)"
| "ptr_succ (TMP k) = TMP (Suc k)"

record cmdObj =
  nx :: "cptr option"
  index :: int
  name :: string
  token :: string
  val :: real
  value_type :: cmdValueType
  string_val :: string
  status :: status

text \<open>Calls into other subsystems, recorded in the order they are made.\<close>

datatype ext_call =
  Xio_cntl string
  | St_set_microsteps int "8 word"
  | St_set_polarity int "8 word"
  | Gc_gcode_parser string
  | Tg_make_json_gcode_response
  | Rpt_json_status_report

text \<open>The machine state. Memory is held per access width: \<open>mem8\<close> is what a
  \<^verbatim>\<open>uint8_t\<close> access at a target reads and writes, \<open>mem32\<close> a \<^verbatim>\<open>uint32_t\<close> access,
  \<open>memd\<close> a \<^verbatim>\<open>double\<close> access (the byte layout of the structs is not modelled).
  \<open>nvm i\<close> is the EEPROM value record of index \<open>i\<close> and \<open>nvm_log\<close> the list of
  \<^verbatim>\<open>EEPROM_WriteBytes\<close> calls, oldest first. The last four fields are what the
  external collaborators answer.\<close>

record state =
  mem8 :: "target \<Rightarrow> 8 word"
  mem32 :: "target \<Rightarrow> 32 word"
  memd :: "target \<Rightarrow> real"
  nvm :: "nat \<Rightarrow> real"
  nvm_log :: "(nat \<times> real) list"
  cmds :: "cptr \<Rightarrow> cmdObj"
  in_buf :: string
  ext_log :: "ext_call list"
  runtime_velocity :: real
  machine_runtime_position :: "int \<Rightarrow> real"
  work_runtime_position :: "int \<Rightarrow> real"
  gcode_parser_status :: status

text \<open>What the build supplies from outside config.c: the numeric macros of
  \<^verbatim>\<open>settings.h\<close>, \<^verbatim>\<open>tinyg.h\<close> and \<^verbatim>\<open>config.h\<close> by name, the lengths of
  \<^verbatim>\<open>cmd_array\<close>, of a command object's string field and of the input buffer, the
  C library's \<^verbatim>\<open>strtod\<close> (the value and the number of
  characters converted, 0 when no conversion is performed), and
  \<^verbatim>\<open>rpt_init_status_report\<close> of report.c, which \<^verbatim>\<open>cfg_init\<close> calls last.\<close>

record platform =
  settings :: "string \<Rightarrow> real"
  CMD_MAX_OBJECTS :: nat
  CMD_STRING_LEN :: nat
  INPUT_BUFFER_LEN :: nat
  strtod :: "string \<Rightarrow> real \<times> nat"
  rpt_init_status_report :: "bool \<Rightarrow> state \<Rightarrow> state"

definition def_value :: "platform \<Rightarrow> int \<Rightarrow> real" where
  "def_value K i =
     (case item_def_value (cfgArray ! nat i) of Lit0 \<Rightarrow> 0 | Macro m \<Rightarrow> settings K m)"

definition target :: "int \<Rightarrow> target" where
  "target i = item_target (cfgArray ! nat i)"

definition upd_cmd :: "cptr \<Rightarrow> (cmdObj \<Rightarrow> cmdObj) \<Rightarrow> state \<Rightarrow> state" where
  "upd_cmd p f st = st\<lparr>cmds := (cmds st)(p := f (cmds st p))\<rparr>"

definition ext_call :: "ext_call \<Rightarrow> state \<Rightarrow> state" where
  "ext_call e st = st\<lparr>ext_log := ext_log st @ [e]\<rparr>"

text \<open>\<^verbatim>\<open>cmd_new_object\<close>: \<^verbatim>\<open>memset\<close> to zero, then the kind null.\<close>

definition new_object :: cmdObj where
  "new_object = \<lparr>nx = None, index = 0, name = [], token = [], val = 0,
     value_type = VALUE_TYPE_NULL, string_val = [], status = TG_OK\<rparr>"

definition cmd_new_object :: "cptr \<Rightarrow> state \<Rightarrow> state" where
  "cmd_new_object p st = upd_cmd p (\<lambda>_. new_object) st"

text \<open>Modelled from the spec: the units mode lives in \<^verbatim>\<open>gm.units_mode\<close> (the target of
  the \<^verbatim>\<open>unit\<close> descriptor) and \<^verbatim>\<open>cm_get_units_mode\<close> / \<^verbatim>\<open>cm_set_units_mode\<close> of
  canonical_machine.c, which is not under src/, read and write it. The message tables
  \<^verbatim>\<open>msg_un\<close> and \<^verbatim>\<open>msg_units\<close> index inches as 0 and millimeters as 1. The
  conversion factors are the macros of a header that is not under src/.\<close>

abbreviation (input) INCHES_MODE :: "8 word" where "INCHES_MODE \<equiv> 0"
abbreviation (input) MILLIMETER_MODE :: "8 word" where "MILLIMETER_MODE \<equiv> 1"

definition cm_get_units_mode :: "state \<Rightarrow> 8 word" where
  "cm_get_units_mode st = mem8 st Gm_units_mode"

definition cm_set_units_mode :: "8 word \<Rightarrow> state \<Rightarrow> state" where
  "cm_set_units_mode m st = st\<lparr>mem8 := (mem8 st)(Gm_units_mode := m)\<rparr>"

definition MM_PER_INCH :: real where
  "MM_PER_INCH = 25.4"

definition INCH_PER_MM :: real where
  "INCH_PER_MM = 1 / 25.4"

subsection \<open>Conversions of a double to the integer storage kinds\<close>

text \<open>C converts a \<^verbatim>\<open>double\<close> to an unsigned integer type by discarding the fraction.
  A value outside the type's range is undefined in C; here it wraps.\<close>

definition c_trunc :: "real \<Rightarrow> int" where
  "c_trunc x = (if 0 \<le> x then \<lfloor>x\<rfloor> else \<lceil>x\<rceil>)"

definition u8_of_double :: "real \<Rightarrow> 8 word" where
  "u8_of_double x = word_of_int (c_trunc x)"

definition u32_of_double :: "real \<Rightarrow> 32 word" where
  "u32_of_double x = word_of_int (c_trunc x)"

definition double_of_u8 :: "8 word \<Rightarrow> real" where
  "double_of_u8 w = real (unat w)"

definition double_of_u32 :: "32 word \<Rightarrow> real" where
  "double_of_u32 w = real (unat w)"

subsection \<open>Helpers that rely on the token naming convention\<close>

text \<open>\<^verbatim>\<open>strchr(s, c) - s\<close>, or \<open>None\<close> for \<^verbatim>\<open>NULL\<close>; the terminator of \<open>s\<close> is
  found when \<open>c\<close> is NUL.\<close>

definition strchr_pos :: "string \<Rightarrow> char \<Rightarrow> nat option" where
  "strchr_pos s c =
     (if c = NUL then Some (length s)
      else if c \<in> set s then Some (length (takeWhile (\<lambda>x. x \<noteq> c) s)) else None)"

definition get_axis :: "int \<Rightarrow> int" where
  "get_axis i =
     (case strchr_pos ''xyzabc'' (cstr_nth (item_string (cfgArray ! nat i)) 0) of
        None \<Rightarrow> - 1 | Some k \<Rightarrow> int k)"

definition get_motor :: "int \<Rightarrow> int" where
  "get_motor i =
     (case strchr_pos ''1234'' (cstr_nth (item_string (cfgArray ! nat i)) 0) of
        None \<Rightarrow> - 1 | Some k \<Rightarrow> int k)"

subsection \<open>Get bindings of single values\<close>

definition msg_ms :: "string list" where
  "msg_ms = [''reset'', ''run'', ''stop'', ''hold'', ''resume'', ''homing'']"

definition msg_un :: "string list" where
  "msg_un = [''inch'', ''mm'', ''deg'']"

definition msg_am :: "string list" where
  "msg_am = [''[disabled]'', ''[standard]'', ''[inhibited]'', ''[radius]'', ''[slave X]'',
     ''[slave Y]'', ''[slave Z]'', ''[slave XY]'', ''[slave XZ]'', ''[slave YZ]'', ''[slave XYZ]'']"

text \<open>A message table read at an index; the code does not check the index, and a read past
  the table gives the empty string here.\<close>

definition msg_at :: "string list \<Rightarrow> nat \<Rightarrow> string" where
  "msg_at tbl k = (if k < length tbl then tbl ! k else [])"

definition get_ui8 :: "int \<Rightarrow> cptr \<Rightarrow> state \<Rightarrow> state" where
  "get_ui8 i p st =
     upd_cmd p (\<lambda>c. c\<lparr>val := double_of_u8 (mem8 st (target i)),
                         value_type := VALUE_TYPE_INT32\<rparr>) st"

definition get_int :: "int \<Rightarrow> cptr \<Rightarrow> state \<Rightarrow> state" where
  "get_int i p st =
     upd_cmd p (\<lambda>c. c\<lparr>val := double_of_u32 (mem32 st (target i)),
                         value_type := VALUE_TYPE_INT32\<rparr>) st"

definition get_dbl :: "int \<Rightarrow> cptr \<Rightarrow> state \<Rightarrow> state" where
  "get_dbl i p st =
     upd_cmd p (\<lambda>c. c\<lparr>val := memd st (target i), value_type := VALUE_TYPE_FLOAT\<rparr>) st"

definition get_dbu :: "int \<Rightarrow> cptr \<Rightarrow> state \<Rightarrow> state" where
  "get_dbu i p st =
     upd_cmd p (\<lambda>c. c\<lparr>val := (if cm_get_units_mode st = INCHES_MODE
                                  then memd st (target i) * INCH_PER_MM
                                  else memd st (target i)),
                         value_type := VALUE_TYPE_FLOAT\<rparr>) st"

definition get_msg :: "platform \<Rightarrow> string list \<Rightarrow> cmdValueType \<Rightarrow> int \<Rightarrow> cptr \<Rightarrow> state \<Rightarrow> state" where
  "get_msg K tbl ty i p st =
     upd_cmd p (\<lambda>c. c\<lparr>string_val :=
                           strncpy (msg_at tbl (unat (u8_of_double (val c)))) (CMD_STRING_LEN K),
                         value_type := ty\<rparr>) (get_ui8 i p st)"

definition get_stat :: "platform \<Rightarrow> int \<Rightarrow> cptr \<Rightarrow> state \<Rightarrow> state" where
  "get_stat K i p st = get_msg K msg_ms VALUE_TYPE_STRING i p st"

definition get_unit :: "platform \<Rightarrow> int \<Rightarrow> cptr \<Rightarrow> state \<Rightarrow> state" where
  "get_unit K i p st = get_msg K msg_un VALUE_TYPE_STRING i p st"

definition get_am :: "platform \<Rightarrow> int \<Rightarrow> cptr \<Rightarrow> state \<Rightarrow> state" where
  "get_am K i p st = get_msg K msg_am VALUE_TYPE_INT32 i p st"

definition get_vel :: "int \<Rightarrow> cptr \<Rightarrow> state \<Rightarrow> state" where
  "get_vel i p st =
     upd_cmd p (\<lambda>c. c\<lparr>val := (if cm_get_units_mode st = INCHES_MODE
                                  then runtime_velocity st * INCH_PER_MM
                                  else runtime_velocity st),
                         value_type := VALUE_TYPE_FLOAT\<rparr>) st"

definition get_abs :: "int \<Rightarrow> cptr \<Rightarrow> state \<Rightarrow> state" where
  "get_abs i p st =
     upd_cmd p (\<lambda>c. c\<lparr>val := machine_runtime_position st (get_axis i),
                         value_type := VALUE_TYPE_FLOAT\<rparr>) st"

definition get_pos :: "int \<Rightarrow> cptr \<Rightarrow> state \<Rightarrow> state" where
  "get_pos i p st =
     upd_cmd p (\<lambda>c. c\<lparr>val := work_runtime_position st (get_axis i),
                         value_type := VALUE_TYPE_FLOAT\<rparr>) st"

definition get_gc :: "platform \<Rightarrow> int \<Rightarrow> cptr \<Rightarrow> state \<Rightarrow> state" where
  "get_gc K i p st =
     upd_cmd p (\<lambda>c. c\<lparr>string_val := strncpy (in_buf st) (CMD_STRING_LEN K),
                         value_type := VALUE_TYPE_STRING\<rparr>) st"

definition get_sr :: "int \<Rightarrow> cptr \<Rightarrow> state \<Rightarrow> state" where
  "get_sr i p st = ext_call Rpt_json_status_report st"

definition get_si :: "platform \<Rightarrow> int \<Rightarrow> cptr \<Rightarrow> state \<Rightarrow> state" where
  "get_si K i p st =
     upd_cmd p (\<lambda>c. c\<lparr>val := val c * (settings K ''ESTD_SEGMENT_USEC'' / 1000)\<rparr>)
       (get_ui8 i p st)"

text \<open>The get bindings that do not expand a group.\<close>

definition get_single :: "platform \<Rightarrow> fptrGet \<Rightarrow> int \<Rightarrow> cptr \<Rightarrow> state \<Rightarrow> state" where
  "get_single K g i p st =
     (case g of
        Get_ui8 \<Rightarrow> get_ui8 i p st
      | Get_int \<Rightarrow> get_int i p st
      | Get_dbl \<Rightarrow> get_dbl i p st
      | Get_dbu \<Rightarrow> get_dbu i p st
      | Get_unit \<Rightarrow> get_unit K i p st
      | Get_sr \<Rightarrow> get_sr i p st
      | Get_si \<Rightarrow> get_si K i p st
      | Get_gc \<Rightarrow> get_gc K i p st
      | Get_stat \<Rightarrow> get_stat K i p st
      | Get_vel \<Rightarrow> get_vel i p st
      | Get_abs \<Rightarrow> get_abs i p st
      | Get_pos \<Rightarrow> get_pos i p st
      | Get_am \<Rightarrow> get_am K i p st
      | _ \<Rightarrow> st)"

subsection \<open>Group expansion\<close>

definition is_group_get :: "fptrGet \<Rightarrow> bool" where
  "is_group_get g = (g = Get_grp \<or> g = Get_sys \<or> g = Get_qm)"

definition sys_include :: string where
  "sys_include = ''fv,fb,si,gpl,gun,gco,gpa,gdi,ea,ja,ml,ma,mt,ic,il,ec,ee,ex''"

definition sys_exclude :: string where
  "sys_exclude = ''gc''"

definition qm_include :: string where
  "qm_include = ''xpos,ypos,zpos,apos,bpos,cpos,stat''"

text \<open>Whether the loop of \<^verbatim>\<open>_get_grp\<close>, \<^verbatim>\<open>_get_sys\<close> or \<^verbatim>\<open>_get_qm\<close> takes the
  descriptor whose token is \<open>tok\<close> as a child.\<close>

definition grp_match :: "fptrGet \<Rightarrow> string \<Rightarrow> string \<Rightarrow> bool" where
  "grp_match g grp tok =
     (case g of
        Get_grp \<Rightarrow> prefix grp tok
      | Get_sys \<Rightarrow> \<not> sublist tok sys_exclude \<and> sublist tok sys_include
      | Get_qm \<Rightarrow> sublist tok qm_include
      | _ \<Rightarrow> False)"

text \<open>The loop \<^verbatim>\<open>for (INDEX_T i=0; i<grp_index; i++)\<close> of the three group getters, from
  iteration \<open>i\<close> on, with \<open>c\<close> the current value of the pointer \<^verbatim>\<open>cmd\<close>. A child is
  fetched by \<^verbatim>\<open>cmd_get_cmd(i, ++cmd)\<close>, whose get binding may itself be a group
  getter: it then runs on the fresh child object, whose name is empty and whose index is
  \<open>i\<close>.\<close>

function grp_scan :: "platform \<Rightarrow> fptrGet \<Rightarrow> string \<Rightarrow> int \<Rightarrow> int \<Rightarrow> cptr \<Rightarrow> state \<Rightarrow> state" where
  "grp_scan K g grp n i c st =
     (if n \<le> i then st
      else if grp_match g grp (cmd_get_token i) then
        (let c' = ptr_succ c;
             st1 = cmd_new_object c' st;
             st2 = (if i < 0 \<or> CMD_INDEX_MAX \<le> i
                    then upd_cmd c' (\<lambda>ob. ob\<lparr>status := TG_UNRECOGNIZED_COMMAND\<rparr>) st1
                    else let st' = upd_cmd c' (\<lambda>ob. ob\<lparr>index := i, token := cmd_get_token i\<rparr>) st1;
                             g' = item_get (cfgArray ! nat i)
                         in if is_group_get g'
                            then grp_scan K g' (name (cmds st' c')) (index (cmds st' c')) 0 c'
                                   (upd_cmd c' (\<lambda>ob. ob\<lparr>value_type := VALUE_TYPE_PARENT\<rparr>) st')
                            else get_single K g' i c' st');
             st3 = (if g = Get_grp
                    then upd_cmd c' (\<lambda>ob. ob\<lparr>token :=
                           strncpy (drop (length grp) (token ob)) (CMD_TOKEN_LEN + 1)\<rparr>) st2
                    else st2)
         in grp_scan K g grp n (i + 1) c' (upd_cmd c (\<lambda>ob. ob\<lparr>nx := Some c'\<rparr>) st3))
      else grp_scan K g grp n (i + 1) c st)"
  by pat_completeness auto
termination
  by (relation "measures [\<lambda>(K, g, grp, n, i, c, st). nat n, \<lambda>(K, g, grp, n, i, c, st). nat (n - i)]")
     (auto simp: upd_cmd_def cmd_new_object_def)

text \<open>The call through the get binding of descriptor \<open>i\<close>,
  \<^verbatim>\<open>((fptrCmd)(pgm_read_word(&cfgArray[i].get)))(i,cmd)\<close>. A group getter marks the
  object as parent and scans the descriptors below the object's own index.\<close>

definition run_get :: "platform \<Rightarrow> int \<Rightarrow> cptr \<Rightarrow> state \<Rightarrow> state" where
  "run_get K i p st =
     (let g = item_get (cfgArray ! nat i)
      in if is_group_get g
         then grp_scan K g (name (cmds st p)) (index (cmds st p)) 0 p
                (upd_cmd p (\<lambda>ob. ob\<lparr>value_type := VALUE_TYPE_PARENT\<rparr>) st)
         else get_single K g i p st)"

definition cmd_get :: "platform \<Rightarrow> int \<Rightarrow> cptr \<Rightarrow> state \<Rightarrow> status \<times> state" where
  "cmd_get K i p st =
     (if i < 0 \<or> CMD_INDEX_MAX \<le> i
      then (TG_UNRECOGNIZED_COMMAND, upd_cmd p (\<lambda>ob. ob\<lparr>status := TG_UNRECOGNIZED_COMMAND\<rparr>) st)
      else (TG_OK, run_get K i p st))"

text \<open>\<^verbatim>\<open>cmd_get_cmd\<close>; its return value, the object's value cut to a byte, is used by no
  caller and is left out.\<close>

definition cmd_get_cmd :: "platform \<Rightarrow> int \<Rightarrow> cptr \<Rightarrow> state \<Rightarrow> state" where
  "cmd_get_cmd K i p st =
     (let st1 = cmd_new_object p st
      in if i < 0 \<or> CMD_INDEX_MAX \<le> i
         then upd_cmd p (\<lambda>ob. ob\<lparr>status := TG_UNRECOGNIZED_COMMAND\<rparr>) st1
         else run_get K i p (upd_cmd p (\<lambda>ob. ob\<lparr>index := i, token := cmd_get_token i\<rparr>) st1))"

text \<open>The traversal of a parent's chain by \<^verbatim>\<open>_print_grp\<close> and \<^verbatim>\<open>_set_grp\<close>:
  \<^verbatim>\<open>for (i=0; i<CMD_MAX_OBJECTS; i++) { if ((cmd = cmd->nx) == NULL) break; ... }\<close>,
  as the list of the objects visited.\<close>

fun chain :: "nat \<Rightarrow> cptr \<Rightarrow> state \<Rightarrow> cptr list" where
  "chain 0 c st = []"
| "chain (Suc n) c st = (case nx (cmds st c) of None \<Rightarrow> [] | Some q \<Rightarrow> q # chain n q st)"

declare grp_scan.simps [simp del]

subsection \<open>Set bindings of single values\<close>

definition set_ui8 :: "int \<Rightarrow> cptr \<Rightarrow> state \<Rightarrow> state" where
  "set_ui8 i p st = st\<lparr>mem8 := (mem8 st)(target i := u8_of_double (val (cmds st p)))\<rparr>"

definition set_int :: "int \<Rightarrow> cptr \<Rightarrow> state \<Rightarrow> state" where
  "set_int i p st = st\<lparr>mem32 := (mem32 st)(target i := u32_of_double (val (cmds st p)))\<rparr>"

definition set_dbl :: "int \<Rightarrow> cptr \<Rightarrow> state \<Rightarrow> state" where
  "set_dbl i p st = st\<lparr>memd := (memd st)(target i := val (cmds st p))\<rparr>"

definition set_dbu :: "int \<Rightarrow> cptr \<Rightarrow> state \<Rightarrow> state" where
  "set_dbu i p st =
     (if cm_get_units_mode st = INCHES_MODE
      then st\<lparr>memd := (memd st)(target i := val (cmds st p) * MM_PER_INCH)\<rparr>
      else st\<lparr>memd := (memd st)(target i := val (cmds st p))\<rparr>)"

text \<open>\<^verbatim>\<open>_set_sr\<close>: the specification vector is cleared, then the objects that follow
  \<open>cmd\<close> in memory are read, at most \<^verbatim>\<open>CMD_STATUS_REPORT_LEN\<close> of them and up to the
  first whose \<^verbatim>\<open>nx\<close> is NULL. The vector's elements are held in \<open>mem32\<close>, the width the
  table's bindings of \<^verbatim>\<open>sr00\<close>..\<^verbatim>\<open>sr19\<close> access them with.\<close>

fun set_sr_loop :: "nat \<Rightarrow> nat \<Rightarrow> cptr \<Rightarrow> state \<Rightarrow> state" where
  "set_sr_loop 0 j c st = st"
| "set_sr_loop (Suc r) j c st =
     (let c' = ptr_succ c;
          ob = cmds st c';
          st1 = (if value_type ob = VALUE_TYPE_TRUE \<and> val ob = 1
                 then st\<lparr>mem32 := (mem32 st)(Cfg_status_report_spec j := word_of_int (index ob))\<rparr>
                 else st)
      in if nx ob = None then st1 else set_sr_loop r (Suc j) c' st1)"

definition clear_status_report_spec :: "state \<Rightarrow> state" where
  "clear_status_report_spec st =
     st\<lparr>mem32 := (\<lambda>t. case t of
                          Cfg_status_report_spec k \<Rightarrow>
                            if k < CMD_STATUS_REPORT_LEN then 0 else mem32 st t
                        | _ \<Rightarrow> mem32 st t)\<rparr>"

definition set_sr :: "int \<Rightarrow> cptr \<Rightarrow> state \<Rightarrow> state" where
  "set_sr i p st = set_sr_loop CMD_STATUS_REPORT_LEN 0 p (clear_status_report_spec st)"

text \<open>\<^verbatim>\<open>_set_si\<close>: the object's value is clamped in place, then converted to a count of
  segment times held in a byte.\<close>

definition status_interval_clamp :: "platform \<Rightarrow> real \<Rightarrow> real" where
  "status_interval_clamp K v =
     (if v < settings K ''STATUS_REPORT_MIN_MS'' then settings K ''STATUS_REPORT_MIN_MS''
      else if v > settings K ''STATUS_REPORT_MAX_MS'' then settings K ''STATUS_REPORT_MAX_MS''
      else v)"

definition set_si :: "platform \<Rightarrow> int \<Rightarrow> cptr \<Rightarrow> state \<Rightarrow> state" where
  "set_si K i p st =
     (let st1 = upd_cmd p (\<lambda>ob. ob\<lparr>val := status_interval_clamp K (val ob)\<rparr>) st
      in st1\<lparr>mem8 := (mem8 st1)(Cfg_status_report_interval :=
                 u8_of_double (of_int \<lceil>val (cmds st1 p)
                                        / (settings K ''ESTD_SEGMENT_USEC'' / 1000)\<rceil>))\<rparr>)"

definition run_gc :: "platform \<Rightarrow> int \<Rightarrow> cptr \<Rightarrow> state \<Rightarrow> state" where
  "run_gc K i p st =
     (let st1 = st\<lparr>in_buf := strncpy (string_val (cmds st p)) (INPUT_BUFFER_LEN K)\<rparr>;
          st2 = ext_call (Gc_gcode_parser (in_buf st1)) st1;
          st3 = upd_cmd p (\<lambda>ob. ob\<lparr>status := gcode_parser_status st2\<rparr>) st2
      in ext_call Tg_make_json_gcode_response st3)"

text \<open>The serial options: \<^verbatim>\<open>NE_ZERO\<close> is a macro of util.h, which is not under src/, and
  compares the magnitude with the macro \<^verbatim>\<open>EPSILON\<close>.\<close>

definition NE_ZERO :: "platform \<Rightarrow> real \<Rightarrow> bool" where
  "NE_ZERO K x = (\<bar>x\<bar> > settings K ''EPSILON'')"

definition set_serial :: "platform \<Rightarrow> string \<Rightarrow> string \<Rightarrow> target \<Rightarrow> cptr \<Rightarrow> state \<Rightarrow> state" where
  "set_serial K on off t p st =
     (let st1 = ext_call (Xio_cntl (if NE_ZERO K (val (cmds st p)) then on else off)) st
      in st1\<lparr>mem8 := (mem8 st1)(t := u8_of_double (val (cmds st1 p)))\<rparr>)"

definition set_ic :: "platform \<Rightarrow> int \<Rightarrow> cptr \<Rightarrow> state \<Rightarrow> state" where
  "set_ic K i p st = set_serial K ''XIO_IGNORECR'' ''XIO_NOIGNORECR'' Cfg_ignore_cr p st"

definition set_il :: "platform \<Rightarrow> int \<Rightarrow> cptr \<Rightarrow> state \<Rightarrow> state" where
  "set_il K i p st = set_serial K ''XIO_IGNORELF'' ''XIO_NOIGNORELF'' Cfg_ignore_lf p st"

definition set_ec :: "platform \<Rightarrow> int \<Rightarrow> cptr \<Rightarrow> state \<Rightarrow> state" where
  "set_ec K i p st = set_serial K ''XIO_CRLF'' ''XIO_NOCRLF'' Cfg_enable_cr p st"

definition set_ee :: "platform \<Rightarrow> int \<Rightarrow> cptr \<Rightarrow> state \<Rightarrow> state" where
  "set_ee K i p st = set_serial K ''XIO_ECHO'' ''XIO_NOECHO'' Cfg_enable_echo p st"

definition set_ex :: "platform \<Rightarrow> int \<Rightarrow> cptr \<Rightarrow> state \<Rightarrow> state" where
  "set_ex K i p st = set_serial K ''XIO_XOFF'' ''XIO_NOXOFF'' Cfg_enable_xon p st"

text \<open>\<^verbatim>\<open>_set_motor_steps_per_unit\<close>: \<^verbatim>\<open>uint8_t m = _get_motor(i)\<close> turns \<open>-1\<close> into
  255. A division by zero gives 0 here, an infinity or NaN in C.\<close>

definition set_motor_steps_per_unit :: "int \<Rightarrow> cptr \<Rightarrow> state \<Rightarrow> state" where
  "set_motor_steps_per_unit i p st =
     (let m = nat (get_motor i mod 256)
      in st\<lparr>memd := (memd st)(Cfg_m m Steps_per_unit :=
                360 / (memd st (Cfg_m m Step_angle) / double_of_u8 (mem8 st (Cfg_m m Microsteps)))
                    / memd st (Cfg_m m Travel_rev))\<rparr>)"

definition set_sa :: "int \<Rightarrow> cptr \<Rightarrow> state \<Rightarrow> state" where
  "set_sa i p st = set_motor_steps_per_unit i p (set_dbl i p st)"

definition set_mi :: "int \<Rightarrow> cptr \<Rightarrow> state \<Rightarrow> state" where
  "set_mi i p st =
     (let st1 = set_motor_steps_per_unit i p (set_ui8 i p st)
      in ext_call (St_set_microsteps (get_motor i) (u8_of_double (val (cmds st1 p)))) st1)"

definition set_po :: "int \<Rightarrow> cptr \<Rightarrow> state \<Rightarrow> state" where
  "set_po i p st =
     (let st1 = set_ui8 i p st
      in ext_call (St_set_polarity (get_motor i) (u8_of_double (val (cmds st1 p)))) st1)"

text \<open>The set bindings other than \<^verbatim>\<open>_set_grp\<close>.\<close>

definition set_single :: "platform \<Rightarrow> fptrSet \<Rightarrow> int \<Rightarrow> cptr \<Rightarrow> state \<Rightarrow> state" where
  "set_single K s i p st =
     (case s of
        Set_nul \<Rightarrow> st
      | Set_ui8 \<Rightarrow> set_ui8 i p st
      | Set_int \<Rightarrow> set_int i p st
      | Set_dbl \<Rightarrow> set_dbl i p st
      | Set_dbu \<Rightarrow> set_dbu i p st
      | Set_sr \<Rightarrow> set_sr i p st
      | Set_si \<Rightarrow> set_si K i p st
      | Run_gc \<Rightarrow> run_gc K i p st
      | Set_ic \<Rightarrow> set_ic K i p st
      | Set_il \<Rightarrow> set_il K i p st
      | Set_ec \<Rightarrow> set_ec K i p st
      | Set_ee \<Rightarrow> set_ee K i p st
      | Set_ex \<Rightarrow> set_ex K i p st
      | Set_sa \<Rightarrow> set_sa i p st
      | Set_mi \<Rightarrow> set_mi i p st
      | Set_po \<Rightarrow> set_po i p st
      | Set_grp \<Rightarrow> st)"

subsection \<open>cmd_set and cmd_print\<close>

text \<open>\<^verbatim>\<open>cmd_set\<close> and \<^verbatim>\<open>_set_grp\<close> call each other: a child of a group may carry the
  index of a group. Nothing in the code bounds the depth of that recursion, so the model
  carries a depth \<open>d\<close> that each descent into a child consumes; \<open>None\<close> is a recursion
  deeper than \<open>d\<close>.\<close>

function cmd_set :: "nat \<Rightarrow> platform \<Rightarrow> int \<Rightarrow> cptr \<Rightarrow> state \<Rightarrow> (status \<times> state) option"
  and set_grp :: "nat \<Rightarrow> platform \<Rightarrow> nat \<Rightarrow> cptr \<Rightarrow> state \<Rightarrow> state option" where
  "cmd_set d K i p st =
     (if i < 0 \<or> CMD_INDEX_MAX \<le> i
      then Some (TG_UNRECOGNIZED_COMMAND,
                 upd_cmd p (\<lambda>ob. ob\<lparr>status := TG_UNRECOGNIZED_COMMAND\<rparr>) st)
      else if item_set (cfgArray ! nat i) = Set_grp
      then map_option (Pair TG_OK) (set_grp d K (CMD_MAX_OBJECTS K) p st)
      else Some (TG_OK, set_single K (item_set (cfgArray ! nat i)) i p st))"
| "set_grp d K 0 c st = Some st"
| "set_grp d K (Suc n) c st =
     (case nx (cmds st c) of
        None \<Rightarrow> Some st
      | Some q \<Rightarrow>
          (case d of
             0 \<Rightarrow> None
           | Suc d' \<Rightarrow>
               (case cmd_set d' K (index (cmds st q)) q st of
                  None \<Rightarrow> None
                | Some (s, st') \<Rightarrow> set_grp d K n q st')))"
  by pat_completeness auto
termination
  by (relation "inv_image (less_than <*lex*> less_than)
        (\<lambda>x. case x of
                Inl (d, K, i, p, st) \<Rightarrow> (d, CMD_MAX_OBJECTS K + 2)
              | Inr (d, K, n, c, st) \<Rightarrow> (d, n))")
     auto

declare cmd_set.simps [simp del]

text \<open>The values read for printing: \<^verbatim>\<open>_get_ui8_value\<close> and its siblings call the get
  binding on a local object. The print functions then format to \<^verbatim>\<open>stderr\<close>.\<close>

definition print_single :: "platform \<Rightarrow> fptrPrint \<Rightarrow> int \<Rightarrow> state \<Rightarrow> state" where
  "print_single K pr i st = (if pr = Print_nul then st else run_get K i (TMP 0) st)"

text \<open>\<^verbatim>\<open>cmd_print\<close> and \<^verbatim>\<open>_print_grp\<close>, with the same depth as above.
  \<^verbatim>\<open>_print_grp\<close> ignores its argument and expands the object \<^verbatim>\<open>cmd_array[0]\<close>.\<close>

function cmd_print :: "nat \<Rightarrow> platform \<Rightarrow> int \<Rightarrow> state \<Rightarrow> state option"
  and print_grp_loop :: "nat \<Rightarrow> platform \<Rightarrow> nat \<Rightarrow> cptr \<Rightarrow> state \<Rightarrow> state option" where
  "cmd_print d K i st =
     (if i < 0 \<or> CMD_INDEX_MAX \<le> i then Some st
      else if item_print (cfgArray ! nat i) = Print_grp
      then print_grp_loop d K (CMD_MAX_OBJECTS K) (CA 0)
             (snd (cmd_get K (index (cmds st (CA 0))) (CA 0) st))
      else Some (print_single K (item_print (cfgArray ! nat i)) i st))"
| "print_grp_loop d K 0 c st = Some st"
| "print_grp_loop d K (Suc n) c st =
     (case nx (cmds st c) of
        None \<Rightarrow> Some st
      | Some q \<Rightarrow>
          (case d of
             0 \<Rightarrow> None
           | Suc d' \<Rightarrow>
               (case cmd_print d' K (index (cmds st q)) st of
                  None \<Rightarrow> None
                | Some st' \<Rightarrow> print_grp_loop d K n q st')))"
  by pat_completeness auto
termination
  by (relation "inv_image (less_than <*lex*> less_than)
        (\<lambda>x. case x of
                Inl (d, K, i, st) \<Rightarrow> (d, CMD_MAX_OBJECTS K + 2)
              | Inr (d, K, n, c, st) \<Rightarrow> (d, n))")
     auto

declare cmd_print.simps [simp del]

subsection \<open>EEPROM access\<close>

definition cmd_read_NVM_value :: "int \<Rightarrow> cptr \<Rightarrow> state \<Rightarrow> status \<times> state" where
  "cmd_read_NVM_value i p st =
     (if i < 0 \<or> CMD_INDEX_MAX \<le> i then (TG_UNRECOGNIZED_COMMAND, st)
      else (TG_OK, upd_cmd p (\<lambda>ob. ob\<lparr>val := nvm st (nat i), value_type := VALUE_TYPE_FLOAT\<rparr>)
                     (cmd_new_object p st)))"

definition cmd_write_NVM_value :: "int \<Rightarrow> cptr \<Rightarrow> state \<Rightarrow> status \<times> state" where
  "cmd_write_NVM_value i p st =
     (if i < 0 \<or> CMD_INDEX_MAX \<le> i then (TG_UNRECOGNIZED_COMMAND, st)
      else (TG_OK, st\<lparr>nvm := (nvm st)(nat i := val (cmds st p)),
                       nvm_log := nvm_log st @ [(nat i, val (cmds st p))]\<rparr>))"

subsection \<open>cfg_init\<close>

definition exclusions :: string where
  "exclusions = ''sr,gc''"

text \<open>The loop of case (1), over the indices still to visit: the configuration is loaded
  from the EEPROM.\<close>

fun cfg_init_load :: "nat \<Rightarrow> platform \<Rightarrow> int list \<Rightarrow> state \<Rightarrow> state option" where
  "cfg_init_load d K [] st = Some st"
| "cfg_init_load d K (i # is) st =
     (let st1 = snd (cmd_read_NVM_value i (LOC 0) st);
          st2 = upd_cmd (LOC 0) (\<lambda>ob. ob\<lparr>token := cmd_get_token i\<rparr>) st1
      in if sublist (token (cmds st2 (LOC 0))) exclusions then cfg_init_load d K is st2
         else (case cmd_set d K i (LOC 0) st2 of
                 None \<Rightarrow> None
               | Some (s, st3) \<Rightarrow> cfg_init_load d K is st3))"

text \<open>The loop of case (2): the defaults are set and written to the EEPROM.\<close>

fun cfg_init_defaults :: "nat \<Rightarrow> platform \<Rightarrow> int list \<Rightarrow> state \<Rightarrow> state option" where
  "cfg_init_defaults d K [] st = Some st"
| "cfg_init_defaults d K (i # is) st =
     (let st1 = cmd_new_object (LOC 0) st;
          st2 = upd_cmd (LOC 0) (\<lambda>ob. ob\<lparr>token := cmd_get_token i\<rparr>) st1
      in if sublist (token (cmds st2 (LOC 0))) exclusions then cfg_init_defaults d K is st2
         else (case cmd_set d K i (LOC 0)
                      (upd_cmd (LOC 0) (\<lambda>ob. ob\<lparr>index := i, val := def_value K i\<rparr>) st2) of
                 None \<Rightarrow> None
               | Some (s, st3) \<Rightarrow>
                   cfg_init_defaults d K is (snd (cmd_write_NVM_value i (LOC 0) st3))))"

text \<open>The indices \<^verbatim>\<open>for (i=0; i<CMD_INDEX_START_GROUPS; i++)\<close> visits.\<close>

definition cfg_init_range :: "int list" where
  "cfg_init_range = map int [0 ..< nat CMD_INDEX_START_GROUPS]"

text \<open>\<^verbatim>\<open>cfg_init\<close>, in the build that uses the EEPROM (\<^verbatim>\<open>__DISABLE_EEPROM_INIT\<close> not
  defined).\<close>

definition cfg_init :: "nat \<Rightarrow> platform \<Rightarrow> state \<Rightarrow> state option" where
  "cfg_init d K st =
     (let st1 = cm_set_units_mode MILLIMETER_MODE st;
          st2 = st1\<lparr>memd := (memd st1)(Cfg_version := memd st1 Tg_build)\<rparr>;
          st3 = snd (cmd_read_NVM_value 0 (LOC 0) st2)
      in if val (cmds st3 (LOC 0)) = memd st3 Cfg_version
         then cfg_init_load d K cfg_init_range st3
         else map_option (rpt_init_status_report K True)
                (cfg_init_defaults d K cfg_init_range st3))"

subsection \<open>The text command parser\<close>

definition tolower :: "char \<Rightarrow> char" where
  "tolower c =
     (if (65::nat) \<le> of_char c \<and> of_char c \<le> (90::nat) then char_of (of_char c + (32::nat))
      else c)"

definition separators :: string where
  "separators = [CHR '' '', CHR ''='', CHR '':'', CHR ''|'', CHR 0x09]"

text \<open>\<^verbatim>\<open>_parse_config_string\<close>, in its two parts. The field processing works on the
  lower-cased line without its leading \<open>$\<close>. The C function lower-cases and cuts the
  caller's buffer in place; here the line is a value.\<close>

definition parse_fields :: "platform \<Rightarrow> string \<Rightarrow> cptr \<Rightarrow> state \<Rightarrow> status \<times> state" where
  "parse_fields K line p st =
     (let st1 = upd_cmd p (\<lambda>ob. ob\<lparr>value_type := VALUE_TYPE_NULL\<rparr>) st;
          left = takeWhile (\<lambda>c. c \<notin> set separators) line;
          st2 = (if length left = length line
                 then upd_cmd p (\<lambda>ob. ob\<lparr>name := strncpy left CMD_NAME_LEN\<rparr>) st1
                 else let conv = strtod K (drop (Suc (length left)) line)
                      in upd_cmd p (\<lambda>ob. ob\<lparr>name := strncpy left CMD_NAME_LEN,
                                              val := fst conv,
                                              value_type := (if snd conv \<noteq> 0 then VALUE_TYPE_FLOAT
                                                             else value_type ob)\<rparr>) st1);
          idx = cmd_get_index (name (cmds st2 p));
          st3 = upd_cmd p (\<lambda>ob. ob\<lparr>index := idx\<rparr>) st2
      in if idx = - 1 then (TG_UNRECOGNIZED_COMMAND, st3)
         else let st4 = upd_cmd p (\<lambda>ob. ob\<lparr>token := cmd_get_token idx\<rparr>) st3
              in (TG_OK, if CMD_INDEX_START_GROUPS \<le> idx
                         then upd_cmd p (\<lambda>ob. ob\<lparr>value_type := VALUE_TYPE_PARENT\<rparr>) st4
                         else st4))"

definition parse_config_string :: "platform \<Rightarrow> string \<Rightarrow> cptr \<Rightarrow> state \<Rightarrow> status \<times> state" where
  "parse_config_string K str p st =
     parse_fields K (map tolower (if cstr_nth str 0 = CHR ''$'' then drop 1 str else str)) p
       (cmd_new_object p st)"

text \<open>\<^verbatim>\<open>cfg_config_parser\<close>; \<^verbatim>\<open>ritorno\<close> returns a status other than \<^verbatim>\<open>TG_OK\<close> at
  once.\<close>

definition cfg_config_parser :: "nat \<Rightarrow> platform \<Rightarrow> string \<Rightarrow> state \<Rightarrow> (status \<times> state) option" where
  "cfg_config_parser d K str st =
     (case parse_config_string K str (CA 0) st of
        (s, st1) \<Rightarrow>
          if s \<noteq> TG_OK then Some (s, st1)
          else (case (if value_type (cmds st1 (CA 0)) \<noteq> VALUE_TYPE_PARENT
                         \<and> value_type (cmds st1 (CA 0)) \<noteq> VALUE_TYPE_NULL
                      then (case cmd_set d K (index (cmds st1 (CA 0))) (CA 0) st1 of
                              None \<Rightarrow> None
                            | Some (s2, st2) \<Rightarrow>
                                Some (snd (cmd_write_NVM_value (index (cmds st2 (CA 0))) (CA 0) st2)))
                      else Some st1) of
                  None \<Rightarrow> None
                | Some st3 \<Rightarrow>
                    map_option (Pair TG_OK) (cmd_print d K (index (cmds st3 (CA 0))) st3)))"

subsection \<open>A decimal instance of strtod and a test platform\<close>

text \<open>The decimal literals \<^verbatim>\<open>strtod\<close> converts: optional white space, an optional sign,
  digits with an optional point. Exponents, infinities and NaN are left to other
  instances of the parameter.\<close>

definition isspace :: "char \<Rightarrow> bool" where
  "isspace c = (c \<in> set [CHR '' '', CHR 0x09, CHR 0x0A, CHR 0x0B, CHR 0x0C, CHR 0x0D])"

definition isdigit :: "char \<Rightarrow> bool" where
  "isdigit c = ((48::nat) \<le> of_char c \<and> of_char c \<le> (57::nat))"

definition digits_value :: "string \<Rightarrow> nat" where
  "digits_value ds = foldl (\<lambda>acc c. 10 * acc + (of_char c - 48)) 0 ds"

definition strtod_decimal :: "string \<Rightarrow> real \<times> nat" where
  "strtod_decimal s =
     (let ws = takeWhile isspace s;
          r1 = dropWhile isspace s;
          sgn = (if cstr_nth r1 0 = CHR ''-'' \<or> cstr_nth r1 0 = CHR ''+'' then 1 else 0);
          r2 = drop sgn r1;
          ip = takeWhile isdigit r2;
          r3 = dropWhile isdigit r2;
          pt = (if cstr_nth r3 0 = CHR ''.'' then 1 else 0);
          fp = takeWhile isdigit (drop pt r3);
          m = real (digits_value ip) + real (digits_value fp) / 10 ^ length fp
      in if ip = [] \<and> fp = [] then (0, 0)
         else (if cstr_nth r1 0 = CHR ''-'' then - m else m,
               length ws + sgn + length ip + pt + length fp))"

definition K0 :: platform where
  "K0 = \<lparr>settings = (\<lambda>m. if m = ''ESTD_SEGMENT_USEC'' then 5000
                          else if m = ''STATUS_REPORT_MIN_MS'' then 200
                          else if m = ''STATUS_REPORT_MAX_MS'' then 1000
                          else if m = ''STATUS_REPORT_INTERVAL_MS'' then 200
                          else if m = ''TINYG_BUILD_NUMBER'' then 331.02
                          else if m = ''TINYG_CONFIG_VERSION'' then 331.02
                          else 1),
          CMD_MAX_OBJECTS = 21, CMD_STRING_LEN = 64, INPUT_BUFFER_LEN = 255,
          strtod = strtod_decimal,
          rpt_init_status_report = (\<lambda>persist st. st)\<rparr>"

definition st0 :: state where
  "st0 = \<lparr>mem8 = (\<lambda>t. 0), mem32 = (\<lambda>t. 0), memd = (\<lambda>t. 0)(Tg_build := 331.02),
           nvm = (\<lambda>i. 0), nvm_log = [], cmds = (\<lambda>p. new_object), in_buf = [],
           ext_log = [], runtime_velocity = 0, machine_runtime_position = (\<lambda>a. 0),
           work_runtime_position = (\<lambda>a. 0), gcode_parser_status = TG_OK\<rparr>"

section \<open>Table facts and loop lemmas\<close>


lemma cfgArray_length: "length cfgArray = 198"
  by (simp add: cfgArray_def)

lemma CMD_INDEX_MAX_eq: "CMD_INDEX_MAX = 198"
  by (simp add: CMD_INDEX_MAX_def cfgArray_length)

lemma CMD_INDEX_START_GROUPS_eq: "CMD_INDEX_START_GROUPS = 181"
  by (simp add: CMD_INDEX_START_GROUPS_def CMD_INDEX_MAX_eq CMD_COUNT_GROUPS_def)

text \<open>Every token of the table fits the token buffer: the names field and the token
  buffer give the same token.\<close>

lemma tokens_fit_all:
  "list_all (\<lambda>e. before_comma (strncpy (item_string e) CMD_NAMES_FIELD_LEN)
                  = before_comma (strncpy (item_string e) (CMD_TOKEN_LEN + 1))) cfgArray"
  by code_simp

lemma tokens_fit:
  assumes "i < 198"
  shows "before_comma (strncpy (item_string (cfgArray ! i)) CMD_NAMES_FIELD_LEN)
           = cmd_get_token (int i)"
  using assms tokens_fit_all
  by (simp add: list_all_length cfgArray_length cmd_get_token_def CMD_INDEX_MAX_eq)

lemma name_matches_iff:
  assumes "i < 198"
  shows "name_matches (strncpy (item_string (cfgArray ! i)) CMD_NAMES_FIELD_LEN) s
           \<longleftrightarrow> prefix (cmd_get_token (int i)) s \<or> prefix (cmd_get_name (int i)) s"
  using tokens_fit [OF assms] by (simp add: name_matches_def cmd_get_name_def Let_def)

lemma find_upt_Some:
  "find P [0 ..< n] = Some i \<longleftrightarrow> i < n \<and> P i \<and> (\<forall>j < i. \<not> P j)"
proof
  assume "find P [0 ..< n] = Some i"
  then obtain k where k: "k < n" "P ([0 ..< n] ! k)" "i = [0 ..< n] ! k"
    "\<forall>j < k. \<not> P ([0 ..< n] ! j)"
    by (auto simp: find_Some_iff)
  then show "i < n \<and> P i \<and> (\<forall>j < i. \<not> P j)" by auto
next
  assume "i < n \<and> P i \<and> (\<forall>j < i. \<not> P j)"
  then have "i < length [0 ..< n] \<and> P ([0 ..< n] ! i) \<and> i = [0 ..< n] ! i
      \<and> (\<forall>j < i. \<not> P ([0 ..< n] ! j))"
    by auto
  then show "find P [0 ..< n] = Some i"
    unfolding find_Some_iff by blast
qed

lemma find_upt_None: "find P [0 ..< n] = None \<longleftrightarrow> (\<forall>i < n. \<not> P i)"
  by (auto simp: find_None_iff)

lemma first_index_none: "first_index P = - 1 \<longleftrightarrow> (\<forall>i < nat CMD_INDEX_MAX. \<not> P i)"
proof -
  have "first_index P = - 1 \<longleftrightarrow> find P [0 ..< nat CMD_INDEX_MAX] = None"
    by (simp add: first_index_def split: option.splits)
  then show ?thesis by (simp only: find_upt_None)
qed

lemma first_index_some:
  "first_index P = int i \<longleftrightarrow> i < nat CMD_INDEX_MAX \<and> P i \<and> (\<forall>j < i. \<not> P j)"
proof -
  have "first_index P = int i \<longleftrightarrow> find P [0 ..< nat CMD_INDEX_MAX] = Some i"
    by (simp add: first_index_def split: option.splits)
  then show ?thesis by (simp only: find_upt_Some)
qed


text \<open>The first four characters of every combined string: no NUL, and the token ends at
  a comma within them or fills them.\<close>

lemma token_fields_all:
  "list_all (\<lambda>e. let t = strncpy (item_string e) CMD_TOKEN_LEN;
                      tok = before_comma (strncpy (item_string e) (CMD_TOKEN_LEN + 1))
                  in length t = 4 \<and> NUL \<notin> set t \<and> CHR '','' \<notin> set tok
                     \<and> tok = take (length tok) t \<and> 1 \<le> length tok
                     \<and> (length tok < 4 \<longrightarrow> t ! length tok = CHR '','')) cfgArray"
  by code_simp

lemma token_fields:
  assumes "i < 198"
  defines "t \<equiv> strncpy (item_string (cfgArray ! i)) CMD_TOKEN_LEN"
  defines "tok \<equiv> cmd_get_token (int i)"
  shows "length t = 4" "NUL \<notin> set t" "CHR '','' \<notin> set tok" "tok = take (length tok) t"
    "1 \<le> length tok" "length tok < 4 \<longrightarrow> t ! length tok = CHR '',''"
  using assms(1) token_fields_all
  unfolding t_def tok_def
  by (simp_all add: list_all_length cfgArray_length cmd_get_token_def CMD_INDEX_MAX_eq Let_def)

lemma cstr_nth_eq_NUL: "NUL \<notin> set s \<Longrightarrow> cstr_nth s k = NUL \<longleftrightarrow> length s \<le> k"
  by (auto simp: cstr_nth_def dest: nth_mem)

lemma token_matches_sound:
  assumes t: "t = [c0, c1, c2, c3]" "NUL \<notin> set t"
    and s: "NUL \<notin> set s"
    and tok: "tok = take (length tok) t" "1 \<le> length tok" "CHR '','' \<notin> set tok"
      "length tok < 4 \<longrightarrow> t ! length tok = CHR '',''"
    and m: "token_matches t s"
  shows "prefix tok s \<and> (s = tok \<or> length tok = 4 \<or> cstr_nth s (length tok) = CHR '','')"
proof -
  from m t have s01: "cstr_nth s 0 = c0" "cstr_nth s 1 = c1"
    by (auto simp: token_matches_def cstr_nth_def split: if_splits)
  from t have nz: "c0 \<noteq> NUL" "c1 \<noteq> NUL" "c2 \<noteq> NUL" "c3 \<noteq> NUL" by auto
  from s01 nz obtain s' where s': "s = c0 # c1 # s'"
    by (cases s; cases "tl s") (auto simp: cstr_nth_def split: if_splits)
  have "length (take n t) \<le> length t" for n by simp
  then have "length tok \<le> length t" using tok(1) by metis
  with t have "length tok \<le> 4" by simp
  with tok(2) consider "length tok = 1" | "length tok = 2" | "length tok = 3" | "length tok = 4"
    by linarith
  then show ?thesis
  proof cases
    case 1
    with tok t have "tok = [c0]" "c1 = CHR '',''" by auto
    with s' show ?thesis by (simp add: cstr_nth_def)
  next
    case 2
    with tok t have k: "tok = [c0, c1]" "c2 = CHR '',''" by (auto simp: numeral_2_eq_2)
    show ?thesis
    proof (cases s')
      case Nil
      with k s' show ?thesis by simp
    next
      case (Cons a s'')
      with m t k s' s nz show ?thesis
        by (auto simp: token_matches_def cstr_nth_def split: if_splits)
    qed
  next
    case 3
    with tok t have k: "tok = [c0, c1, c2]" "c3 = CHR '',''" "c2 \<noteq> CHR '',''"
      by (auto simp: numeral_3_eq_3)
    from m t k s' s nz obtain s'' where s'': "s' = c2 # s''"
      by (cases s') (auto simp: token_matches_def cstr_nth_def split: if_splits)
    show ?thesis
    proof (cases s'')
      case Nil
      with k s' s'' show ?thesis by simp
    next
      case (Cons a s3)
      with m t k s' s'' s nz show ?thesis
        by (auto simp: token_matches_def cstr_nth_def split: if_splits)
    qed
  next
    case 4
    with tok t have k: "tok = [c0, c1, c2, c3]" "c2 \<noteq> CHR '',''" "c3 \<noteq> CHR '',''"
      by auto
    from m t k s' s nz obtain s'' where s'': "s' = c2 # s''"
      by (cases s') (auto simp: token_matches_def cstr_nth_def split: if_splits)
    from m t k s' s'' s nz obtain s3 where "s'' = c3 # s3"
      by (cases s'') (auto simp: token_matches_def cstr_nth_def split: if_splits)
    with k s' s'' show ?thesis by simp
  qed
qed




lemma cmd_get_single:
  assumes "0 \<le> i" "i < CMD_INDEX_MAX" "\<not> is_group_get (item_get (cfgArray ! nat i))"
  shows "cmd_get K i p st = (TG_OK, get_single K (item_get (cfgArray ! nat i)) i p st)"
  using assms by (simp add: cmd_get_def run_get_def)

text \<open>What the table binds: a serial option and the status interval are written through
  their own field, which is the descriptor's target; no target is a derived
  steps-per-unit field; below the group descriptors no set binding is the group setter.\<close>

lemma bindings_all:
  "list_all (\<lambda>e. (item_set e = Set_ic \<longrightarrow> item_target e = Cfg_ignore_cr)
                \<and> (item_set e = Set_il \<longrightarrow> item_target e = Cfg_ignore_lf)
                \<and> (item_set e = Set_ec \<longrightarrow> item_target e = Cfg_enable_cr)
                \<and> (item_set e = Set_ee \<longrightarrow> item_target e = Cfg_enable_echo)
                \<and> (item_set e = Set_ex \<longrightarrow> item_target e = Cfg_enable_xon)
                \<and> (item_set e = Set_si \<longrightarrow> item_target e = Cfg_status_report_interval)
                \<and> (case item_target e of Cfg_m m f \<Rightarrow> f \<noteq> Steps_per_unit | _ \<Rightarrow> True)
                \<and> (item_set e \<noteq> Set_nul \<longrightarrow> item_target e \<noteq> Gm_units_mode)) cfgArray"
  by code_simp

lemma bindings:
  assumes "0 \<le> i" "i < CMD_INDEX_MAX"
  shows "item_set (cfgArray ! nat i) = Set_ic \<Longrightarrow> target i = Cfg_ignore_cr"
    "item_set (cfgArray ! nat i) = Set_il \<Longrightarrow> target i = Cfg_ignore_lf"
    "item_set (cfgArray ! nat i) = Set_ec \<Longrightarrow> target i = Cfg_enable_cr"
    "item_set (cfgArray ! nat i) = Set_ee \<Longrightarrow> target i = Cfg_enable_echo"
    "item_set (cfgArray ! nat i) = Set_ex \<Longrightarrow> target i = Cfg_enable_xon"
    "item_set (cfgArray ! nat i) = Set_si \<Longrightarrow> target i = Cfg_status_report_interval"
    "target i \<noteq> Cfg_m m Steps_per_unit"
    "item_set (cfgArray ! nat i) \<noteq> Set_nul \<Longrightarrow> target i \<noteq> Gm_units_mode"
proof -
  from assms have n: "nat i < length cfgArray" by (simp add: CMD_INDEX_MAX_eq cfgArray_length)
  note a = bindings_all [unfolded list_all_length, rule_format, OF n]
  from a show "item_set (cfgArray ! nat i) = Set_ic \<Longrightarrow> target i = Cfg_ignore_cr"
    "item_set (cfgArray ! nat i) = Set_il \<Longrightarrow> target i = Cfg_ignore_lf"
    "item_set (cfgArray ! nat i) = Set_ec \<Longrightarrow> target i = Cfg_enable_cr"
    "item_set (cfgArray ! nat i) = Set_ee \<Longrightarrow> target i = Cfg_enable_echo"
    "item_set (cfgArray ! nat i) = Set_ex \<Longrightarrow> target i = Cfg_enable_xon"
    "item_set (cfgArray ! nat i) = Set_si \<Longrightarrow> target i = Cfg_status_report_interval"
    "item_set (cfgArray ! nat i) \<noteq> Set_nul \<Longrightarrow> target i \<noteq> Gm_units_mode"
    by (simp_all add: target_def)
  from a show "target i \<noteq> Cfg_m m Steps_per_unit"
    by (auto simp: target_def split: target.splits)
qed

lemma singles_not_group_all:
  "list_all (\<lambda>e. item_set e \<noteq> Set_grp \<and> \<not> is_group_get (item_get e)) (take 180 cfgArray)"
  by code_simp

lemma singles_not_group:
  assumes "0 \<le> i" "i < 180"
  shows "item_set (cfgArray ! nat i) \<noteq> Set_grp" "\<not> is_group_get (item_get (cfgArray ! nat i))"
  using assms singles_not_group_all
  by (simp_all add: list_all_length cfgArray_length)

lemma val_upd_cmd [simp]: "cmds (upd_cmd p f st) p = f (cmds st p)"
  by (simp add: upd_cmd_def)

lemma mem_upd_cmd [simp]:
  "mem8 (upd_cmd p f st) = mem8 st" "mem32 (upd_cmd p f st) = mem32 st"
  "memd (upd_cmd p f st) = memd st" "nvm (upd_cmd p f st) = nvm st"
  "nvm_log (upd_cmd p f st) = nvm_log st"
  by (simp_all add: upd_cmd_def)

lemma mem_ext_call [simp]:
  "mem8 (ext_call e st) = mem8 st" "mem32 (ext_call e st) = mem32 st"
  "memd (ext_call e st) = memd st" "nvm (ext_call e st) = nvm st"
  "nvm_log (ext_call e st) = nvm_log st" "cmds (ext_call e st) = cmds st"
  by (simp_all add: ext_call_def)


lemma table_50: "item_set (cfgArray ! 50) = Set_dbu" "item_get (cfgArray ! 50) = Get_dbu"
  by code_simp+

subsection \<open>Pointers\<close>

lemma ptr_succ_funpow:
  "(ptr_succ ^^ k) (CA a) = CA (a + k)" "(ptr_succ ^^ k) (LOC a) = LOC (a + k)"
  "(ptr_succ ^^ k) (TMP a) = TMP (a + k)"
  by (induction k) simp_all

lemma ptr_succ_funpow_inj: "(ptr_succ ^^ a) c = (ptr_succ ^^ b) c \<longleftrightarrow> a = b"
  by (cases c) (simp_all add: ptr_succ_funpow)

lemma ptr_succ_neq [simp]: "ptr_succ c \<noteq> c" "c \<noteq> ptr_succ c"
  by (cases c; simp)+

lemma ptr_funpow_succ_neq [simp]: "(ptr_succ ^^ k) (ptr_succ c) \<noteq> c"
  using ptr_succ_funpow_inj [of "Suc k" c 0] by (simp add: funpow_swap1)

subsection \<open>Get bindings of single values touch one object\<close>

lemma cmds_upd_cmd_other [simp]: "q \<noteq> p \<Longrightarrow> cmds (upd_cmd p f st) q = cmds st q"
  by (simp add: upd_cmd_def)

lemma get_single_other: "q \<noteq> p \<Longrightarrow> cmds (get_single K g i p st) q = cmds st q"
  by (cases g)
     (simp_all add: get_single_def get_ui8_def get_int_def get_dbl_def get_dbu_def get_unit_def
       get_sr_def get_si_def get_gc_def get_stat_def get_vel_def get_abs_def get_pos_def
       get_am_def get_msg_def)

lemma get_single_same:
  "index (cmds (get_single K g i p st) p) = index (cmds st p)"
  "token (cmds (get_single K g i p st) p) = token (cmds st p)"
  "nx (cmds (get_single K g i p st) p) = nx (cmds st p)"
  "name (cmds (get_single K g i p st) p) = name (cmds st p)"
  by (cases g;
      simp add: get_single_def get_ui8_def get_int_def get_dbl_def get_dbu_def get_unit_def
       get_sr_def get_si_def get_gc_def get_stat_def get_vel_def get_abs_def get_pos_def
       get_am_def get_msg_def)+

subsection \<open>Expansion of a group whose children are single values\<close>

lemma grp_scan_stop: "n \<le> i \<Longrightarrow> grp_scan K g grp n i c st = st"
  by (simp add: grp_scan.simps)

lemma grp_scan_skip:
  "i < n \<Longrightarrow> \<not> grp_match g grp (cmd_get_token i)
     \<Longrightarrow> grp_scan K g grp n i c st = grp_scan K g grp n (i + 1) c st"
  by (subst grp_scan.simps) simp

text \<open>The state after a child that is a single value has been fetched, stripped and
  linked.\<close>

lemma grp_scan_take:
  assumes "i < n" "grp_match g grp (cmd_get_token i)" "0 \<le> i" "i < CMD_INDEX_MAX"
    "\<not> is_group_get (item_get (cfgArray ! nat i))"
  shows "grp_scan K g grp n i c st =
    grp_scan K g grp n (i + 1) (ptr_succ c)
      (upd_cmd c (\<lambda>ob. ob\<lparr>nx := Some (ptr_succ c)\<rparr>)
        ((if g = Get_grp
          then upd_cmd (ptr_succ c) (\<lambda>ob. ob\<lparr>token :=
                 strncpy (drop (length grp) (token ob)) (CMD_TOKEN_LEN + 1)\<rparr>)
          else id)
         (get_single K (item_get (cfgArray ! nat i)) i (ptr_succ c)
           (upd_cmd (ptr_succ c) (\<lambda>ob. ob\<lparr>index := i, token := cmd_get_token i\<rparr>)
             (cmd_new_object (ptr_succ c) st)))))"
  using assms by (subst grp_scan.simps) (simp add: Let_def)

lemma grp_scan_single:
  fixes K g grp n
  defines "kids i \<equiv> filter (\<lambda>j. grp_match g grp (cmd_get_token (int j))) [i ..< n]"
  assumes leaf: "\<And>j. i \<le> j \<Longrightarrow> j < n \<Longrightarrow> grp_match g grp (cmd_get_token (int j))
     \<Longrightarrow> int j < CMD_INDEX_MAX \<and> \<not> is_group_get (item_get (cfgArray ! j))"
  shows "(\<forall>q. (\<forall>k. q \<noteq> (ptr_succ ^^ k) c) \<longrightarrow>
            cmds (grp_scan K g grp (int n) (int i) c st) q = cmds st q)
     \<and> cmds (grp_scan K g grp (int n) (int i) c st) c
         = (cmds st c)\<lparr>nx := (if kids i = [] then nx (cmds st c) else Some (ptr_succ c))\<rparr>
     \<and> (\<forall>k < length (kids i).
          index (cmds (grp_scan K g grp (int n) (int i) c st) ((ptr_succ ^^ Suc k) c))
            = int (kids i ! k)
          \<and> token (cmds (grp_scan K g grp (int n) (int i) c st) ((ptr_succ ^^ Suc k) c))
            = (if g = Get_grp
               then strncpy (drop (length grp) (cmd_get_token (int (kids i ! k))))
                      (CMD_TOKEN_LEN + 1)
               else cmd_get_token (int (kids i ! k)))
          \<and> nx (cmds (grp_scan K g grp (int n) (int i) c st) ((ptr_succ ^^ Suc k) c))
            = (if Suc k < length (kids i) then Some ((ptr_succ ^^ Suc (Suc k)) c) else None))"
  using leaf
proof (induction "n - i" arbitrary: i c st)
  case 0
  then have "n \<le> i" by simp
  then show ?case by (simp add: grp_scan_stop kids_def)
next
  case (Suc m)
  then have lt: "i < n" and m: "m = n - Suc i" by simp_all
  have upt: "[i ..< n] = i # [Suc i ..< n]" using lt by (simp add: upt_conv_Cons)
  have leaf': "\<And>j. Suc i \<le> j \<Longrightarrow> j < n \<Longrightarrow> grp_match g grp (cmd_get_token (int j))
     \<Longrightarrow> int j < CMD_INDEX_MAX \<and> \<not> is_group_get (item_get (cfgArray ! j))"
    using Suc.prems by simp
  show ?case
  proof (cases "grp_match g grp (cmd_get_token (int i))")
    case False
    then have k: "kids i = kids (Suc i)" by (simp add: kids_def upt)
    have s: "grp_scan K g grp (int n) (int i) c st = grp_scan K g grp (int n) (int (Suc i)) c st"
      using lt False by (simp add: grp_scan_skip add.commute)
    show ?thesis unfolding k s by (rule Suc.hyps(1) [OF m leaf'])
  next
    case True
    let ?c = "ptr_succ c"
    let ?st3 = "upd_cmd c (\<lambda>ob. ob\<lparr>nx := Some ?c\<rparr>)
        ((if g = Get_grp
          then upd_cmd ?c (\<lambda>ob. ob\<lparr>token :=
                 strncpy (drop (length grp) (token ob)) (CMD_TOKEN_LEN + 1)\<rparr>)
          else id)
         (get_single K (item_get (cfgArray ! nat (int i))) (int i) ?c
           (upd_cmd ?c (\<lambda>ob. ob\<lparr>index := int i, token := cmd_get_token (int i)\<rparr>)
             (cmd_new_object ?c st))))"
    from Suc.prems [OF le_refl lt True]
    have r: "int i < CMD_INDEX_MAX" "\<not> is_group_get (item_get (cfgArray ! nat (int i)))"
      by simp_all
    have k: "kids i = i # kids (Suc i)" using True by (simp add: kids_def upt)
    have s: "grp_scan K g grp (int n) (int i) c st
               = grp_scan K g grp (int n) (int (Suc i)) ?c ?st3"
      using grp_scan_take [of "int i" "int n" g grp K c st] lt True r
      by (simp add: add.commute)
    note IH = Suc.hyps(1) [OF m leaf', of ?c ?st3]
    have c3: "cmds ?st3 c = (cmds st c)\<lparr>nx := Some ?c\<rparr>"
      by (simp add: get_single_other cmd_new_object_def)
    have q3: "cmds ?st3 q = cmds st q" if "q \<noteq> c" "q \<noteq> ?c" for q
      using that by (simp add: get_single_other cmd_new_object_def)
    have o3: "index (cmds ?st3 ?c) = int i"
      "token (cmds ?st3 ?c) = (if g = Get_grp
               then strncpy (drop (length grp) (cmd_get_token (int i))) (CMD_TOKEN_LEN + 1)
               else cmd_get_token (int i))"
      "nx (cmds ?st3 ?c) = None"
      by (simp_all add: get_single_same cmd_new_object_def new_object_def)
    have A: "cmds (grp_scan K g grp (int n) (int i) c st) q = cmds st q"
      if "\<forall>k. q \<noteq> (ptr_succ ^^ k) c" for q
    proof -
      from that [rule_format, of 0] that [rule_format, of 1]
      have "q \<noteq> c" "q \<noteq> ?c" by simp_all
      moreover have "\<forall>k. q \<noteq> (ptr_succ ^^ k) ?c"
        using that by (metis funpow_Suc_right comp_apply)
      ultimately show ?thesis using IH q3 by (simp add: s)
    qed
    have B: "cmds (grp_scan K g grp (int n) (int i) c st) c = (cmds st c)\<lparr>nx := Some ?c\<rparr>"
    proof -
      have "\<forall>k. c \<noteq> (ptr_succ ^^ k) ?c" by (metis ptr_funpow_succ_neq)
      then show ?thesis using IH c3 by (simp add: s)
    qed
    have C0: "cmds (grp_scan K g grp (int n) (int i) c st) ?c
        = (cmds ?st3 ?c)\<lparr>nx := (if kids (Suc i) = [] then nx (cmds ?st3 ?c)
                                else Some (ptr_succ ?c))\<rparr>"
      using IH by (simp add: s)
    have C: "index (cmds (grp_scan K g grp (int n) (int i) c st) ((ptr_succ ^^ Suc k) c))
            = int (kids i ! k)
          \<and> token (cmds (grp_scan K g grp (int n) (int i) c st) ((ptr_succ ^^ Suc k) c))
            = (if g = Get_grp
               then strncpy (drop (length grp) (cmd_get_token (int (kids i ! k))))
                      (CMD_TOKEN_LEN + 1)
               else cmd_get_token (int (kids i ! k)))
          \<and> nx (cmds (grp_scan K g grp (int n) (int i) c st) ((ptr_succ ^^ Suc k) c))
            = (if Suc k < length (kids i) then Some ((ptr_succ ^^ Suc (Suc k)) c) else None)"
      if "k < length (kids i)" for k
    proof (cases k)
      case 0
      then show ?thesis using C0 o3 k by (simp add: funpow_swap1)
    next
      case (Suc k')
      with that k have "k' < length (kids (Suc i))" by simp
      with IH have "index (cmds (grp_scan K g grp (int n) (int (Suc i)) ?c ?st3)
                      ((ptr_succ ^^ Suc k') ?c)) = int (kids (Suc i) ! k')
          \<and> token (cmds (grp_scan K g grp (int n) (int (Suc i)) ?c ?st3) ((ptr_succ ^^ Suc k') ?c))
            = (if g = Get_grp
               then strncpy (drop (length grp) (cmd_get_token (int (kids (Suc i) ! k'))))
                      (CMD_TOKEN_LEN + 1)
               else cmd_get_token (int (kids (Suc i) ! k')))
          \<and> nx (cmds (grp_scan K g grp (int n) (int (Suc i)) ?c ?st3) ((ptr_succ ^^ Suc k') ?c))
            = (if Suc k' < length (kids (Suc i)) then Some ((ptr_succ ^^ Suc (Suc k')) ?c)
               else None)"
        by blast
      then show ?thesis using Suc k by (simp add: s funpow_swap1)
    qed
    from A B C k show ?thesis by simp
  qed
qed

lemma chain_links:
  assumes "\<And>k. k < m \<Longrightarrow> nx (cmds st ((ptr_succ ^^ k) c)) = Some ((ptr_succ ^^ Suc k) c)"
    and "nx (cmds st ((ptr_succ ^^ m) c)) = None" and "m \<le> n"
  shows "chain n c st = map (\<lambda>k. (ptr_succ ^^ Suc k) c) [0 ..< m]"
  using assms
proof (induction m arbitrary: c n)
  case 0
  then show ?case by (cases n) simp_all
next
  case (Suc m)
  then obtain n' where n: "n = Suc n'" "m \<le> n'" by (cases n) simp_all
  from Suc.prems(1) [of 0] have h: "nx (cmds st c) = Some (ptr_succ c)" by simp
  have "chain n' (ptr_succ c) st = map (\<lambda>k. (ptr_succ ^^ Suc k) (ptr_succ c)) [0 ..< m]"
  proof (rule Suc.IH [OF _ _ n(2)])
    fix k assume "k < m"
    then show "nx (cmds st ((ptr_succ ^^ k) (ptr_succ c)))
        = Some ((ptr_succ ^^ Suc k) (ptr_succ c))"
      using Suc.prems(1) [of "Suc k"] by (simp add: funpow_swap1)
  next
    show "nx (cmds st ((ptr_succ ^^ m) (ptr_succ c))) = None"
      using Suc.prems(2) by (simp add: funpow_swap1)
  qed
  then have "chain n c st = ptr_succ c # map (\<lambda>k. (ptr_succ ^^ Suc (Suc k)) c) [0 ..< m]"
    using n h by (simp add: funpow_swap1)
  also have "\<dots> = map (\<lambda>k. (ptr_succ ^^ Suc k) c) [0 ..< Suc m]"
    by (simp add: upt_conv_Cons map_Suc_upt [symmetric] del: upt_Suc)
  finally show ?case .
qed


text \<open>The axis groups: their get binding and their one-letter token; a first child of
  each; and the group descriptors from 180 on, none of which has a token that begins with
  an axis letter.\<close>

lemma axis_groups_all:
  "list_all (\<lambda>e. item_get e = Get_grp) (drop 188 (take 194 cfgArray))"
  "map (\<lambda>G. cmd_get_token (int G)) [188 ..< 194] = [''x'', ''y'', ''z'', ''a'', ''b'', ''c'']"
  "map (\<lambda>j. take 1 (cmd_get_token (int j))) [49, 61, 73, 85, 98, 111]
     = [''x'', ''y'', ''z'', ''a'', ''b'', ''c'']"
  "list_all (\<lambda>e. cstr_nth (item_string e) 0 \<notin> set ''xyzabc'') (drop 180 (take 188 cfgArray))"
  by code_simp+

lemma axis_group_facts:
  assumes "G \<in> {188, 189, 190, 191, 192, 193}"
  obtains a j0 where "cmd_get_token G = [a]" and "item_get (cfgArray ! nat G) = Get_grp"
    and "j0 < nat G" and "prefix (cmd_get_token G) (cmd_get_token (int j0))"
    and "\<And>j. 180 \<le> j \<Longrightarrow> j < nat G \<Longrightarrow> \<not> prefix (cmd_get_token G) (cmd_get_token (int j))"
proof -
  let ?l = "''xyzabc''"
  let ?cs = "[49, 61, 73, 85, 98, 111] :: nat list"
  from assms have "nat G - 188 < 6 \<and> nat G = 188 + (nat G - 188) \<and> G = int (188 + (nat G - 188))"
    by auto
  then obtain k where k: "k < 6" "nat G = 188 + k" "G = int (188 + k)" by blast
  have tk: "cmd_get_token (int (188 + m)) = [?l ! m]" if "m < 6" for m
  proof -
    have "map (\<lambda>G. cmd_get_token (int G)) [188 ..< 194] ! m = map (\<lambda>c. [c]) ?l ! m"
      using axis_groups_all(2) by simp
    moreover have "map (\<lambda>G. cmd_get_token (int G)) [188 ..< 194] ! m
        = cmd_get_token (int (188 + m))"
      using that by (subst nth_map) (simp_all del: upt_rec_numeral)
    moreover have "map (\<lambda>c. [c]) ?l ! m = [?l ! m]"
      using that by (subst nth_map) simp_all
    ultimately show ?thesis by simp
  qed
  have ch: "take 1 (cmd_get_token (int (?cs ! m))) = [?l ! m]" if "m < 6" for m
  proof -
    have "map (\<lambda>j. take 1 (cmd_get_token (int j))) ?cs ! m = map (\<lambda>c. [c]) ?l ! m"
      using axis_groups_all(3) by simp
    moreover have "map (\<lambda>j. take 1 (cmd_get_token (int j))) ?cs ! m
        = take 1 (cmd_get_token (int (?cs ! m)))"
      using that by (subst nth_map) simp_all
    moreover have "map (\<lambda>c. [c]) ?l ! m = [?l ! m]"
      using that by (subst nth_map) simp_all
    ultimately show ?thesis by simp
  qed
  have d: "distinct ?l" by simp
  have gk: "item_get (cfgArray ! nat G) = Get_grp"
  proof -
    from axis_groups_all(1) k(1) have "item_get (drop 188 (take 194 cfgArray) ! k) = Get_grp"
      by (simp add: list_all_length cfgArray_length)
    with k show ?thesis by (simp add: cfgArray_length)
  qed
  have low: "\<not> prefix [a] (cmd_get_token (int j))"
    if "a \<in> set ?l" "180 \<le> j" "j < 188" for a j
  proof
    assume p: "prefix [a] (cmd_get_token (int j))"
    from that have "j - 180 < 8 \<and> j = 180 + (j - 180)" by simp
    then obtain m where j: "m < 8" "j = 180 + m" by blast
    from axis_groups_all(4) j(1)
    have "cstr_nth (item_string (drop 180 (take 188 cfgArray) ! m)) 0 \<notin> set ?l"
      by (simp add: list_all_length cfgArray_length)
    moreover have "drop 180 (take 188 cfgArray) ! m = cfgArray ! j"
      unfolding j(2) using j(1) by (simp add: cfgArray_length)
    ultimately have n: "cstr_nth (item_string (cfgArray ! j)) 0 \<notin> set ?l" by simp
    from p obtain r where "cmd_get_token (int j) = a # r" by (auto simp: prefix_def)
    then have "before_comma (strncpy (item_string (cfgArray ! j)) (CMD_TOKEN_LEN + 1)) = a # r"
      using that(3) by (simp add: cmd_get_token_def CMD_INDEX_MAX_eq)
    then have "cstr_nth (item_string (cfgArray ! j)) 0 = a"
      by (cases "item_string (cfgArray ! j)")
         (auto simp: before_comma_def strncpy_def cstr_nth_def CMD_TOKEN_LEN_def
            split: if_splits)
    with n that(1) show False by simp
  qed
  have "k < length ?l" using k(1) by simp
  then have lk: "?l ! k \<in> set ?l" by (rule nth_mem)
  show thesis
  proof (rule that [of "?l ! k" "?cs ! k"])
    show "cmd_get_token G = [?l ! k]" using tk [OF k(1)] k(3) by simp
    show "item_get (cfgArray ! nat G) = Get_grp" by (rule gk)
    show "?cs ! k < nat G"
    proof -
      have "list_all (\<lambda>j. j < 188) ?cs" by simp
      then have "?cs ! k < 188" using k(1) by (simp add: list_all_length)
      then show ?thesis using k(2) by simp
    qed
    show "prefix (cmd_get_token G) (cmd_get_token (int (?cs ! k)))"
      using ch [OF k(1)] tk [OF k(1)] k(3) by (metis take_is_prefix)
    show "\<not> prefix (cmd_get_token G) (cmd_get_token (int j))" if "180 \<le> j" "j < nat G" for j
    proof (cases "j < 188")
      case True
      with low [OF lk that(1)] tk [OF k(1)] k(3) show ?thesis by simp
    next
      case False
      with that k have "j - 188 < k \<and> j = 188 + (j - 188) \<and> j - 188 < 6" by linarith
      then obtain m where m: "m < k" "j = 188 + m" "m < 6" by blast
      have "cmd_get_token (int j) = [?l ! m]"
        unfolding m(2) by (rule tk [OF m(3)])
      moreover have "(?l ! k = ?l ! m) = (k = m)"
        by (rule nth_eq_iff_index_eq [OF d]) (use m(3) k(1) in simp_all)
      with m(1) have "?l ! k \<noteq> ?l ! m" by blast
      ultimately show ?thesis using tk [OF k(1)] k(3) by simp
    qed
  qed
qed

subsection \<open>Groups without children\<close>

lemma print_grp_loop_no_children:
  "nx (cmds st c) = None \<Longrightarrow> print_grp_loop d K n c st = Some st"
  by (cases n) (simp_all add: cmd_print.simps)

lemma set_grp_no_children: "nx (cmds st c) = None \<Longrightarrow> set_grp d K n c st = Some st"
  by (cases n) (simp_all add: cmd_set.simps)

section \<open>Frame lemmas for the set bindings\<close>

subsection \<open>What a set binding writes\<close>

lemma mem_cmd_new_object [simp]:
  "mem8 (cmd_new_object p st) = mem8 st" "mem32 (cmd_new_object p st) = mem32 st"
  "memd (cmd_new_object p st) = memd st" "nvm (cmd_new_object p st) = nvm st"
  "nvm_log (cmd_new_object p st) = nvm_log st"
  by (simp_all add: cmd_new_object_def)

lemma set_sr_loop_frame:
  "mem8 (set_sr_loop r j c st) = mem8 st" "memd (set_sr_loop r j c st) = memd st"
  "nvm (set_sr_loop r j c st) = nvm st" "nvm_log (set_sr_loop r j c st) = nvm_log st"
  "cmds (set_sr_loop r j c st) = cmds st"
  by (induction r j c st rule: set_sr_loop.induct; simp add: Let_def)+

lemma set_single_nvm:
  "nvm (set_single K s i p st) = nvm st" "nvm_log (set_single K s i p st) = nvm_log st"
  by (cases s;
      simp add: set_single_def set_ui8_def set_int_def set_dbl_def set_dbu_def set_sr_def
        set_si_def run_gc_def set_ic_def set_il_def set_ec_def set_ee_def set_ex_def
        set_serial_def set_sa_def set_mi_def set_po_def set_motor_steps_per_unit_def
        set_sr_loop_frame clear_status_report_spec_def Let_def)+

lemma set_single_val:
  "val (cmds (set_single K s i p st) p)
     = (if s = Set_si then status_interval_clamp K (val (cmds st p)) else val (cmds st p))"
  by (cases s;
      simp add: set_single_def set_ui8_def set_int_def set_dbl_def set_dbu_def set_sr_def
        set_si_def run_gc_def set_ic_def set_il_def set_ec_def set_ee_def set_ex_def
        set_serial_def set_sa_def set_mi_def set_po_def set_motor_steps_per_unit_def
        set_sr_loop_frame clear_status_report_spec_def Let_def)

lemma set_single_mem8_other:
  assumes "0 \<le> i" "i < CMD_INDEX_MAX" "s = item_set (cfgArray ! nat i)"
    and "s \<in> {Set_nul, Set_grp, Set_sr, Run_gc} \<or> t \<noteq> target i"
  shows "mem8 (set_single K s i p st) t = mem8 st t"
  using assms(4) bindings(1-6) [OF assms(1,2)] unfolding assms(3) [symmetric]
  by (cases s;
      auto simp add: set_single_def set_ui8_def set_int_def set_dbl_def set_dbu_def set_sr_def
        set_si_def run_gc_def set_ic_def set_il_def set_ec_def set_ee_def set_ex_def
        set_serial_def set_sa_def set_mi_def set_po_def set_motor_steps_per_unit_def
        set_sr_loop_frame clear_status_report_spec_def Let_def)

lemma set_single_mem32_other:
  assumes "s \<in> {Set_nul, Set_grp, Run_gc} \<or> (s \<noteq> Set_sr \<and> t \<noteq> target i)"
  shows "mem32 (set_single K s i p st) t = mem32 st t"
  using assms
  by (cases s;
      auto simp add: set_single_def set_ui8_def set_int_def set_dbl_def set_dbu_def
        set_si_def run_gc_def set_ic_def set_il_def set_ec_def set_ee_def set_ex_def
        set_serial_def set_sa_def set_mi_def set_po_def set_motor_steps_per_unit_def Let_def)

lemma set_single_memd_other:
  assumes "s \<in> {Set_nul, Set_grp, Set_sr, Run_gc} \<or> t \<noteq> target i"
    and "\<And>m. t \<noteq> Cfg_m m Steps_per_unit"
  shows "memd (set_single K s i p st) t = memd st t"
  using assms
  by (cases s;
      auto simp add: set_single_def set_ui8_def set_int_def set_dbl_def set_dbu_def set_sr_def
        set_si_def run_gc_def set_ic_def set_il_def set_ec_def set_ee_def set_ex_def
        set_serial_def set_sa_def set_mi_def set_po_def set_motor_steps_per_unit_def
        set_sr_loop_frame clear_status_report_spec_def Let_def)

lemma set_single_units_mode:
  assumes "0 \<le> i" "i < CMD_INDEX_MAX"
  shows "mem8 (set_single K (item_set (cfgArray ! nat i)) i p st) Gm_units_mode
           = mem8 st Gm_units_mode"
proof (cases "item_set (cfgArray ! nat i) = Set_nul")
  case True
  then show ?thesis by (simp add: set_single_def)
next
  case False
  from bindings(8) [OF assms False] have "Gm_units_mode \<noteq> target i" by simp
  then show ?thesis using set_single_mem8_other [OF assms refl] by blast
qed

text \<open>What a storing set binding leaves at the descriptor's target, in millimeter mode.\<close>

lemma set_single_stores:
  assumes "0 \<le> i" "i < CMD_INDEX_MAX" "s = item_set (cfgArray ! nat i)"
  shows "s \<in> {Set_ui8, Set_ic, Set_il, Set_ec, Set_ee, Set_ex, Set_mi, Set_po}
           \<Longrightarrow> mem8 (set_single K s i p st) (target i) = u8_of_double (val (cmds st p))"
    and "s = Set_int \<Longrightarrow> mem32 (set_single K s i p st) (target i) = u32_of_double (val (cmds st p))"
    and "s \<in> {Set_dbl, Set_sa} \<or> s = Set_dbu \<and> cm_get_units_mode st \<noteq> INCHES_MODE
           \<Longrightarrow> memd (set_single K s i p st) (target i) = val (cmds st p)"
  using bindings(1-5,7) [OF assms(1,2)] unfolding assms(3) [symmetric]
  by (auto simp add: set_single_def set_ui8_def set_int_def set_dbl_def set_dbu_def
        set_ic_def set_il_def set_ec_def set_ee_def set_ex_def
        set_serial_def set_sa_def set_mi_def set_po_def set_motor_steps_per_unit_def Let_def)

lemma cmd_set_fresh:
  assumes "0 \<le> i" "i < CMD_INDEX_MAX" "nx (cmds st p) = None"
  shows "cmd_set d K i p st = Some (TG_OK, set_single K (item_set (cfgArray ! nat i)) i p st)"
  using assms by (simp add: cmd_set.simps set_grp_no_children set_single_def)

subsection \<open>The default pass of cfg_init\<close>

lemma cfg_init_defaults_append:
  "cfg_init_defaults d K (xs @ ys) st
     = (case cfg_init_defaults d K xs st of None \<Rightarrow> None
        | Some s \<Rightarrow> cfg_init_defaults d K ys s)"
  by (induction xs arbitrary: st) (simp_all add: Let_def split: option.splits prod.splits)

text \<open>One iteration, for an index of the table.\<close>

lemma cfg_init_defaults_step:
  fixes K :: platform and st :: state and d :: nat
  assumes "0 \<le> i" "i < CMD_INDEX_MAX"
  defines "st2 \<equiv> upd_cmd (LOC 0) (\<lambda>ob. ob\<lparr>token := cmd_get_token i\<rparr>) (cmd_new_object (LOC 0) st)"
  defines "st3 \<equiv> set_single K (item_set (cfgArray ! nat i)) i (LOC 0)
                    (upd_cmd (LOC 0) (\<lambda>ob. ob\<lparr>index := i, val := def_value K i\<rparr>) st2)"
  shows "cfg_init_defaults d K (i # is) st
     = cfg_init_defaults d K is
         (if sublist (cmd_get_token i) exclusions then st2
          else st3\<lparr>nvm := (nvm st3)(nat i := val (cmds st3 (LOC 0))),
                   nvm_log := nvm_log st3 @ [(nat i, val (cmds st3 (LOC 0)))]\<rparr>)"
proof -
  have "nx (cmds (upd_cmd (LOC 0) (\<lambda>ob. ob\<lparr>index := i, val := def_value K i\<rparr>) st2) (LOC 0)) = None"
    by (simp add: st2_def cmd_new_object_def new_object_def)
  from cmd_set_fresh [OF assms(1,2) this, of d K] show ?thesis
    using assms(1,2)
    by (simp add: Let_def st2_def [symmetric] st3_def [symmetric] cmd_write_NVM_value_def
        st2_def [THEN meta_eq_to_obj_eq, THEN arg_cong [where f = "\<lambda>s. token (cmds s (LOC 0))"]])
qed

text \<open>The value the pass writes to the EEPROM record of index \<open>i\<close>.\<close>

lemma cfg_init_defaults_pass:
  assumes "\<And>i. i \<in> set is \<Longrightarrow> 0 \<le> i \<and> i < CMD_INDEX_MAX"
  shows "\<exists>st'. cfg_init_defaults d K is st = Some st'
     \<and> nvm_log st' = nvm_log st
          @ map (\<lambda>i. (nat i, if item_set (cfgArray ! nat i) = Set_si
                              then status_interval_clamp K (def_value K i) else def_value K i))
              (filter (\<lambda>i. \<not> sublist (cmd_get_token i) exclusions) is)
     \<and> (\<forall>k. (\<forall>i \<in> set is. \<not> sublist (cmd_get_token i) exclusions \<longrightarrow> k \<noteq> nat i)
            \<longrightarrow> nvm st' k = nvm st k)
     \<and> mem8 st' Gm_units_mode = mem8 st Gm_units_mode
     \<and> (\<forall>t. (\<forall>i \<in> set is. \<not> sublist (cmd_get_token i) exclusions
                  \<longrightarrow> item_set (cfgArray ! nat i) \<in> {Set_nul, Set_grp, Set_sr, Run_gc}
                       \<or> t \<noteq> target i)
            \<longrightarrow> mem8 st' t = mem8 st t
              \<and> ((\<forall>i \<in> set is. \<not> sublist (cmd_get_token i) exclusions
                     \<longrightarrow> item_set (cfgArray ! nat i) \<noteq> Set_sr) \<longrightarrow> mem32 st' t = mem32 st t)
              \<and> ((\<forall>m. t \<noteq> Cfg_m m Steps_per_unit) \<longrightarrow> memd st' t = memd st t))"
  using assms
proof (induction "is" arbitrary: st)
  case Nil
  then show ?case by simp
next
  case (Cons i "is")
  then have i: "0 \<le> i" "i < CMD_INDEX_MAX" by simp_all
  let ?s = "item_set (cfgArray ! nat i)"
  let ?st2 = "upd_cmd (LOC 0) (\<lambda>ob. ob\<lparr>token := cmd_get_token i\<rparr>) (cmd_new_object (LOC 0) st)"
  let ?st3 = "set_single K ?s i (LOC 0)
                (upd_cmd (LOC 0) (\<lambda>ob. ob\<lparr>index := i, val := def_value K i\<rparr>) ?st2)"
  let ?w = "if ?s = Set_si then status_interval_clamp K (def_value K i) else def_value K i"
  let ?nx = "if sublist (cmd_get_token i) exclusions then ?st2
          else ?st3\<lparr>nvm := (nvm ?st3)(nat i := val (cmds ?st3 (LOC 0))),
                   nvm_log := nvm_log ?st3 @ [(nat i, val (cmds ?st3 (LOC 0)))]\<rparr>"
  have step: "cfg_init_defaults d K (i # is) st = cfg_init_defaults d K is ?nx"
    by (rule cfg_init_defaults_step [OF i])
  have w: "val (cmds ?st3 (LOC 0)) = ?w" by (simp add: set_single_val)
  have log: "nvm_log ?nx = nvm_log st
      @ (if sublist (cmd_get_token i) exclusions then [] else [(nat i, ?w)])"
    by (simp add: set_single_nvm w)
  have nv: "nvm ?nx k = nvm st k"
    if "\<not> sublist (cmd_get_token i) exclusions \<longrightarrow> k \<noteq> nat i" for k
    using that by (simp add: set_single_nvm)
  have um: "mem8 ?nx Gm_units_mode = mem8 st Gm_units_mode"
    by (simp add: set_single_units_mode [OF i])
  have m8: "mem8 ?nx t = mem8 st t"
    if "\<not> sublist (cmd_get_token i) exclusions
          \<longrightarrow> ?s \<in> {Set_nul, Set_grp, Set_sr, Run_gc} \<or> t \<noteq> target i" for t
    using that set_single_mem8_other [OF i refl, of t K "LOC 0"]
    by auto
  have m32: "mem32 ?nx t = mem32 st t"
    if "\<not> sublist (cmd_get_token i) exclusions
          \<longrightarrow> ?s \<in> {Set_nul, Set_grp, Set_sr, Run_gc} \<or> t \<noteq> target i"
      and "\<not> sublist (cmd_get_token i) exclusions \<longrightarrow> ?s \<noteq> Set_sr" for t
    using that set_single_mem32_other [of ?s t i K "LOC 0"]
    by auto
  have md: "memd ?nx t = memd st t"
    if "\<not> sublist (cmd_get_token i) exclusions
          \<longrightarrow> ?s \<in> {Set_nul, Set_grp, Set_sr, Run_gc} \<or> t \<noteq> target i"
      and "\<And>m. t \<noteq> Cfg_m m Steps_per_unit" for t
    using that set_single_memd_other [of ?s t i K "LOC 0"]
    by auto
  from Cons.prems have "\<And>j. j \<in> set is \<Longrightarrow> 0 \<le> j \<and> j < CMD_INDEX_MAX" by simp
  from Cons.IH [OF this, of ?nx] obtain st' where r: "cfg_init_defaults d K is ?nx = Some st'"
    and rl: "nvm_log st' = nvm_log ?nx
          @ map (\<lambda>i. (nat i, if item_set (cfgArray ! nat i) = Set_si
                              then status_interval_clamp K (def_value K i) else def_value K i))
              (filter (\<lambda>i. \<not> sublist (cmd_get_token i) exclusions) is)"
    and rn: "\<And>k. (\<forall>i \<in> set is. \<not> sublist (cmd_get_token i) exclusions \<longrightarrow> k \<noteq> nat i)
            \<Longrightarrow> nvm st' k = nvm ?nx k"
    and ru: "mem8 st' Gm_units_mode = mem8 ?nx Gm_units_mode"
    and rm: "\<And>t. (\<forall>i \<in> set is. \<not> sublist (cmd_get_token i) exclusions
                  \<longrightarrow> item_set (cfgArray ! nat i) \<in> {Set_nul, Set_grp, Set_sr, Run_gc}
                       \<or> t \<noteq> target i)
            \<Longrightarrow> mem8 st' t = mem8 ?nx t
              \<and> ((\<forall>i \<in> set is. \<not> sublist (cmd_get_token i) exclusions
                     \<longrightarrow> item_set (cfgArray ! nat i) \<noteq> Set_sr) \<longrightarrow> mem32 st' t = mem32 ?nx t)
              \<and> ((\<forall>m. t \<noteq> Cfg_m m Steps_per_unit) \<longrightarrow> memd st' t = memd ?nx t)"
    by blast
  show ?case
  proof (intro exI conjI allI impI)
    show "cfg_init_defaults d K (i # is) st = Some st'" by (simp only: step r)
    show "nvm_log st' = nvm_log st
          @ map (\<lambda>i. (nat i, if item_set (cfgArray ! nat i) = Set_si
                              then status_interval_clamp K (def_value K i) else def_value K i))
              (filter (\<lambda>i. \<not> sublist (cmd_get_token i) exclusions) (i # is))"
      unfolding rl log by simp
    show "mem8 st' Gm_units_mode = mem8 st Gm_units_mode" by (simp only: ru um)
  next
    fix k assume "\<forall>j \<in> set (i # is). \<not> sublist (cmd_get_token j) exclusions \<longrightarrow> k \<noteq> nat j"
    then show "nvm st' k = nvm st k" using rn [of k] nv [of k] by simp
  next
    fix t
    assume a: "\<forall>j \<in> set (i # is). \<not> sublist (cmd_get_token j) exclusions
                  \<longrightarrow> item_set (cfgArray ! nat j) \<in> {Set_nul, Set_grp, Set_sr, Run_gc}
                       \<or> t \<noteq> target j"
    then have a': "\<forall>j \<in> set is. \<not> sublist (cmd_get_token j) exclusions
                  \<longrightarrow> item_set (cfgArray ! nat j) \<in> {Set_nul, Set_grp, Set_sr, Run_gc}
                       \<or> t \<noteq> target j"
      and ai: "\<not> sublist (cmd_get_token i) exclusions
          \<longrightarrow> ?s \<in> {Set_nul, Set_grp, Set_sr, Run_gc} \<or> t \<noteq> target i"
      by simp_all
    show "mem8 st' t = mem8 st t" using rm [OF a'] m8 [OF ai] by simp
    {
      assume b: "\<forall>j \<in> set (i # is). \<not> sublist (cmd_get_token j) exclusions
                     \<longrightarrow> item_set (cfgArray ! nat j) \<noteq> Set_sr"
      then show "mem32 st' t = mem32 st t" using rm [OF a'] m32 [OF ai] by simp
    }
    {
      assume c: "\<forall>m. t \<noteq> Cfg_m m Steps_per_unit"
      then show "memd st' t = memd st t" using rm [OF a'] md [OF ai] by simp
    }
  qed
qed

subsection \<open>Table facts for cfg_init\<close>

lemma distinct_map_filter_nth:
  assumes "distinct (map f (filter P xs))" "i < length xs" "j < length xs" "i \<noteq> j"
    "P (xs ! i)" "P (xs ! j)"
  shows "f (xs ! i) \<noteq> f (xs ! j)"
  using assms
proof (induction xs arbitrary: i j)
  case Nil
  then show ?case by simp
next
  case (Cons x xs)
  show ?case
  proof (cases i)
    case 0
    with Cons.prems obtain j' where j: "j = Suc j'" "j' < length xs" by (cases j) auto
    with Cons.prems 0 have "f x \<notin> f ` set (filter P xs)" "xs ! j' \<in> set (filter P xs)"
      by auto
    then have "f x \<noteq> f (xs ! j')" by (metis imageI)
    with 0 j show ?thesis by simp
  next
    case (Suc i')
    show ?thesis
    proof (cases j)
      case 0
      with Cons.prems Suc have "f x \<notin> f ` set (filter P xs)" "xs ! i' \<in> set (filter P xs)"
        by auto
      then have "f (xs ! i') \<noteq> f x" by (metis imageI)
      with 0 \<open>i = Suc i'\<close> show ?thesis by simp
    next
      case (Suc j')
      with Cons.prems \<open>i = Suc i'\<close> have "f (xs ! i') \<noteq> f (xs ! j')"
        by (intro Cons.IH) (auto split: if_splits)
      with Suc \<open>i = Suc i'\<close> show ?thesis by simp
    qed
  qed
qed

text \<open>Below the group region: the excluded tokens are \<open>sr\<close> and \<open>gc\<close>; \<^verbatim>\<open>_set_sr\<close> is
  bound to an excluded token only; the configuration version is no storing descriptor's
  target; the storing descriptors have pairwise different targets.\<close>

lemma cfg_init_table_all:
  "list_all (\<lambda>e. let t = before_comma (strncpy (item_string e) (CMD_TOKEN_LEN + 1))
                  in (sublist t exclusions \<longleftrightarrow> t = ''sr'' \<or> t = ''gc'')
                     \<and> (item_set e = Set_sr \<longrightarrow> sublist t exclusions)
                     \<and> (item_set e \<in> {Set_nul, Set_grp, Set_sr, Run_gc}
                          \<or> item_target e \<noteq> Cfg_version)) (take 181 cfgArray)"
  "distinct (map item_target
     (filter (\<lambda>e. item_set e \<notin> {Set_nul, Set_grp, Set_sr, Run_gc}) (take 181 cfgArray)))"
  "item_def_value (cfgArray ! 0) = Macro ''TINYG_CONFIG_VERSION''"
  "map (\<lambda>i. cmd_get_token (int i)) [0, 1] = [''fc'', ''fv'']"
  by code_simp+

lemma cfg_init_table:
  assumes "0 \<le> i" "i < CMD_INDEX_START_GROUPS"
  shows "sublist (cmd_get_token i) exclusions \<longleftrightarrow> cmd_get_token i = ''sr'' \<or> cmd_get_token i = ''gc''"
    "item_set (cfgArray ! nat i) = Set_sr \<Longrightarrow> sublist (cmd_get_token i) exclusions"
    "item_set (cfgArray ! nat i) \<in> {Set_nul, Set_grp, Set_sr, Run_gc} \<or> target i \<noteq> Cfg_version"
proof -
  from assms have n: "nat i < length (take 181 cfgArray)"
    by (simp add: CMD_INDEX_START_GROUPS_eq cfgArray_length)
  then have e: "take 181 cfgArray ! nat i = cfgArray ! nat i" by simp
  note a = cfg_init_table_all(1) [unfolded list_all_length, rule_format, OF n, unfolded e Let_def]
  from assms have t: "cmd_get_token i
      = before_comma (strncpy (item_string (cfgArray ! nat i)) (CMD_TOKEN_LEN + 1))"
    by (simp add: cmd_get_token_def CMD_INDEX_START_GROUPS_eq CMD_INDEX_MAX_eq cfgArray_length)
  from a show "sublist (cmd_get_token i) exclusions \<longleftrightarrow> cmd_get_token i = ''sr'' \<or> cmd_get_token i = ''gc''"
    unfolding t by blast
  from a show "item_set (cfgArray ! nat i) = Set_sr \<Longrightarrow> sublist (cmd_get_token i) exclusions"
    unfolding t by blast
  from a show "item_set (cfgArray ! nat i) \<in> {Set_nul, Set_grp, Set_sr, Run_gc} \<or> target i \<noteq> Cfg_version"
    unfolding target_def by blast
qed

lemma storing_targets_differ:
  assumes "0 \<le> i" "i < CMD_INDEX_START_GROUPS" "0 \<le> j" "j < CMD_INDEX_START_GROUPS" "i \<noteq> j"
    and "item_set (cfgArray ! nat i) \<notin> {Set_nul, Set_grp, Set_sr, Run_gc}"
    and "item_set (cfgArray ! nat j) \<notin> {Set_nul, Set_grp, Set_sr, Run_gc}"
  shows "target i \<noteq> target j"
proof -
  from assms have n: "nat i < length (take 181 cfgArray)" "nat j < length (take 181 cfgArray)"
    "nat i \<noteq> nat j"
    by (simp_all add: CMD_INDEX_START_GROUPS_eq cfgArray_length)
  then have e: "take 181 cfgArray ! nat i = cfgArray ! nat i"
    "take 181 cfgArray ! nat j = cfgArray ! nat j" by simp_all
  from distinct_map_filter_nth [OF cfg_init_table_all(2) n, unfolded e, OF assms(6,7)]
  show ?thesis by (simp add: target_def)
qed

lemma set_single_si:
  "mem8 (set_single K Set_si i p st) Cfg_status_report_interval
     = u8_of_double (of_int \<lceil>status_interval_clamp K (val (cmds st p))
                                / (settings K ''ESTD_SEGMENT_USEC'' / 1000)\<rceil>)"
  by (simp add: set_single_def set_si_def Let_def)

lemma upt_split_at: "n < m \<Longrightarrow> [0..<m] = [0..<n] @ n # [Suc n..<m]"
proof -
  assume a: "n < m"
  then have "[0..<m] = [0..<n] @ [n..<m]"
    using upt_add_eq_append [of 0 n "m - n"] by simp
  with a show ?thesis by (simp add: upt_conv_Cons)
qed

text \<open>What the default pass leaves at a visited index that is not excluded.\<close>

lemma cfg_init_defaults_at:
  fixes K :: platform and st :: state and d :: nat
  assumes r: "0 \<le> i" "i < CMD_INDEX_START_GROUPS"
    and ne: "\<not> sublist (cmd_get_token i) exclusions"
    and res: "cfg_init_defaults d K cfg_init_range st = Some st'"
  defines "s \<equiv> item_set (cfgArray ! nat i)"
  shows "nvm st' (nat i) = (if s = Set_si then status_interval_clamp K (def_value K i)
                            else def_value K i)"
    and "s \<in> {Set_ui8, Set_ic, Set_il, Set_ec, Set_ee, Set_ex, Set_mi, Set_po}
           \<Longrightarrow> mem8 st' (target i) = u8_of_double (def_value K i)"
    and "s = Set_si \<Longrightarrow> mem8 st' (target i)
           = u8_of_double (of_int \<lceil>status_interval_clamp K (def_value K i)
                                      / (settings K ''ESTD_SEGMENT_USEC'' / 1000)\<rceil>)"
    and "s = Set_int \<Longrightarrow> mem32 st' (target i) = u32_of_double (def_value K i)"
    and "s \<in> {Set_dbl, Set_sa} \<or> s = Set_dbu \<and> mem8 st Gm_units_mode \<noteq> INCHES_MODE
           \<Longrightarrow> memd st' (target i) = def_value K i"
proof -
  define pre where "pre = map int [0..<nat i]"
  define post where "post = map int [Suc (nat i)..<181]"
  from r have im: "i < CMD_INDEX_MAX"
    by (simp add: CMD_INDEX_START_GROUPS_eq CMD_INDEX_MAX_eq cfgArray_length)
  from r have "nat i < 181" by (simp add: CMD_INDEX_START_GROUPS_eq)
  from upt_split_at [OF this] r have split: "cfg_init_range = pre @ i # post"
    by (simp add: cfg_init_range_def CMD_INDEX_START_GROUPS_eq pre_def post_def)
  have pre_r: "\<And>j. j \<in> set pre \<Longrightarrow> 0 \<le> j \<and> j < CMD_INDEX_MAX"
    using im by (auto simp: pre_def)
  have post_r: "\<And>j. j \<in> set post \<Longrightarrow> 0 \<le> j \<and> j < CMD_INDEX_MAX"
    by (auto simp: post_def CMD_INDEX_MAX_eq cfgArray_length)
  have post_g: "\<And>j. j \<in> set post \<Longrightarrow> 0 \<le> j \<and> j < CMD_INDEX_START_GROUPS \<and> i \<noteq> j"
    by (auto simp: post_def CMD_INDEX_START_GROUPS_eq)
  from cfg_init_defaults_pass [OF pre_r, of pre d K st] obtain sA
    where sA: "cfg_init_defaults d K pre st = Some sA"
      and uA: "mem8 sA Gm_units_mode = mem8 st Gm_units_mode"
    by blast
  define s2 where "s2 = upd_cmd (LOC 0) (\<lambda>ob. ob\<lparr>index := i, val := def_value K i\<rparr>)
      (upd_cmd (LOC 0) (\<lambda>ob. ob\<lparr>token := cmd_get_token i\<rparr>) (cmd_new_object (LOC 0) sA))"
  define s3 where "s3 = set_single K s i (LOC 0) s2"
  define sB where "sB = s3\<lparr>nvm := (nvm s3)(nat i := val (cmds s3 (LOC 0))),
                   nvm_log := nvm_log s3 @ [(nat i, val (cmds s3 (LOC 0)))]\<rparr>"
  have step: "cfg_init_defaults d K (i # post) sA = cfg_init_defaults d K post sB"
    using cfg_init_defaults_step [OF r(1) im, of d K post sA] ne
    by (simp add: sB_def s3_def s2_def s_def)
  from res have post: "cfg_init_defaults d K post sB = Some st'"
    by (simp add: split cfg_init_defaults_append sA step del: cfg_init_defaults.simps)
  have v2: "val (cmds s2 (LOC 0)) = def_value K i" by (simp add: s2_def)
  have u2: "cm_get_units_mode s2 = mem8 st Gm_units_mode"
    by (simp add: s2_def cm_get_units_mode_def uA)
  have v3: "val (cmds s3 (LOC 0)) = (if s = Set_si then status_interval_clamp K (def_value K i)
                            else def_value K i)"
    by (simp add: s3_def set_single_val v2)
  from cfg_init_defaults_pass [OF post_r, of post d K sB] post
  have fn: "\<And>k. (\<forall>j \<in> set post. \<not> sublist (cmd_get_token j) exclusions \<longrightarrow> k \<noteq> nat j)
            \<Longrightarrow> nvm st' k = nvm sB k"
    and fm: "\<And>t. (\<forall>j \<in> set post. \<not> sublist (cmd_get_token j) exclusions
                  \<longrightarrow> item_set (cfgArray ! nat j) \<in> {Set_nul, Set_grp, Set_sr, Run_gc}
                       \<or> t \<noteq> target j)
            \<Longrightarrow> mem8 st' t = mem8 sB t
              \<and> ((\<forall>j \<in> set post. \<not> sublist (cmd_get_token j) exclusions
                     \<longrightarrow> item_set (cfgArray ! nat j) \<noteq> Set_sr) \<longrightarrow> mem32 st' t = mem32 sB t)
              \<and> ((\<forall>m. t \<noteq> Cfg_m m Steps_per_unit) \<longrightarrow> memd st' t = memd sB t)"
    by auto
  have "\<forall>j \<in> set post. \<not> sublist (cmd_get_token j) exclusions \<longrightarrow> nat i \<noteq> nat j"
    using post_g r(1) by (metis eq_nat_nat_iff)
  from fn [OF this] show "nvm st' (nat i) = (if s = Set_si
      then status_interval_clamp K (def_value K i) else def_value K i)"
    by (simp add: sB_def v3)
  have nsr: "\<forall>j \<in> set post. \<not> sublist (cmd_get_token j) exclusions
                     \<longrightarrow> item_set (cfgArray ! nat j) \<noteq> Set_sr"
    using cfg_init_table(2) post_g by blast
  have nsp: "\<forall>m. target i \<noteq> Cfg_m m Steps_per_unit"
    using bindings(7) [OF r(1) im] by blast
  have fr: "mem8 st' (target i) = mem8 s3 (target i) \<and> mem32 st' (target i) = mem32 s3 (target i)
      \<and> memd st' (target i) = memd s3 (target i)"
    if "s \<notin> {Set_nul, Set_grp, Set_sr, Run_gc}"
  proof -
    have "\<forall>j \<in> set post. \<not> sublist (cmd_get_token j) exclusions
                  \<longrightarrow> item_set (cfgArray ! nat j) \<in> {Set_nul, Set_grp, Set_sr, Run_gc}
                       \<or> target i \<noteq> target j"
    proof (intro ballI impI)
      fix j assume j: "j \<in> set post"
      from post_g [OF j] have jj: "0 \<le> j" "j < CMD_INDEX_START_GROUPS" "i \<noteq> j" by simp_all
      from storing_targets_differ [OF r jj] that
      show "item_set (cfgArray ! nat j) \<in> {Set_nul, Set_grp, Set_sr, Run_gc}
                       \<or> target i \<noteq> target j"
        unfolding s_def by blast
    qed
    from fm [OF this] nsr nsp show ?thesis by (simp add: sB_def)
  qed
  note st = set_single_stores [OF r(1) im s_def [THEN meta_eq_to_obj_eq],
      where K = K and p = "LOC 0" and st = s2, folded s3_def, unfolded v2 u2]
  show "mem8 st' (target i) = u8_of_double (def_value K i)"
    if a: "s \<in> {Set_ui8, Set_ic, Set_il, Set_ec, Set_ee, Set_ex, Set_mi, Set_po}"
  proof -
    from a have "s \<notin> {Set_nul, Set_grp, Set_sr, Run_gc}" by auto
    from fr [OF this] st(1) [OF a] show ?thesis by simp
  qed
  show "mem8 st' (target i)
           = u8_of_double (of_int \<lceil>status_interval_clamp K (def_value K i)
                                      / (settings K ''ESTD_SEGMENT_USEC'' / 1000)\<rceil>)"
    if a: "s = Set_si"
  proof -
    from a have "s \<notin> {Set_nul, Set_grp, Set_sr, Run_gc}" by auto
    from fr [OF this] have m: "mem8 st' (target i) = mem8 s3 (target i)" by simp
    from a bindings(6) [OF r(1) im] have t: "target i = Cfg_status_report_interval"
      by (simp add: s_def)
    from m have "mem8 st' (target i)
        = mem8 (set_single K Set_si i (LOC 0) s2) Cfg_status_report_interval"
      unfolding s3_def a t .
    then show ?thesis by (simp only: set_single_si v2)
  qed
  show "mem32 st' (target i) = u32_of_double (def_value K i)" if a: "s = Set_int"
  proof -
    from a have "s \<notin> {Set_nul, Set_grp, Set_sr, Run_gc}" by auto
    from fr [OF this] st(2) [OF a] show ?thesis by simp
  qed
  show "memd st' (target i) = def_value K i"
    if a: "s \<in> {Set_dbl, Set_sa} \<or> s = Set_dbu \<and> mem8 st Gm_units_mode \<noteq> INCHES_MODE"
  proof -
    from a have "s \<notin> {Set_nul, Set_grp, Set_sr, Run_gc}" by auto
    from fr [OF this] st(3) [OF a] show ?thesis by simp
  qed
qed

text \<open>The state \<^verbatim>\<open>cfg_init\<close> enters its loop with, and the branch taken when the
  first EEPROM record differs from the build number.\<close>

lemma cfg_init_mismatch:
  fixes K :: platform and st :: state and d :: nat
  assumes "nvm st 0 \<noteq> memd st Tg_build"
  shows "\<exists>s3 st'. cfg_init d K st = Some (rpt_init_status_report K True st')
      \<and> cfg_init_defaults d K cfg_init_range s3 = Some st'
      \<and> nvm s3 = nvm st \<and> nvm_log s3 = nvm_log st
      \<and> mem8 s3 Gm_units_mode = MILLIMETER_MODE
      \<and> memd s3 Cfg_version = memd st Tg_build"
proof -
  define s3 where "s3 = snd (cmd_read_NVM_value 0 (LOC 0)
      ((cm_set_units_mode MILLIMETER_MODE st)
         \<lparr>memd := (memd (cm_set_units_mode MILLIMETER_MODE st))
              (Cfg_version := memd (cm_set_units_mode MILLIMETER_MODE st) Tg_build)\<rparr>))"
  have f: "nvm s3 = nvm st" "nvm_log s3 = nvm_log st" "mem8 s3 Gm_units_mode = MILLIMETER_MODE"
    "memd s3 Cfg_version = memd st Tg_build" "val (cmds s3 (LOC 0)) = nvm st 0"
    by (simp_all add: s3_def cmd_read_NVM_value_def CMD_INDEX_MAX_eq cm_set_units_mode_def
        upd_cmd_def)
  have "\<And>i. i \<in> set cfg_init_range \<Longrightarrow> 0 \<le> i \<and> i < CMD_INDEX_MAX"
    by (auto simp: cfg_init_range_def CMD_INDEX_START_GROUPS_eq CMD_INDEX_MAX_eq)
  from cfg_init_defaults_pass [OF this, of cfg_init_range d K s3] obtain st'
    where r: "cfg_init_defaults d K cfg_init_range s3 = Some st'" by blast
  have "cfg_init d K st = map_option (rpt_init_status_report K True)
      (cfg_init_defaults d K cfg_init_range s3)"
    using assms f(4,5) by (simp add: cfg_init_def Let_def s3_def [symmetric])
  with r f show ?thesis by auto
qed

text \<open>The EEPROM writes of the default branch, in the order they are made.\<close>

lemma cfg_init_mismatch_log:
  fixes K :: platform and st :: state and d :: nat
  assumes "nvm st 0 \<noteq> memd st Tg_build"
  shows "\<exists>st'. cfg_init d K st = Some (rpt_init_status_report K True st')
      \<and> nvm_log st' = nvm_log st
          @ map (\<lambda>i. (nat i, if item_set (cfgArray ! nat i) = Set_si
                              then status_interval_clamp K (def_value K i) else def_value K i))
              (filter (\<lambda>i. \<not> sublist (cmd_get_token i) exclusions) cfg_init_range)"
proof -
  from cfg_init_mismatch [OF assms, of d K] obtain s3 st'
    where c: "cfg_init d K st = Some (rpt_init_status_report K True st')"
      and r: "cfg_init_defaults d K cfg_init_range s3 = Some st'"
      and l: "nvm_log s3 = nvm_log st"
    by blast
  have rng: "\<And>i. i \<in> set cfg_init_range \<Longrightarrow> 0 \<le> i \<and> i < CMD_INDEX_MAX"
    by (auto simp: cfg_init_range_def CMD_INDEX_START_GROUPS_eq CMD_INDEX_MAX_eq)
  from cfg_init_defaults_pass [OF rng, of cfg_init_range d K s3] r l c show ?thesis by auto
qed

lemma cfg_init_range_head:
  "filter (\<lambda>i. \<not> sublist (cmd_get_token i) exclusions) cfg_init_range
     = 0 # 1 # filter (\<lambda>i. \<not> sublist (cmd_get_token i) exclusions) (tl (tl cfg_init_range))"
  "\<forall>i \<in> set (tl (tl cfg_init_range)). 1 < i"
proof -
  have r: "cfg_init_range = 0 # 1 # map int [2..<181]"
    by (simp add: cfg_init_range_def CMD_INDEX_START_GROUPS_eq upt_conv_Cons)
  then have r2: "cfg_init_range = 0 # 1 # tl (tl cfg_init_range)"
    by (metis list.sel(3))
  have z: "(0::int) \<le> 0" "(0::int) < CMD_INDEX_START_GROUPS" "(0::int) \<le> 1"
    "(1::int) < CMD_INDEX_START_GROUPS"
    by (simp_all add: CMD_INDEX_START_GROUPS_eq)
  have t: "cmd_get_token 0 = ''fc''" "cmd_get_token 1 = ''fv''"
    using cfg_init_table_all(4) by simp_all
  have np: "\<not> sublist (cmd_get_token 0) exclusions" "\<not> sublist (cmd_get_token 1) exclusions"
    using cfg_init_table(1) [OF z(1,2)] cfg_init_table(1) [OF z(3,4)] t by simp_all
  show "filter (\<lambda>i. \<not> sublist (cmd_get_token i) exclusions) cfg_init_range
     = 0 # 1 # filter (\<lambda>i. \<not> sublist (cmd_get_token i) exclusions) (tl (tl cfg_init_range))"
    by (subst r2) (simp add: np)
  from r have "tl (tl cfg_init_range) = map int [2..<181]" by (metis list.sel(3))
  then show "\<forall>i \<in> set (tl (tl cfg_init_range)). 1 < i"
    by (auto simp del: upt_rec_numeral)
qed

text \<open>No descriptor bound to \<^verbatim>\<open>_set_nul\<close> shares its target with a storing descriptor.\<close>

lemma nul_targets_all:
  "list_all (\<lambda>e. item_set e = Set_nul \<longrightarrow>
       item_target e \<notin> set (map item_target
          (filter (\<lambda>e. item_set e \<notin> {Set_nul, Set_grp, Set_sr, Run_gc}) (take 181 cfgArray))))
     (take 181 cfgArray)"
  by code_simp

lemma nul_target_differs:
  assumes "0 \<le> i" "i < CMD_INDEX_START_GROUPS" "0 \<le> j" "j < CMD_INDEX_START_GROUPS"
    and "item_set (cfgArray ! nat i) = Set_nul"
    and "item_set (cfgArray ! nat j) \<notin> {Set_nul, Set_grp, Set_sr, Run_gc}"
  shows "target i \<noteq> target j"
proof -
  let ?S = "filter (\<lambda>e. item_set e \<notin> {Set_nul, Set_grp, Set_sr, Run_gc}) (take 181 cfgArray)"
  from assms have n: "nat i < length (take 181 cfgArray)" "nat j < length (take 181 cfgArray)"
    by (simp_all add: CMD_INDEX_START_GROUPS_eq cfgArray_length)
  then have e: "take 181 cfgArray ! nat i = cfgArray ! nat i"
    "take 181 cfgArray ! nat j = cfgArray ! nat j" by simp_all
  from nul_targets_all [unfolded list_all_length, rule_format, OF n(1), unfolded e, OF assms(5)]
  have a: "target i \<notin> set (map item_target ?S)" by (simp add: target_def)
  from n(2) have "take 181 cfgArray ! nat j \<in> set (take 181 cfgArray)" by (rule nth_mem)
  with assms(6) have "cfgArray ! nat j \<in> set ?S" unfolding e by simp
  then have "target j \<in> set (map item_target ?S)" unfolding target_def by (simp only: set_map imageI)
  with a show ?thesis by metis
qed

text \<open>The stores of the state \<^verbatim>\<open>cfg_init\<close> enters its loop with.\<close>

lemma cfg_init_mismatch_stores:
  fixes K :: platform and st :: state and d :: nat
  assumes "nvm st 0 \<noteq> memd st Tg_build"
  shows "\<exists>s3 st'. cfg_init d K st = Some (rpt_init_status_report K True st')
      \<and> cfg_init_defaults d K cfg_init_range s3 = Some st'
      \<and> mem8 s3 = (mem8 st)(Gm_units_mode := MILLIMETER_MODE)
      \<and> mem32 s3 = mem32 st
      \<and> memd s3 = (memd st)(Cfg_version := memd st Tg_build)"
proof -
  define s3 where "s3 = snd (cmd_read_NVM_value 0 (LOC 0)
      ((cm_set_units_mode MILLIMETER_MODE st)
         \<lparr>memd := (memd (cm_set_units_mode MILLIMETER_MODE st))
              (Cfg_version := memd (cm_set_units_mode MILLIMETER_MODE st) Tg_build)\<rparr>))"
  have f: "mem8 s3 = (mem8 st)(Gm_units_mode := MILLIMETER_MODE)" "mem32 s3 = mem32 st"
    "memd s3 = (memd st)(Cfg_version := memd st Tg_build)"
    "memd s3 Cfg_version = memd st Tg_build" "val (cmds s3 (LOC 0)) = nvm st 0"
    by (simp_all add: s3_def cmd_read_NVM_value_def CMD_INDEX_MAX_eq cm_set_units_mode_def
        upd_cmd_def)
  have "\<And>i. i \<in> set cfg_init_range \<Longrightarrow> 0 \<le> i \<and> i < CMD_INDEX_MAX"
    by (auto simp: cfg_init_range_def CMD_INDEX_START_GROUPS_eq CMD_INDEX_MAX_eq)
  from cfg_init_defaults_pass [OF this, of cfg_init_range d K s3] obtain st'
    where r: "cfg_init_defaults d K cfg_init_range s3 = Some st'" by blast
  have "cfg_init d K st = map_option (rpt_init_status_report K True)
      (cfg_init_defaults d K cfg_init_range s3)"
    using assms f(4,5) by (simp add: cfg_init_def Let_def s3_def [symmetric])
  with r have "cfg_init d K st = Some (rpt_init_status_report K True st')" by simp
  with r f(1-3) show ?thesis by (intro exI [of _ s3] exI [of _ st'] conjI)
qed


section \<open>Initialisation from the defaults\<close>

text \<open>
  Claim C1, as the code has it. If the first EEPROM record differs from the build number,
  \<^verbatim>\<open>cfg_init\<close> takes the default branch and returns; in the state it hands to
  \<^verbatim>\<open>rpt_init_status_report\<close> (report.c, not under src/), for every index below
  \<^verbatim>\<open>CMD_INDEX_START_GROUPS\<close> whose token is neither \<open>sr\<close> nor \<open>gc\<close>:
  the EEPROM record of the index holds the default (for the status interval, the default
  clamped by \<^verbatim>\<open>_set_si\<close>); a descriptor whose set binding stores a byte holds the default
  cut to 8 bits, \<^verbatim>\<open>_set_int\<close> the default cut to 32 bits, \<^verbatim>\<open>_set_dbl\<close>,
  \<^verbatim>\<open>_set_dbu\<close> and \<^verbatim>\<open>_set_sa\<close> the default itself, and the status interval the
  clamped default as a count of segment times. The descriptors bound to \<^verbatim>\<open>_set_nul\<close> are
  not written and keep what their target held, but for the two targets \<^verbatim>\<open>cfg_init\<close>
  sets itself: the units mode is millimeters and \<^verbatim>\<open>cfg.version\<close> is the build number.
  EEPROM record 0 holds the default of descriptor 0, the macro
  \<^verbatim>\<open>TINYG_CONFIG_VERSION\<close>.
\<close>

theorem cfg_init_applies_defaults:
  fixes K :: platform and st :: state and d :: nat
  assumes "nvm st 0 \<noteq> memd st Tg_build"
  shows "\<exists>st'. cfg_init d K st = Some (rpt_init_status_report K True st')
     \<and> nvm st' 0 = settings K ''TINYG_CONFIG_VERSION''
     \<and> memd st' Cfg_version = memd st Tg_build
     \<and> mem8 st' Gm_units_mode = MILLIMETER_MODE
     \<and> (\<forall>i. 0 \<le> i \<and> i < CMD_INDEX_START_GROUPS
              \<and> cmd_get_token i \<noteq> ''sr'' \<and> cmd_get_token i \<noteq> ''gc'' \<longrightarrow>
          nvm st' (nat i) = (if item_set (cfgArray ! nat i) = Set_si
                             then status_interval_clamp K (def_value K i) else def_value K i)
          \<and> (item_set (cfgArray ! nat i)
                \<in> {Set_ui8, Set_ic, Set_il, Set_ec, Set_ee, Set_ex, Set_mi, Set_po}
              \<longrightarrow> mem8 st' (target i) = u8_of_double (def_value K i))
          \<and> (item_set (cfgArray ! nat i) = Set_si
              \<longrightarrow> mem8 st' (target i)
                    = u8_of_double (of_int \<lceil>status_interval_clamp K (def_value K i)
                                               / (settings K ''ESTD_SEGMENT_USEC'' / 1000)\<rceil>))
          \<and> (item_set (cfgArray ! nat i) = Set_int
              \<longrightarrow> mem32 st' (target i) = u32_of_double (def_value K i))
          \<and> (item_set (cfgArray ! nat i) \<in> {Set_dbl, Set_dbu, Set_sa}
              \<longrightarrow> memd st' (target i) = def_value K i)
          \<and> (item_set (cfgArray ! nat i) = Set_nul
              \<longrightarrow> mem8 st' (target i) = (if target i = Gm_units_mode then MILLIMETER_MODE
                                          else mem8 st (target i))
                \<and> mem32 st' (target i) = mem32 st (target i)
                \<and> memd st' (target i) = (if target i = Cfg_version then memd st Tg_build
                                          else memd st (target i))))"
proof -
  from cfg_init_mismatch_stores [OF assms, of d K] obtain s3 st'
    where c: "cfg_init d K st = Some (rpt_init_status_report K True st')"
      and r: "cfg_init_defaults d K cfg_init_range s3 = Some st'"
      and m8: "mem8 s3 = (mem8 st)(Gm_units_mode := MILLIMETER_MODE)"
      and m32: "mem32 s3 = mem32 st"
      and md: "memd s3 = (memd st)(Cfg_version := memd st Tg_build)"
    by blast
  from m8 have u: "mem8 s3 Gm_units_mode = MILLIMETER_MODE" by simp
  from md have v: "memd s3 Cfg_version = memd st Tg_build" by simp
  have rng: "\<And>i. i \<in> set cfg_init_range \<Longrightarrow> 0 \<le> i \<and> i < CMD_INDEX_MAX"
    by (auto simp: cfg_init_range_def CMD_INDEX_START_GROUPS_eq CMD_INDEX_MAX_eq)
  have grp: "\<And>i. i \<in> set cfg_init_range \<Longrightarrow> 0 \<le> i \<and> i < CMD_INDEX_START_GROUPS"
    by (auto simp: cfg_init_range_def)
  from cfg_init_defaults_pass [OF rng, of cfg_init_range d K s3] r
  have um: "mem8 st' Gm_units_mode = mem8 s3 Gm_units_mode"
    and fm: "\<And>t. (\<forall>j \<in> set cfg_init_range. \<not> sublist (cmd_get_token j) exclusions
                  \<longrightarrow> item_set (cfgArray ! nat j) \<in> {Set_nul, Set_grp, Set_sr, Run_gc}
                       \<or> t \<noteq> target j)
            \<Longrightarrow> (\<forall>m. t \<noteq> Cfg_m m Steps_per_unit) \<longrightarrow> memd st' t = memd s3 t"
    and f8: "\<And>t. (\<forall>j \<in> set cfg_init_range. \<not> sublist (cmd_get_token j) exclusions
                  \<longrightarrow> item_set (cfgArray ! nat j) \<in> {Set_nul, Set_grp, Set_sr, Run_gc}
                       \<or> t \<noteq> target j)
            \<Longrightarrow> mem8 st' t = mem8 s3 t"
    and f32: "\<And>t. (\<forall>j \<in> set cfg_init_range. \<not> sublist (cmd_get_token j) exclusions
                  \<longrightarrow> item_set (cfgArray ! nat j) \<in> {Set_nul, Set_grp, Set_sr, Run_gc}
                       \<or> t \<noteq> target j)
            \<Longrightarrow> (\<forall>j \<in> set cfg_init_range. \<not> sublist (cmd_get_token j) exclusions
                     \<longrightarrow> item_set (cfgArray ! nat j) \<noteq> Set_sr) \<longrightarrow> mem32 st' t = mem32 s3 t"
    by auto
  have nsr: "\<forall>j \<in> set cfg_init_range. \<not> sublist (cmd_get_token j) exclusions
                     \<longrightarrow> item_set (cfgArray ! nat j) \<noteq> Set_sr"
    using cfg_init_table(2) grp by blast
  have "\<forall>j \<in> set cfg_init_range. \<not> sublist (cmd_get_token j) exclusions
                  \<longrightarrow> item_set (cfgArray ! nat j) \<in> {Set_nul, Set_grp, Set_sr, Run_gc}
                       \<or> Cfg_version \<noteq> target j"
    using cfg_init_table(3) grp by (metis (no_types, lifting))
  from fm [OF this] have ver: "memd st' Cfg_version = memd st Tg_build" by (simp add: v)
  have z: "(0::int) \<le> 0" "(0::int) < CMD_INDEX_START_GROUPS"
    by (simp_all add: CMD_INDEX_START_GROUPS_eq)
  have fc: "cmd_get_token 0 = ''fc''" using cfg_init_table_all(4) by simp
  have "\<not> sublist (cmd_get_token 0) exclusions"
    using cfg_init_table(1) [OF z] fc by simp
  moreover have "item_set (cfgArray ! 0) = Set_nul" by code_simp
  ultimately have slot0: "nvm st' 0 = settings K ''TINYG_CONFIG_VERSION''"
    using cfg_init_defaults_at(1) [OF z _ r] cfg_init_table_all(3)
    by (simp add: def_value_def)
  have each: "nvm st' (nat i) = (if item_set (cfgArray ! nat i) = Set_si
                             then status_interval_clamp K (def_value K i) else def_value K i)
          \<and> (item_set (cfgArray ! nat i)
                \<in> {Set_ui8, Set_ic, Set_il, Set_ec, Set_ee, Set_ex, Set_mi, Set_po}
              \<longrightarrow> mem8 st' (target i) = u8_of_double (def_value K i))
          \<and> (item_set (cfgArray ! nat i) = Set_si
              \<longrightarrow> mem8 st' (target i)
                    = u8_of_double (of_int \<lceil>status_interval_clamp K (def_value K i)
                                               / (settings K ''ESTD_SEGMENT_USEC'' / 1000)\<rceil>))
          \<and> (item_set (cfgArray ! nat i) = Set_int
              \<longrightarrow> mem32 st' (target i) = u32_of_double (def_value K i))
          \<and> (item_set (cfgArray ! nat i) \<in> {Set_dbl, Set_dbu, Set_sa}
              \<longrightarrow> memd st' (target i) = def_value K i)
          \<and> (item_set (cfgArray ! nat i) = Set_nul
              \<longrightarrow> mem8 st' (target i) = (if target i = Gm_units_mode then MILLIMETER_MODE
                                          else mem8 st (target i))
                \<and> mem32 st' (target i) = mem32 st (target i)
                \<and> memd st' (target i) = (if target i = Cfg_version then memd st Tg_build
                                          else memd st (target i)))"
    if i: "0 \<le> i" "i < CMD_INDEX_START_GROUPS"
      and t: "cmd_get_token i \<noteq> ''sr''" "cmd_get_token i \<noteq> ''gc''" for i
  proof -
    from t have ne: "\<not> sublist (cmd_get_token i) exclusions"
      using cfg_init_table(1) [OF i] by simp
    note a = cfg_init_defaults_at [OF i ne r]
    have dd: "item_set (cfgArray ! nat i) \<in> {Set_dbl, Set_dbu, Set_sa}
        \<Longrightarrow> memd st' (target i) = def_value K i"
      using a(5) u by auto
    have nul: "mem8 st' (target i) = (if target i = Gm_units_mode then MILLIMETER_MODE
                                          else mem8 st (target i))
                \<and> mem32 st' (target i) = mem32 st (target i)
                \<and> memd st' (target i) = (if target i = Cfg_version then memd st Tg_build
                                          else memd st (target i))"
      if sn: "item_set (cfgArray ! nat i) = Set_nul"
    proof -
      have o: "\<forall>j \<in> set cfg_init_range. \<not> sublist (cmd_get_token j) exclusions
                  \<longrightarrow> item_set (cfgArray ! nat j) \<in> {Set_nul, Set_grp, Set_sr, Run_gc}
                       \<or> target i \<noteq> target j"
      proof (intro ballI impI)
        fix j assume "j \<in> set cfg_init_range"
        from grp [OF this] have jj: "0 \<le> j" "j < CMD_INDEX_START_GROUPS" by simp_all
        from nul_target_differs [OF i jj sn]
        show "item_set (cfgArray ! nat j) \<in> {Set_nul, Set_grp, Set_sr, Run_gc}
                       \<or> target i \<noteq> target j"
          by blast
      qed
      from i have im: "i < CMD_INDEX_MAX"
        by (simp add: CMD_INDEX_START_GROUPS_eq CMD_INDEX_MAX_eq)
      have sp: "\<forall>m. target i \<noteq> Cfg_m m Steps_per_unit"
        using bindings(7) [OF i(1) im] by blast
      from f8 [OF o] have "mem8 st' (target i) = mem8 s3 (target i)" .
      moreover from f32 [OF o] nsr have "mem32 st' (target i) = mem32 s3 (target i)" by blast
      moreover from fm [OF o] sp have "memd st' (target i) = memd s3 (target i)" by blast
      ultimately show ?thesis by (simp add: m8 m32 md)
    qed
    from a(1-4) dd nul show ?thesis by blast
  qed
  from c slot0 ver um u each show ?thesis by (intro exI [of _ st']) simp
qed

text \<open>The claim as worded fails at the descriptor \<open>unit\<close> (index 6): its default is 0, and
  after \<^verbatim>\<open>cfg_init\<close> its storage \<^verbatim>\<open>gm.units_mode\<close> holds 1, which
  \<^verbatim>\<open>cmd_get\<close> reports.\<close>

theorem cfg_init_unit_counterexample:
  "nvm st0 0 \<noteq> memd st0 Tg_build
   \<and> 6 < CMD_INDEX_START_GROUPS \<and> cmd_get_token 6 = ''unit''
   \<and> item_set (cfgArray ! 6) = Set_nul \<and> item_get (cfgArray ! 6) = Get_unit
   \<and> target 6 = Gm_units_mode \<and> def_value K0 6 = 0
   \<and> map_option (\<lambda>s. (mem8 s (target 6), nvm s 6, val (cmds (snd (cmd_get K0 6 (CA 0) s)) (CA 0))))
        (cfg_init 0 K0 st0) = Some (1, 0, 1)"
proof -
  have m: "nvm st0 0 \<noteq> memd st0 Tg_build" by (simp add: st0_def)
  have t: "cmd_get_token 6 = ''unit''" "item_set (cfgArray ! 6) = Set_nul"
    "item_get (cfgArray ! 6) = Get_unit" "target 6 = Gm_units_mode" "def_value K0 6 = 0"
    by code_simp+
  have i: "(0::int) \<le> 6" "(6::int) < CMD_INDEX_START_GROUPS" "(6::int) < CMD_INDEX_MAX"
    by (simp_all add: CMD_INDEX_START_GROUPS_eq CMD_INDEX_MAX_eq)
  from cfg_init_mismatch [OF m, of 0 K0] obtain s3 st'
    where c: "cfg_init 0 K0 st0 = Some st'"
      and r: "cfg_init_defaults 0 K0 cfg_init_range s3 = Some st'"
      and u: "mem8 s3 Gm_units_mode = MILLIMETER_MODE"
    by (auto simp: K0_def)
  have rng: "\<And>i. i \<in> set cfg_init_range \<Longrightarrow> 0 \<le> i \<and> i < CMD_INDEX_MAX"
    by (auto simp: cfg_init_range_def CMD_INDEX_START_GROUPS_eq CMD_INDEX_MAX_eq)
  from cfg_init_defaults_pass [OF rng, of cfg_init_range 0 K0 s3] r u
  have um: "mem8 st' Gm_units_mode = 1" by auto
  have "\<not> sublist (cmd_get_token 6) exclusions"
    using cfg_init_table(1) [OF i(1,2)] t(1) by simp
  from cfg_init_defaults_at(1) [OF i(1,2) this r] t have nv: "nvm st' 6 = 0" by simp
  have g: "val (cmds (snd (cmd_get K0 6 (CA 0) st')) (CA 0)) = 1"
    using cmd_get_single [of 6 K0 "CA 0" st'] i t um
    by (simp add: is_group_get_def get_single_def get_unit_def get_msg_def get_ui8_def
        double_of_u8_def)
  from m i t c um nv g show ?thesis by simp
qed

text \<open>With the build and configuration versions 331.02 and every other macro 1: record 0
  holds 331.02, the X feed rate (descriptor 50, \<^verbatim>\<open>_set_dbu\<close>) holds its default 1 in
  \<^verbatim>\<open>cfg.a[X].feedrate_max\<close> and in record 50, and the status interval (descriptor 8)
  is clamped to 200 ms, 40 segment times.\<close>

theorem cfg_init_applies_defaults_witness:
  "nvm st0 0 \<noteq> memd st0 Tg_build
   \<and> map_option (\<lambda>s. (nvm s 0, memd s Cfg_version, nvm s 50, memd s (target 50), nvm s 8,
                       mem8 s (target 8)))
        (cfg_init 0 K0 st0) = Some (331.02, 331.02, 1, 1, 200, 40)"
proof -
  have m: "nvm st0 0 \<noteq> memd st0 Tg_build" by (simp add: st0_def)
  have t: "cmd_get_token 50 = ''xfr''" "cmd_get_token 8 = ''si''"
    "def_value K0 50 = 1" "def_value K0 8 = 200"
    "item_set (cfgArray ! 8) = Set_si" by code_simp+
  have i: "(0::int) \<le> 50 \<and> (50::int) < CMD_INDEX_START_GROUPS
       \<and> cmd_get_token 50 \<noteq> ''sr'' \<and> cmd_get_token 50 \<noteq> ''gc''"
    "(0::int) \<le> 8 \<and> (8::int) < CMD_INDEX_START_GROUPS
       \<and> cmd_get_token 8 \<noteq> ''sr'' \<and> cmd_get_token 8 \<noteq> ''gc''"
    by (simp_all add: CMD_INDEX_START_GROUPS_eq t)
  from cfg_init_applies_defaults [OF m, of 0 K0] obtain st'
    where c: "cfg_init 0 K0 st0 = Some st'"
      and a: "nvm st' 0 = settings K0 ''TINYG_CONFIG_VERSION''"
        "memd st' Cfg_version = memd st0 Tg_build"
      and e: "\<And>i. 0 \<le> i \<and> i < CMD_INDEX_START_GROUPS
              \<and> cmd_get_token i \<noteq> ''sr'' \<and> cmd_get_token i \<noteq> ''gc'' \<Longrightarrow>
          nvm st' (nat i) = (if item_set (cfgArray ! nat i) = Set_si
                             then status_interval_clamp K0 (def_value K0 i) else def_value K0 i)
          \<and> (item_set (cfgArray ! nat i) = Set_si
              \<longrightarrow> mem8 st' (target i)
                    = u8_of_double (of_int \<lceil>status_interval_clamp K0 (def_value K0 i)
                                               / (settings K0 ''ESTD_SEGMENT_USEC'' / 1000)\<rceil>))
          \<and> (item_set (cfgArray ! nat i) \<in> {Set_dbl, Set_dbu, Set_sa}
              \<longrightarrow> memd st' (target i) = def_value K0 i)"
    by (auto simp: K0_def)
  have k: "settings K0 ''TINYG_CONFIG_VERSION'' = 331.02" "settings K0 ''ESTD_SEGMENT_USEC'' = 5000"
    "status_interval_clamp K0 200 = 200"
    by (simp_all add: K0_def status_interval_clamp_def)
  have u: "u8_of_double (of_int \<lceil>200 / (5000 / 1000 :: real)\<rceil>) = 40"
    by (simp add: u8_of_double_def c_trunc_def)
  from e [OF i(1)] table_50 t have x: "nvm st' 50 = 1" "memd st' (target 50) = 1" by simp_all
  from e [OF i(2)] t k u have s: "nvm st' 8 = 200" "mem8 st' (target 8) = 40" by simp_all
  from a k have v: "nvm st' 0 = 331.02" "memd st' Cfg_version = 331.02" by (simp_all add: st0_def)
  from m c x s v show ?thesis by simp
qed

text \<open>
  Claim C2, as the code has it. In the default branch of \<^verbatim>\<open>cfg_init\<close> the EEPROM is
  written once for each index below \<^verbatim>\<open>CMD_INDEX_START_GROUPS\<close> whose token is neither
  \<open>sr\<close> nor \<open>gc\<close>, in ascending index order: record 0, the version record, is written
  first, with the default of descriptor 0, and every other record after it. The writes
  \<^verbatim>\<open>rpt_init_status_report\<close> (report.c, not under src/) makes follow the loop.
\<close>

theorem cfg_init_writes_in_index_order:
  fixes K :: platform and st :: state and d :: nat
  assumes "nvm st 0 \<noteq> memd st Tg_build"
  shows "\<exists>st' ws. cfg_init d K st = Some (rpt_init_status_report K True st')
     \<and> nvm_log st' = nvm_log st @ ws
     \<and> map fst ws = map nat (filter (\<lambda>i. cmd_get_token i \<noteq> ''sr'' \<and> cmd_get_token i \<noteq> ''gc'')
                                cfg_init_range)
     \<and> sorted_wrt (<) (map fst ws)
     \<and> hd ws = (0, settings K ''TINYG_CONFIG_VERSION'')
     \<and> filter (\<lambda>w. fst w = 0) (tl ws) = []"
proof -
  let ?P = "\<lambda>i. \<not> sublist (cmd_get_token i) exclusions"
  let ?W = "\<lambda>i. (nat i, if item_set (cfgArray ! nat i) = Set_si
                          then status_interval_clamp K (def_value K i) else def_value K i)"
  define ws where "ws = map ?W (filter ?P cfg_init_range)"
  from cfg_init_mismatch_log [OF assms, of d K] obtain st'
    where c: "cfg_init d K st = Some (rpt_init_status_report K True st')"
      and l: "nvm_log st' = nvm_log st @ ws"
    unfolding ws_def by blast
  have grp: "\<And>i. i \<in> set cfg_init_range \<Longrightarrow> 0 \<le> i \<and> i < CMD_INDEX_START_GROUPS"
    by (auto simp: cfg_init_range_def)
  have "filter ?P cfg_init_range
      = filter (\<lambda>i. cmd_get_token i \<noteq> ''sr'' \<and> cmd_get_token i \<noteq> ''gc'') cfg_init_range"
    by (rule filter_cong [OF refl]) (use cfg_init_table(1) grp in blast)
  then have f: "map fst ws
      = map nat (filter (\<lambda>i. cmd_get_token i \<noteq> ''sr'' \<and> cmd_get_token i \<noteq> ''gc'')
                   cfg_init_range)"
    by (simp add: ws_def comp_def)
  have "sorted_wrt (<) cfg_init_range"
    by (simp add: cfg_init_range_def sorted_wrt_map)
  then have "sorted_wrt (<) (filter ?P cfg_init_range)" by (rule sorted_wrt_filter)
  moreover have "\<And>i j. i \<in> set (filter ?P cfg_init_range) \<Longrightarrow> j \<in> set (filter ?P cfg_init_range)
      \<Longrightarrow> i < j \<Longrightarrow> nat i < nat j"
    using grp by fastforce
  ultimately have "sorted_wrt (\<lambda>i j. nat i < nat j) (filter ?P cfg_init_range)"
    by (rule sorted_wrt_mono_rel [rotated])
  then have s: "sorted_wrt (<) (map fst ws)"
    by (simp add: ws_def comp_def sorted_wrt_map)
  have "item_set (cfgArray ! 0) = Set_nul" by code_simp
  then have w0: "?W 0 = (0, settings K ''TINYG_CONFIG_VERSION'')"
    using cfg_init_table_all(3) by (simp add: def_value_def)
  have h: "ws = (0, settings K ''TINYG_CONFIG_VERSION'') # tl ws"
    unfolding ws_def cfg_init_range_head(1) using w0 by simp
  from s have "\<forall>x \<in> set (map fst (tl ws)). 0 < x"
    by (subst (asm) h) simp
  then have t: "filter (\<lambda>w. fst w = 0) (tl ws) = []"
    by (auto simp: filter_empty_conv)
  from h have "hd ws = (0, settings K ''TINYG_CONFIG_VERSION'')" by (metis list.sel(1))
  with c l f s t show ?thesis by blast
qed

text \<open>The claim as worded fails on the test platform: the first EEPROM write of
  \<^verbatim>\<open>cfg_init\<close> is the version record 0, the write of record 1 follows it, and record 0
  is not written again.\<close>

theorem cfg_init_version_record_first_counterexample:
  "nvm st0 0 \<noteq> memd st0 Tg_build
   \<and> cmd_get_token 1 = ''fv'' \<and> 1 < CMD_INDEX_START_GROUPS
   \<and> map_option (\<lambda>s. (take 2 (nvm_log s), filter (\<lambda>w. fst w = 0) (drop 1 (nvm_log s))))
        (cfg_init 0 K0 st0) = Some ([(0, 331.02), (1, 1)], [])"
proof -
  let ?P = "\<lambda>i. \<not> sublist (cmd_get_token i) exclusions"
  let ?W = "\<lambda>i. (nat i, if item_set (cfgArray ! nat i) = Set_si
                          then status_interval_clamp K0 (def_value K0 i) else def_value K0 i)"
  have m: "nvm st0 0 \<noteq> memd st0 Tg_build" by (simp add: st0_def)
  have t: "cmd_get_token 1 = ''fv''" "(1::int) < CMD_INDEX_START_GROUPS"
    using cfg_init_table_all(4) by (simp_all add: CMD_INDEX_START_GROUPS_eq)
  from cfg_init_mismatch_log [OF m, of 0 K0] obtain st'
    where c: "cfg_init 0 K0 st0 = Some st'"
      and l: "nvm_log st' = map ?W (filter ?P cfg_init_range)"
    by (auto simp: K0_def st0_def)
  have w: "?W 0 = (0, 331.02)" "?W 1 = (1, 1)" by code_simp+
  have l': "nvm_log st' = (0, 331.02) # (1, 1) # map ?W (filter ?P (tl (tl cfg_init_range)))"
    unfolding l cfg_init_range_head(1) using w by simp
  have "\<forall>x \<in> set (map ?W (filter ?P (tl (tl cfg_init_range)))). fst x \<noteq> 0"
    using cfg_init_range_head(2) by auto
  then have "filter (\<lambda>w. fst w = 0) (map ?W (filter ?P (tl (tl cfg_init_range)))) = []"
    unfolding filter_empty_conv by blast
  with m t c l' show ?thesis by simp
qed

text \<open>On the test platform the writes start with the records 0, 1 and 2.\<close>

theorem cfg_init_writes_in_index_order_witness:
  "nvm st0 0 \<noteq> memd st0 Tg_build
   \<and> map_option (\<lambda>s. (hd (nvm_log s), sorted_wrt (<) (map fst (nvm_log s)),
                       filter (\<lambda>w. fst w = 0) (tl (nvm_log s))))
        (cfg_init 0 K0 st0) = Some ((0, 331.02), True, [])"
proof -
  have m: "nvm st0 0 \<noteq> memd st0 Tg_build" by (simp add: st0_def)
  from cfg_init_writes_in_index_order [OF m, of 0 K0] obtain st' ws
    where c: "cfg_init 0 K0 st0 = Some st'"
      and l: "nvm_log st' = ws"
      and s: "sorted_wrt (<) (map fst ws)"
      and h: "hd ws = (0, settings K0 ''TINYG_CONFIG_VERSION'')"
      and f: "filter (\<lambda>w. fst w = 0) (tl ws) = []"
    by (auto simp: K0_def st0_def)
  have "settings K0 ''TINYG_CONFIG_VERSION'' = 331.02" by (simp add: K0_def)
  with m c l s h f show ?thesis by simp
qed

section \<open>Name and token resolution\<close>

text \<open>
  Claim C3, as amended. \<^verbatim>\<open>cmd_get_index\<close> tests \<^verbatim>\<open>strstr(str, token) == str\<close>: the
  stored token or the stored friendly name has to be a prefix of the input, not the input a
  prefix of the stored string. For every input \<open>s\<close> the resolver returns the least
  descriptor index whose token or friendly name is a prefix of \<open>s\<close>, and it returns
  \<open>-1\<close> exactly when no descriptor has such a token or name.
\<close>

theorem cmd_get_index_least_stored_prefix:
  "(cmd_get_index s = - 1 \<longleftrightarrow>
      (\<forall>i < nat CMD_INDEX_MAX.
         \<not> (prefix (cmd_get_token (int i)) s \<or> prefix (cmd_get_name (int i)) s)))
   \<and> (cmd_get_index s = int k \<longleftrightarrow>
        k < nat CMD_INDEX_MAX
        \<and> (prefix (cmd_get_token (int k)) s \<or> prefix (cmd_get_name (int k)) s)
        \<and> (\<forall>j < k. \<not> (prefix (cmd_get_token (int j)) s \<or> prefix (cmd_get_name (int j)) s)))"
  unfolding cmd_get_index_def first_index_none first_index_some
  by (auto simp: CMD_INDEX_MAX_eq name_matches_iff)

text \<open>
  Claim C3 as stated fails: \<open>f\<close> is a prefix of the stored token \<open>fc\<close> of descriptor 0,
  and the resolver does not recognise it.
\<close>

theorem cmd_get_index_input_prefix_counterexample:
  "cmd_get_index ''f'' = - 1 \<and> prefix ''f'' (cmd_get_token 0)"
  by code_simp

text \<open>The friendly name \<open>x_f\<close> of descriptor 50 resolves the input
  \<open>x_feedrate_maximum\<close>.\<close>

theorem cmd_get_index_least_stored_prefix_witness:
  "cmd_get_index ''x_feedrate_maximum'' = int 50
   \<and> prefix (cmd_get_name (int 50)) ''x_feedrate_maximum''
   \<and> \<not> prefix (cmd_get_token (int 49)) ''x_feedrate_maximum''
   \<and> \<not> prefix (cmd_get_name (int 49)) ''x_feedrate_maximum''"
proof -
  have r: "cmd_get_index ''x_feedrate_maximum'' = int 50" by code_simp
  have n: "prefix (cmd_get_name (int 50)) ''x_feedrate_maximum''" by code_simp
  from cmd_get_index_least_stored_prefix [of "''x_feedrate_maximum''" 50] r
  have a: "\<forall>j < 50. \<not> (prefix (cmd_get_token (int j)) ''x_feedrate_maximum''
                     \<or> prefix (cmd_get_name (int j)) ''x_feedrate_maximum'')"
    by blast
  have "(49::nat) < 50" by simp
  with a have "\<not> (prefix (cmd_get_token (int 49)) ''x_feedrate_maximum''
                     \<or> prefix (cmd_get_name (int 49)) ''x_feedrate_maximum'')"
    by blast
  with r n show ?thesis by blast
qed

text \<open>
  Claim C4, as amended. \<^verbatim>\<open>cmd_get_index_by_token\<close> compares the first four characters
  of the combined string and tests the end of the input only after a token of two or three
  characters. For every input \<open>s\<close> (a C string) it returns index \<open>i\<close> only when
  \<open>s\<close> begins with the token of descriptor \<open>i\<close> and then either ends there, or the
  token has the full four characters, or \<open>s\<close> goes on with the comma that follows the token
  in the combined string. An input that extends a token of fewer than four characters by
  anything but a comma never matches that token.
\<close>

theorem cmd_get_index_by_token_match:
  assumes "NUL \<notin> set s" and "cmd_get_index_by_token s = int i"
  shows "prefix (cmd_get_token (int i)) s
         \<and> (s = cmd_get_token (int i)
            \<or> length (cmd_get_token (int i)) = CMD_TOKEN_LEN
            \<or> cstr_nth s (length (cmd_get_token (int i))) = CHR '','')"
proof -
  let ?t = "strncpy (item_string (cfgArray ! i)) CMD_TOKEN_LEN"
  from assms(2) have i: "i < 198" and m: "token_matches ?t s"
    by (simp_all add: cmd_get_index_by_token_def first_index_some CMD_INDEX_MAX_eq)
  from token_fields(1) [OF i] obtain c0 c1 c2 c3 where t: "?t = [c0, c1, c2, c3]"
    by (auto simp: length_Suc_conv numeral_eq_Suc)
  from token_matches_sound [OF t _ assms(1) _ _ _ _ m] token_fields [OF i] t
  show ?thesis by (simp add: CMD_TOKEN_LEN_def)
qed

text \<open>
  Claim C4 as stated fails: the stored token \<open>line\<close> is a proper prefix of the input
  \<open>linex\<close>, which resolves to it.
\<close>

theorem cmd_get_index_by_token_longer_input_counterexample:
  "cmd_get_index_by_token ''linex'' = 3 \<and> cmd_get_token 3 = ''line''
   \<and> strict_prefix ''line'' ''linex''"
  by code_simp

text \<open>The token \<open>xfr\<close> resolves to descriptor 50.\<close>

theorem cmd_get_index_by_token_match_witness:
  "NUL \<notin> set ''xfr'' \<and> cmd_get_index_by_token ''xfr'' = int 50
   \<and> prefix (cmd_get_token (int 50)) ''xfr'' \<and> ''xfr'' = cmd_get_token (int 50)"
proof -
  have a: "NUL \<notin> set ''xfr''" by simp
  have b: "cmd_get_index_by_token ''xfr'' = int 50" by code_simp
  have c: "''xfr'' = cmd_get_token (int 50)" by code_simp
  from cmd_get_index_by_token_match [OF a b] a b c show ?thesis by blast
qed




section \<open>Group expansion\<close>

text \<open>
  Claim C6, as amended. Let \<open>G\<close> be the descriptor of an axis group (\<open>x\<close>, \<open>y\<close>, \<open>z\<close>,
  \<open>a\<close>, \<open>b\<close>, \<open>c\<close>: indices 188 to 193), and let the parent object carry exactly the
  group's token as its name and \<open>G\<close> as its index: \<^verbatim>\<open>_get_grp\<close> takes the prefix to
  match from \<^verbatim>\<open>cmd->name\<close> and the bound of its scan from \<^verbatim>\<open>cmd->index\<close>, not from
  the descriptor. Then \<^verbatim>\<open>cmd_get\<close> on \<open>G\<close> marks the object as parent and leaves a
  chain (followed as \<^verbatim>\<open>_print_grp\<close> follows it, for at least as many steps as there are
  children) whose objects carry, in ascending order, exactly the indices below \<open>G\<close> whose
  token begins with the axis letter, each with its token stripped of that letter.
\<close>

theorem axis_group_expansion:
  fixes K :: platform and p :: cptr and st :: state and n :: nat and G :: int
  defines "st' \<equiv> snd (cmd_get K G p st)"
  defines "kids \<equiv> filter (\<lambda>j. prefix (cmd_get_token G) (cmd_get_token (int j))) [0 ..< nat G]"
  assumes G: "G \<in> {188, 189, 190, 191, 192, 193}"
    and nm: "name (cmds st p) = cmd_get_token G" and ix: "index (cmds st p) = G"
    and n: "length kids \<le> n"
  shows "fst (cmd_get K G p st) = TG_OK
     \<and> value_type (cmds st' p) = VALUE_TYPE_PARENT
     \<and> length (cmd_get_token G) = 1
     \<and> map (\<lambda>q. index (cmds st' q)) (chain n p st') = map int kids
     \<and> map (\<lambda>q. token (cmds st' q)) (chain n p st')
         = map (\<lambda>j. drop 1 (cmd_get_token (int j))) kids"
proof -
  let ?tok = "cmd_get_token G"
  let ?st0 = "upd_cmd p (\<lambda>ob. ob\<lparr>value_type := VALUE_TYPE_PARENT\<rparr>) st"
  from G have Gr: "0 \<le> G" "G < CMD_INDEX_MAX" by (auto simp: CMD_INDEX_MAX_eq)
  from axis_group_facts [OF G] obtain a j0 where tok: "?tok = [a]"
    and gk: "item_get (cfgArray ! nat G) = Get_grp"
    and j0: "j0 < nat G" "prefix ?tok (cmd_get_token (int j0))"
    and grp: "\<And>j. 180 \<le> j \<Longrightarrow> j < nat G \<Longrightarrow> \<not> prefix ?tok (cmd_get_token (int j))"
    by blast
  from tok have len: "length ?tok = 1" by simp
  from j0 have ne: "kids \<noteq> []" by (auto simp: kids_def filter_empty_conv)
  have run: "cmd_get K G p st = (TG_OK, grp_scan K Get_grp ?tok (int (nat G)) (int 0) p ?st0)"
    using Gr(1,2) gk nm ix by (simp add: cmd_get_def run_get_def is_group_get_def)
  have st': "st' = grp_scan K Get_grp ?tok (int (nat G)) (int 0) p ?st0"
    by (simp add: st'_def run)
  have kids: "kids = filter (\<lambda>j. grp_match Get_grp ?tok (cmd_get_token (int j))) [0 ..< nat G]"
    by (simp add: kids_def grp_match_def)
  have leaf: "int j < CMD_INDEX_MAX \<and> \<not> is_group_get (item_get (cfgArray ! j))"
    if "0 \<le> j" "j < nat G" "grp_match Get_grp ?tok (cmd_get_token (int j))" for j
  proof -
    from that(3) have "prefix ?tok (cmd_get_token (int j))" by (simp add: grp_match_def)
    with grp that(2) have "j < 180" by (meson not_le_imp_less)
    with singles_not_group(2) [of "int j"] show ?thesis by (simp add: CMD_INDEX_MAX_eq)
  qed
  note S = grp_scan_single [where i = 0 and n = "nat G" and g = Get_grp and grp = ?tok
      and K = K and c = p and st = ?st0, OF leaf, folded kids st']
  from S have par: "cmds st' p = (cmds ?st0 p)\<lparr>nx := Some (ptr_succ p)\<rparr>"
    using ne by simp
  have child: "index (cmds st' ((ptr_succ ^^ Suc k) p)) = int (kids ! k)"
    "token (cmds st' ((ptr_succ ^^ Suc k) p))
       = strncpy (drop (length ?tok) (cmd_get_token (int (kids ! k)))) (CMD_TOKEN_LEN + 1)"
    "nx (cmds st' ((ptr_succ ^^ Suc k) p))
       = (if Suc k < length kids then Some ((ptr_succ ^^ Suc (Suc k)) p) else None)"
    if "k < length kids" for k
    using S that by simp_all
  have links: "nx (cmds st' ((ptr_succ ^^ k) p)) = Some ((ptr_succ ^^ Suc k) p)"
    if "k < length kids" for k
  proof (cases k)
    case 0
    then show ?thesis using par by simp
  next
    case (Suc k')
    with that child(3) [of k'] show ?thesis by simp
  qed
  have last: "nx (cmds st' ((ptr_succ ^^ length kids) p)) = None"
  proof -
    from ne obtain m where m: "length kids = Suc m" by (cases kids) simp_all
    with child(3) [of m] show ?thesis by simp
  qed
  have ch: "chain n p st' = map (\<lambda>k. (ptr_succ ^^ Suc k) p) [0 ..< length kids]"
    by (rule chain_links [OF links last n])
  have short: "strncpy (drop (length ?tok) (cmd_get_token j)) (Suc CMD_TOKEN_LEN)
      = drop (Suc 0) (cmd_get_token j)" for j
  proof -
    have "length (cmd_get_token j) \<le> CMD_TOKEN_LEN + 1"
      by (simp add: cmd_get_token_def before_comma_def strncpy_def
          order_trans [OF length_takeWhile_le])
    then show ?thesis by (simp add: strncpy_def len)
  qed
  have i: "map (\<lambda>q. index (cmds st' q)) (chain n p st') = map int kids"
    unfolding ch by (rule nth_equalityI) (simp_all add: child(1) del: funpow.simps)
  have tk: "map (\<lambda>q. token (cmds st' q)) (chain n p st')
         = map (\<lambda>j. drop 1 (cmd_get_token (int j))) kids"
    unfolding ch by (rule nth_equalityI) (simp_all add: child(2) short del: funpow.simps)
  from par have "value_type (cmds st' p) = VALUE_TYPE_PARENT" by simp
  with run len i tk show ?thesis by simp
qed

text \<open>
  Claim C6 as stated fails at the line \<open>$xx\<close>: the token \<open>x\<close> of the X axis group is a
  prefix of \<open>xx\<close>, so the parser resolves the line to the group descriptor 188 and leaves
  \<open>xx\<close> as the object's name. \<^verbatim>\<open>_get_grp\<close> then looks for the tokens that begin with
  \<open>xx\<close> and links no child, although tokens below 188 (that of descriptor 49, for one)
  begin with the axis letter.
\<close>

theorem axis_group_name_counterexample:
  "cmd_get_token 188 = ''x'' \<and> item_get (cfgArray ! 188) = Get_grp
   \<and> prefix (cmd_get_token 188) (cmd_get_token 49)
   \<and> fst (parse_config_string K0 ''$xx'' (CA 0) st0) = TG_OK
   \<and> index (cmds (snd (parse_config_string K0 ''$xx'' (CA 0) st0)) (CA 0)) = 188
   \<and> name (cmds (snd (parse_config_string K0 ''$xx'' (CA 0) st0)) (CA 0)) = ''xx''
   \<and> fst (cmd_get K0 188 (CA 0) (snd (parse_config_string K0 ''$xx'' (CA 0) st0))) = TG_OK
   \<and> chain 21 (CA 0) (snd (cmd_get K0 188 (CA 0)
         (snd (parse_config_string K0 ''$xx'' (CA 0) st0)))) = []"
proof -
  let ?st3 = "snd (parse_config_string K0 ''$xx'' (CA 0) st0)"
  have t: "map tolower (if cstr_nth ''$xx'' 0 = CHR ''$'' then drop 1 ''$xx'' else ''$xx'')
             = ''xx''"
    by code_simp
  have w: "takeWhile (\<lambda>c. c \<notin> set separators) ''xx'' = ''xx''" by code_simp
  have r: "cmd_get_index ''xx'' = 188" by code_simp
  have x: "cmd_get_token 188 = ''x''" "prefix (cmd_get_token 188) (cmd_get_token 49)"
    by code_simp+
  have gk: "item_get (cfgArray ! 188) = Get_grp" by code_simp
  have "parse_config_string K0 ''$xx'' (CA 0) st0
          = parse_fields K0 ''xx'' (CA 0) (cmd_new_object (CA 0) st0)"
    unfolding parse_config_string_def t ..
  then have p: "fst (parse_config_string K0 ''$xx'' (CA 0) st0) = TG_OK"
    "index (cmds ?st3 (CA 0)) = 188" "name (cmds ?st3 (CA 0)) = ''xx''"
    "nx (cmds ?st3 (CA 0)) = None"
    unfolding parse_fields_def w Let_def
    by (simp_all add: r upd_cmd_def CMD_INDEX_START_GROUPS_eq cmd_new_object_def new_object_def
        strncpy_def CMD_NAME_LEN_def)
  let ?st4 = "upd_cmd (CA 0) (\<lambda>ob. ob\<lparr>value_type := VALUE_TYPE_PARENT\<rparr>) ?st3"
  let ?st5 = "grp_scan K0 Get_grp ''xx'' 188 0 (CA 0) ?st4"
  have nomatch: "\<not> grp_match Get_grp ''xx'' (cmd_get_token (int j))" for j
  proof (cases "j < 198")
    case True
    have "list_all (\<lambda>e. \<not> prefix ''xx''
            (before_comma (strncpy (item_string e) (CMD_TOKEN_LEN + 1)))) cfgArray"
      by code_simp
    with True show ?thesis
      by (simp add: list_all_length cfgArray_length grp_match_def cmd_get_token_def
          CMD_INDEX_MAX_eq)
  next
    case False
    then show ?thesis by (simp add: grp_match_def cmd_get_token_def CMD_INDEX_MAX_eq)
  qed
  have "cmds ?st5 (CA 0) = (cmds ?st4 (CA 0))\<lparr>nx := nx (cmds ?st4 (CA 0))\<rparr>"
    using grp_scan_single [where i = 0 and n = 188 and g = Get_grp and grp = "''xx''"
        and K = K0 and c = "CA 0" and st = ?st4] nomatch
    by simp
  then have n5: "nx (cmds ?st5 (CA 0)) = None" using p(4) by simp
  have g: "cmd_get K0 188 (CA 0) ?st3 = (TG_OK, ?st5)"
    using gk p by (simp add: cmd_get_def run_get_def is_group_get_def CMD_INDEX_MAX_eq)
  have "chain 21 (CA 0) ?st5 = []"
    using n5 by (simp add: numeral_eq_Suc)
  with x gk p(1-3) g show ?thesis by simp
qed

text \<open>The X axis group (descriptor 188) expands to the descriptors 49 to 60.\<close>

theorem axis_group_expansion_witness:
  "(188::int) \<in> {188, 189, 190, 191, 192, 193}
   \<and> name (cmds (upd_cmd (CA 0) (\<lambda>ob. ob\<lparr>name := ''x'', index := 188\<rparr>) st0) (CA 0))
       = cmd_get_token 188
   \<and> map (\<lambda>q. index (cmds (snd (cmd_get K0 188 (CA 0)
             (upd_cmd (CA 0) (\<lambda>ob. ob\<lparr>name := ''x'', index := 188\<rparr>) st0))) q))
        (chain 21 (CA 0) (snd (cmd_get K0 188 (CA 0)
             (upd_cmd (CA 0) (\<lambda>ob. ob\<lparr>name := ''x'', index := 188\<rparr>) st0))))
       = [49, 50, 51, 52, 53, 54, 55, 56, 57, 58, 59, 60]
   \<and> map (\<lambda>q. token (cmds (snd (cmd_get K0 188 (CA 0)
             (upd_cmd (CA 0) (\<lambda>ob. ob\<lparr>name := ''x'', index := 188\<rparr>) st0))) q))
        (chain 21 (CA 0) (snd (cmd_get K0 188 (CA 0)
             (upd_cmd (CA 0) (\<lambda>ob. ob\<lparr>name := ''x'', index := 188\<rparr>) st0))))
       = [''am'', ''fr'', ''vm'', ''tm'', ''jm'', ''jd'', ''sm'', ''sv'', ''lv'', ''zo'',
          ''abs'', ''pos'']"
proof -
  let ?st = "upd_cmd (CA 0) (\<lambda>ob. ob\<lparr>name := ''x'', index := 188\<rparr>) st0"
  have G: "(188::int) \<in> {188, 189, 190, 191, 192, 193}" by simp
  have t: "cmd_get_token 188 = ''x''" by code_simp
  have nm: "name (cmds ?st (CA 0)) = cmd_get_token 188" by (simp add: t)
  have ix: "index (cmds ?st (CA 0)) = 188" by simp
  have k0: "filter (\<lambda>j. prefix (cmd_get_token 188) (cmd_get_token (int j))) [0 ..< 188]
             = [49, 50, 51, 52, 53, 54, 55, 56, 57, 58, 59, 60]"
    by code_simp
  have k: "filter (\<lambda>j. prefix (cmd_get_token 188) (cmd_get_token (int j))) [0 ..< nat 188]
             = [49, 50, 51, 52, 53, 54, 55, 56, 57, 58, 59, 60]"
    using k0 by simp
  have tk: "map (\<lambda>j. drop 1 (cmd_get_token (int j)))
              [49, 50, 51, 52, 53, 54, 55, 56, 57, 58, 59, 60]
            = [''am'', ''fr'', ''vm'', ''tm'', ''jm'', ''jd'', ''sm'', ''sv'', ''lv'', ''zo'',
               ''abs'', ''pos'']"
    by code_simp
  have n: "length (filter (\<lambda>j. prefix (cmd_get_token 188) (cmd_get_token (int j)))
             [0 ..< nat 188]) \<le> 21"
    unfolding k by simp
  from axis_group_expansion [OF G nm ix n, of K0] G nm
  show ?thesis unfolding k tk by simp
qed

section \<open>The text command parser\<close>

text \<open>
  Claim C7, as amended. After an optional leading \<open>$\<close> is dropped and the line is
  lower-cased, \<^verbatim>\<open>_parse_config_string\<close> cuts it at the first character of the set
  \<open>{space, =, :, |, tab}\<close> (the code's separator string holds the vertical bar as well). The
  left side, cut to \<^verbatim>\<open>CMD_NAME_LEN\<close> characters, is the name that is resolved; the right
  side goes to \<^verbatim>\<open>strtod\<close>, whose value becomes the object's value, and the kind is float
  when \<^verbatim>\<open>strtod\<close> converted something and null otherwise; a line without separator has
  the kind null. In either case a name that resolves to an index at or above
  \<^verbatim>\<open>CMD_INDEX_START_GROUPS\<close> gets the kind parent instead. The status is
  \<^verbatim>\<open>TG_UNRECOGNIZED_COMMAND\<close> exactly when the name resolves to no descriptor.
\<close>

theorem parse_config_string_splits_at_first_separator:
  fixes K :: platform and str :: string and p :: cptr and st :: state
  defines "line \<equiv> map tolower (if cstr_nth str 0 = CHR ''$'' then drop 1 str else str)"
  defines "ob \<equiv> cmds (snd (parse_config_string K str p st)) p"
  shows "set separators = {CHR '' '', CHR ''='', CHR '':'', CHR ''|'', CHR 0x09}
     \<and> index ob = cmd_get_index (name ob)
     \<and> fst (parse_config_string K str p st)
         = (if index ob = - 1 then TG_UNRECOGNIZED_COMMAND else TG_OK)
     \<and> (set line \<inter> set separators = {} \<longrightarrow>
          name ob = take CMD_NAME_LEN line \<and> val ob = 0
          \<and> value_type ob = (if CMD_INDEX_START_GROUPS \<le> index ob then VALUE_TYPE_PARENT
                              else VALUE_TYPE_NULL))
     \<and> (\<forall>l c r. line = l @ c # r \<and> c \<in> set separators \<and> set l \<inter> set separators = {} \<longrightarrow>
          name ob = take CMD_NAME_LEN l \<and> val ob = fst (strtod K r)
          \<and> value_type ob = (if CMD_INDEX_START_GROUPS \<le> index ob then VALUE_TYPE_PARENT
                              else if snd (strtod K r) \<noteq> 0 then VALUE_TYPE_FLOAT
                              else VALUE_TYPE_NULL))"
proof -
  have sep: "set separators = {CHR '' '', CHR ''='', CHR '':'', CHR ''|'', CHR 0x09}"
    by (auto simp: separators_def)
  have idx: "index ob = cmd_get_index (name ob)"
    unfolding ob_def parse_config_string_def parse_fields_def
    by (simp add: Let_def upd_cmd_def cmd_new_object_def)
  have stat: "fst (parse_config_string K str p st)
         = (if index ob = - 1 then TG_UNRECOGNIZED_COMMAND else TG_OK)"
    unfolding ob_def parse_config_string_def parse_fields_def
    by (simp add: Let_def upd_cmd_def cmd_new_object_def)
  have none: "name ob = take CMD_NAME_LEN line \<and> val ob = 0
          \<and> value_type ob = (if CMD_INDEX_START_GROUPS \<le> index ob then VALUE_TYPE_PARENT
                              else VALUE_TYPE_NULL)"
    if "set line \<inter> set separators = {}"
  proof -
    from that have tw: "takeWhile (\<lambda>c. c \<notin> set separators) line = line"
      by (auto simp: takeWhile_eq_all_conv)
    show ?thesis
      unfolding ob_def parse_config_string_def line_def [symmetric] parse_fields_def tw
      by (simp add: Let_def upd_cmd_def cmd_new_object_def new_object_def strncpy_def
          CMD_INDEX_START_GROUPS_eq)
  qed
  have some: "name ob = take CMD_NAME_LEN l \<and> val ob = fst (strtod K r)
          \<and> value_type ob = (if CMD_INDEX_START_GROUPS \<le> index ob then VALUE_TYPE_PARENT
                              else if snd (strtod K r) \<noteq> 0 then VALUE_TYPE_FLOAT
                              else VALUE_TYPE_NULL)"
    if "line = l @ c # r" and "c \<in> set separators" and "set l \<inter> set separators = {}"
    for l c r
  proof -
    from that have tw: "takeWhile (\<lambda>c. c \<notin> set separators) line = l"
      by (auto simp: takeWhile_append2 disjoint_iff)
    have dr: "drop (Suc (length l)) line = r" "length l \<noteq> length line"
      using that(1) by simp_all
    show ?thesis
      unfolding ob_def parse_config_string_def line_def [symmetric] parse_fields_def tw
      by (simp add: dr Let_def upd_cmd_def cmd_new_object_def new_object_def strncpy_def
          CMD_INDEX_START_GROUPS_eq)
  qed
  from sep idx stat none some show ?thesis by blast
qed

text \<open>
  Claim C7 as stated fails: the vertical bar is none of space, \<open>=\<close>, \<open>:\<close> and tab, and the
  line \<open>xfr|5\<close> is split at it into the name \<open>xfr\<close> and the value 5.
\<close>

theorem parse_config_string_vertical_bar_counterexample:
  "name (cmds (snd (parse_config_string K0 ''xfr|5'' (CA 0) st0)) (CA 0)) = ''xfr''
   \<and> val (cmds (snd (parse_config_string K0 ''xfr|5'' (CA 0) st0)) (CA 0)) = 5
   \<and> value_type (cmds (snd (parse_config_string K0 ''xfr|5'' (CA 0) st0)) (CA 0))
       = VALUE_TYPE_FLOAT"
proof -
  have t: "map tolower (if cstr_nth ''xfr|5'' 0 = CHR ''$'' then drop 1 ''xfr|5'' else ''xfr|5'')
             = ''xfr|5''"
    by code_simp
  have w: "takeWhile (\<lambda>c. c \<notin> set separators) ''xfr|5'' = ''xfr''" by code_simp
  have d: "strtod K0 (drop (Suc (length ''xfr'')) ''xfr|5'') = (5, 1)"
    by (simp add: K0_def strtod_decimal_def isspace_def isdigit_def cstr_nth_def
        digits_value_def Let_def)
  have r: "cmd_get_index (strncpy ''xfr'' CMD_NAME_LEN) = 50" by code_simp
  have "parse_config_string K0 ''xfr|5'' (CA 0) st0
          = parse_fields K0 ''xfr|5'' (CA 0) (cmd_new_object (CA 0) st0)"
    unfolding parse_config_string_def t ..
  then show ?thesis
    unfolding parse_fields_def w Let_def d
    by (simp add: r upd_cmd_def CMD_INDEX_START_GROUPS_eq)
      (simp add: strncpy_def CMD_NAME_LEN_def)
qed

text \<open>The line \<open>$XFR=1200\<close>: the name \<open>xfr\<close>, the value 1200, the kind float.\<close>

theorem parse_config_string_splits_at_first_separator_witness:
  "map tolower ''XFR=1200'' = ''xfr'' @ CHR ''='' # ''1200''
   \<and> CHR ''='' \<in> set separators \<and> set ''xfr'' \<inter> set separators = {}
   \<and> name (cmds (snd (parse_config_string K0 ''$XFR=1200'' (CA 0) st0)) (CA 0)) = ''xfr''
   \<and> val (cmds (snd (parse_config_string K0 ''$XFR=1200'' (CA 0) st0)) (CA 0)) = 1200"
proof -
  have t: "map tolower (if cstr_nth ''$XFR=1200'' 0 = CHR ''$'' then drop 1 ''$XFR=1200''
             else ''$XFR=1200'') = ''xfr'' @ CHR ''='' # ''1200''"
    by code_simp
  have t': "map tolower ''XFR=1200'' = ''xfr'' @ CHR ''='' # ''1200''" by code_simp
  have c: "CHR ''='' \<in> set separators" by (simp add: separators_def)
  have l: "set ''xfr'' \<inter> set separators = {}" by (simp add: separators_def)
  have d: "strtod K0 ''1200'' = (1200, 4)"
    by (simp add: K0_def strtod_decimal_def isspace_def isdigit_def cstr_nth_def
        digits_value_def Let_def)
  from parse_config_string_splits_at_first_separator [of K0 "''$XFR=1200''" "CA 0" st0]
  have "\<forall>l c r. map tolower (if cstr_nth ''$XFR=1200'' 0 = CHR ''$'' then drop 1 ''$XFR=1200''
             else ''$XFR=1200'') = l @ c # r \<and> c \<in> set separators
           \<and> set l \<inter> set separators = {} \<longrightarrow>
         name (cmds (snd (parse_config_string K0 ''$XFR=1200'' (CA 0) st0)) (CA 0))
           = take CMD_NAME_LEN l
         \<and> val (cmds (snd (parse_config_string K0 ''$XFR=1200'' (CA 0) st0)) (CA 0))
           = fst (strtod K0 r)"
    by blast
  with t c l have "name (cmds (snd (parse_config_string K0 ''$XFR=1200'' (CA 0) st0)) (CA 0))
           = take CMD_NAME_LEN ''xfr''
         \<and> val (cmds (snd (parse_config_string K0 ''$XFR=1200'' (CA 0) st0)) (CA 0))
           = fst (strtod K0 ''1200'')"
    by blast
  with t' c l d show ?thesis by (simp add: CMD_NAME_LEN_def)
qed

text \<open>
  Claim C8, as amended. For every command line whose name part (the lower-cased text before
  the first separator, cut to \<^verbatim>\<open>CMD_NAME_LEN\<close> characters) resolves to no descriptor,
  for example \<open>$qqq=5\<close>, \<^verbatim>\<open>cfg_config_parser\<close> returns
  \<^verbatim>\<open>TG_UNRECOGNIZED_COMMAND\<close> before any dispatch: the parameter storage, the EEPROM
  records, the list of EEPROM writes and the calls to other subsystems are as before, with
  or without a number on the line. (The line \<open>$zzz=5\<close> is not such a line: the token
  \<open>z\<close> of the Z axis group is a prefix of \<open>zzz\<close>.)
\<close>

theorem cfg_config_parser_rejects_unresolved_name:
  fixes K :: platform and str :: string and st :: state and d :: nat
  defines "nm \<equiv> strncpy (takeWhile (\<lambda>c. c \<notin> set separators)
                     (map tolower (if cstr_nth str 0 = CHR ''$'' then drop 1 str else str)))
                   CMD_NAME_LEN"
  defines "st' \<equiv> snd (parse_config_string K str (CA 0) st)"
  assumes "cmd_get_index nm = - 1"
  shows "cfg_config_parser d K str st = Some (TG_UNRECOGNIZED_COMMAND, st')
     \<and> mem8 st' = mem8 st \<and> mem32 st' = mem32 st \<and> memd st' = memd st
     \<and> nvm st' = nvm st \<and> nvm_log st' = nvm_log st \<and> ext_log st' = ext_log st
     \<and> in_buf st' = in_buf st"
proof -
  have nm: "name (cmds (snd (parse_config_string K str (CA 0) st)) (CA 0)) = nm"
    unfolding parse_config_string_def parse_fields_def nm_def
    by (simp add: Let_def upd_cmd_def cmd_new_object_def)
  have p: "parse_config_string K str (CA 0) st = (TG_UNRECOGNIZED_COMMAND, st')"
    using assms(3) unfolding st'_def nm_def parse_config_string_def parse_fields_def
    by (simp add: Let_def upd_cmd_def cmd_new_object_def)
  have f: "mem8 st' = mem8 st \<and> mem32 st' = mem32 st \<and> memd st' = memd st
     \<and> nvm st' = nvm st \<and> nvm_log st' = nvm_log st \<and> ext_log st' = ext_log st
     \<and> in_buf st' = in_buf st"
    unfolding st'_def parse_config_string_def parse_fields_def
    by (simp add: Let_def upd_cmd_def cmd_new_object_def)
  from p f show ?thesis by (simp add: cfg_config_parser_def)
qed

text \<open>
  Claim C8 as stated fails at its own example: the line \<open>$zzz=5\<close> resolves to descriptor
  190, the Z axis group, and \<^verbatim>\<open>cfg_config_parser\<close> returns \<^verbatim>\<open>TG_OK\<close>.
\<close>

theorem cfg_config_parser_zzz_counterexample:
  "index (cmds (snd (parse_config_string K0 ''$zzz=5'' (CA 0) st0)) (CA 0)) = 190
   \<and> cmd_get_token 190 = ''z''
   \<and> map_option fst (cfg_config_parser 1 K0 ''$zzz=5'' st0) = Some TG_OK"
proof -
  let ?st3 = "snd (parse_config_string K0 ''$zzz=5'' (CA 0) st0)"
  have t: "map tolower (if cstr_nth ''$zzz=5'' 0 = CHR ''$'' then drop 1 ''$zzz=5''
             else ''$zzz=5'') = ''zzz=5''"
    by code_simp
  have w: "takeWhile (\<lambda>c. c \<notin> set separators) ''zzz=5'' = ''zzz''" by code_simp
  have d: "strtod K0 (drop (Suc (length ''zzz'')) ''zzz=5'') = (5, 1)"
    by (simp add: K0_def strtod_decimal_def isspace_def isdigit_def cstr_nth_def
        digits_value_def Let_def)
  have r: "cmd_get_index ''zzz'' = 190" by code_simp
  have z: "cmd_get_token 190 = ''z''" by code_simp
  have pg: "item_print (cfgArray ! nat 190) = Print_grp" "item_get (cfgArray ! nat 190) = Get_grp"
    by code_simp+
  have "parse_config_string K0 ''$zzz=5'' (CA 0) st0
          = parse_fields K0 ''zzz=5'' (CA 0) (cmd_new_object (CA 0) st0)"
    unfolding parse_config_string_def t ..
  then have p: "fst (parse_config_string K0 ''$zzz=5'' (CA 0) st0) = TG_OK"
    "index (cmds ?st3 (CA 0)) = 190" "name (cmds ?st3 (CA 0)) = ''zzz''"
    "value_type (cmds ?st3 (CA 0)) = VALUE_TYPE_PARENT" "nx (cmds ?st3 (CA 0)) = None"
    unfolding parse_fields_def w Let_def d
    by (simp_all add: r upd_cmd_def CMD_INDEX_START_GROUPS_eq cmd_new_object_def new_object_def
        strncpy_def CMD_NAME_LEN_def)
  let ?st4 = "upd_cmd (CA 0) (\<lambda>ob. ob\<lparr>value_type := VALUE_TYPE_PARENT\<rparr>) ?st3"
  let ?st5 = "grp_scan K0 Get_grp ''zzz'' 190 0 (CA 0) ?st4"
  have nomatch: "\<not> grp_match Get_grp ''zzz'' (cmd_get_token (int j))" for j
  proof (cases "j < 198")
    case True
    have "list_all (\<lambda>e. \<not> prefix ''zzz''
            (before_comma (strncpy (item_string e) (CMD_TOKEN_LEN + 1)))) cfgArray"
      by code_simp
    with True show ?thesis
      by (simp add: list_all_length cfgArray_length grp_match_def cmd_get_token_def
          CMD_INDEX_MAX_eq)
  next
    case False
    then show ?thesis by (simp add: grp_match_def cmd_get_token_def CMD_INDEX_MAX_eq)
  qed
  have "cmds ?st5 (CA 0) = (cmds ?st4 (CA 0))\<lparr>nx := nx (cmds ?st4 (CA 0))\<rparr>"
    using grp_scan_single [where i = 0 and n = 190 and g = Get_grp and grp = "''zzz''"
        and K = K0 and c = "CA 0" and st = ?st4] nomatch
    by simp
  then have n5: "nx (cmds ?st5 (CA 0)) = None" using p(5) by simp
  have g: "cmd_get K0 190 (CA 0) ?st3 = (TG_OK, ?st5)"
    using pg p by (simp add: cmd_get_def run_get_def is_group_get_def CMD_INDEX_MAX_eq)
  have pr: "cmd_print 1 K0 190 ?st3 = Some ?st5"
    using pg p(2)
    by (simp add: cmd_print.simps CMD_INDEX_MAX_eq g print_grp_loop_no_children [OF n5])
  have "cfg_config_parser 1 K0 ''$zzz=5'' st0 = Some (TG_OK, ?st5)"
    using p(1,2,4) pr by (simp add: cfg_config_parser_def split_beta)
  with p(2) z show ?thesis by simp
qed

text \<open>The line \<open>$qqq=5\<close> is rejected.\<close>

theorem cfg_config_parser_rejects_unresolved_name_witness:
  "cmd_get_index (strncpy (takeWhile (\<lambda>c. c \<notin> set separators)
      (map tolower (if cstr_nth ''$qqq=5'' 0 = CHR ''$'' then drop 1 ''$qqq=5'' else ''$qqq=5'')))
      CMD_NAME_LEN) = - 1
   \<and> map_option fst (cfg_config_parser 1 K0 ''$qqq=5'' st0) = Some TG_UNRECOGNIZED_COMMAND
   \<and> nvm_log (snd (parse_config_string K0 ''$qqq=5'' (CA 0) st0)) = nvm_log st0
   \<and> memd (snd (parse_config_string K0 ''$qqq=5'' (CA 0) st0)) = memd st0"
proof -
  have a: "cmd_get_index (strncpy (takeWhile (\<lambda>c. c \<notin> set separators)
      (map tolower (if cstr_nth ''$qqq=5'' 0 = CHR ''$'' then drop 1 ''$qqq=5'' else ''$qqq=5'')))
      CMD_NAME_LEN) = - 1"
    by code_simp
  from cfg_config_parser_rejects_unresolved_name [OF a, of 1 K0 st0] a
  show ?thesis by simp
qed

section \<open>Typed accessors\<close>



section \<open>Persistence of a set from the command line\<close>

text \<open>
  Claim C10 at the line \<open>$g54=5\<close>. Descriptor 180 is the group \<open>g54\<close> (its bindings are
  \<^verbatim>\<open>_print_grp\<close>, \<^verbatim>\<open>_get_grp\<close>, \<^verbatim>\<open>_set_grp\<close>), but
  \<^verbatim>\<open>CMD_COUNT_GROUPS\<close> is 17 for the 18 group descriptors of the table, so
  \<^verbatim>\<open>CMD_INDEX_START_GROUPS\<close> is 181 and the parser does not mark the object as parent.
  \<^verbatim>\<open>cfg_config_parser\<close> then calls \<^verbatim>\<open>cmd_set\<close> and writes the value 5 to the EEPROM
  record 180: a group line triggers a durable write.
\<close>

theorem cfg_config_parser_g54_writes_nvm:
  "item_get (cfgArray ! 180) = Get_grp \<and> item_set (cfgArray ! 180) = Set_grp
   \<and> cmd_get_token 180 = ''g54'' \<and> CMD_INDEX_START_GROUPS = 181
   \<and> length (filter (\<lambda>e. item_print e = Print_grp) cfgArray) = 18
   \<and> map_option (\<lambda>r. (fst r, nvm_log (snd r))) (cfg_config_parser 1 K0 ''$g54=5'' st0)
       = Some (TG_OK, [(180, 5)])"
  by code_simp

end
